theory Spec2Isabelle
  imports Complex_Main
begin

section \<open>The framework's value types: QPoint, QSize, QRect\<close>

text \<open>
  Modelled from the spec: \<open>QPoint\<close>, \<open>QSize\<close> and \<open>QRect\<close> are value classes of
  the GUI framework the scene is written against; their declarations are not among the
  sources. The spec speaks of rectangles \<open>(x, y, width, height)\<close> and of clipping "via
  rectangle intersection"; the records below follow the framework's representation: a
  rectangle stores its left, top, right and bottom pixel (\<open>x1\<close>, \<open>y1\<close>, \<open>x2\<close>,
  \<open>y2\<close>, both ends inclusive), so that \<open>width = x2 - x1 + 1\<close>. The default
  rectangle \<open>QRect()\<close> is the null rectangle \<open>(0, 0, 0, 0)\<close>, the default size
  \<open>QSize()\<close> is \<open>(-1, -1)\<close>. Coordinates are \<open>int\<close>; the C++ \<open>int\<close> arithmetic
  is assumed not to overflow (signed overflow is undefined behaviour in the source).
\<close>

record QPoint =
  xp :: int
  yp :: int

record QSize =
  wd :: int
  ht :: int

record QRect =
  x1 :: int
  y1 :: int
  x2 :: int
  y2 :: int

definition QPoint_ctor :: "int \<Rightarrow> int \<Rightarrow> QPoint" where
  "QPoint_ctor px py = \<lparr>xp = px, yp = py\<rparr>"

definition QSize_ctor :: "int \<Rightarrow> int \<Rightarrow> QSize" where
  "QSize_ctor w h = \<lparr>wd = w, ht = h\<rparr>"

definition QSize_default :: QSize where
  "QSize_default = \<lparr>wd = - 1, ht = - 1\<rparr>"

text \<open>\<open>QRect(left, top, width, height)\<close>.\<close>

definition QRect_ctor :: "int \<Rightarrow> int \<Rightarrow> int \<Rightarrow> int \<Rightarrow> QRect" where
  "QRect_ctor l t w h = \<lparr>x1 = l, y1 = t, x2 = l + w - 1, y2 = t + h - 1\<rparr>"

text \<open>\<open>QRect()\<close>.\<close>

definition QRect_default :: QRect where
  "QRect_default = \<lparr>x1 = 0, y1 = 0, x2 = - 1, y2 = - 1\<rparr>"

definition rect_x :: "QRect \<Rightarrow> int" where
  "rect_x r = x1 r"

definition rect_y :: "QRect \<Rightarrow> int" where
  "rect_y r = y1 r"

definition rect_width :: "QRect \<Rightarrow> int" where
  "rect_width r = x2 r - x1 r + 1"

definition rect_height :: "QRect \<Rightarrow> int" where
  "rect_height r = y2 r - y1 r + 1"

text \<open>
  \<open>setX\<close> and \<open>setY\<close> move the left and top edge and keep the right and bottom one;
  \<open>setWidth\<close> and \<open>setHeight\<close> move the right and bottom edge.
\<close>

definition setX :: "int \<Rightarrow> QRect \<Rightarrow> QRect" where
  "setX v r = r\<lparr>x1 := v\<rparr>"

definition setY :: "int \<Rightarrow> QRect \<Rightarrow> QRect" where
  "setY v r = r\<lparr>y1 := v\<rparr>"

definition setWidth :: "int \<Rightarrow> QRect \<Rightarrow> QRect" where
  "setWidth w r = r\<lparr>x2 := x1 r + w - 1\<rparr>"

definition setHeight :: "int \<Rightarrow> QRect \<Rightarrow> QRect" where
  "setHeight h r = r\<lparr>y2 := y1 r + h - 1\<rparr>"

definition isNull :: "QRect \<Rightarrow> bool" where
  "isNull r = (x2 r = x1 r - 1 \<and> y2 r = y1 r - 1)"

text \<open>
  The edges the framework's intersection works with: a rectangle of negative width or
  height is read with its two edges swapped.
\<close>

definition edge_left :: "QRect \<Rightarrow> int" where
  "edge_left r = (if x2 r - x1 r + 1 < 0 then x2 r else x1 r)"

definition edge_right :: "QRect \<Rightarrow> int" where
  "edge_right r = (if x2 r - x1 r + 1 < 0 then x1 r else x2 r)"

definition edge_top :: "QRect \<Rightarrow> int" where
  "edge_top r = (if y2 r - y1 r + 1 < 0 then y2 r else y1 r)"

definition edge_bottom :: "QRect \<Rightarrow> int" where
  "edge_bottom r = (if y2 r - y1 r + 1 < 0 then y1 r else y2 r)"

text \<open>
  Modelled from the spec: \<open>a.intersected(b)\<close>, the framework's "rectangle
  intersection" (its code is not among the sources): the null rectangle when either
  operand is null or the two do not overlap, otherwise the rectangle between the inner
  edges.
\<close>

definition intersected :: "QRect \<Rightarrow> QRect \<Rightarrow> QRect" where
  "intersected a b =
     (if isNull a \<or> isNull b then QRect_default
      else if edge_left a > edge_right b \<or> edge_left b > edge_right a then QRect_default
      else if edge_top a > edge_bottom b \<or> edge_top b > edge_bottom a then QRect_default
      else \<lparr>x1 = max (edge_left a) (edge_left b), y1 = max (edge_top a) (edge_top b),
            x2 = min (edge_right a) (edge_right b), y2 = min (edge_bottom a) (edge_bottom b)\<rparr>)"

section \<open>Floating-point values\<close>

text \<open>
  The device pixel ratio and the slicing ratio are C++ \<open>float\<close>s, single-precision
  binary floating-point numbers: 24 significant bits, the smallest normal binade
  \<open>2^-126\<close>, rounding to nearest with ties to the even significand. A finite
  \<open>float\<close> is modelled by the rational number it denotes, and every operation by the
  exact operation followed by the rounding \<open>round_to_float\<close>. Infinities and NaN are
  not modelled: a product of magnitude \<open>2^128\<close> or more is an infinity in the source,
  and its conversion to \<open>int\<close>, like that of any value outside the range of \<open>int\<close>,
  is undefined behaviour there.
\<close>

type_synonym cfloat = rat

text \<open>The number of binary digits of a natural number.\<close>

fun bit_length :: "nat \<Rightarrow> nat" where
  "bit_length n = (if n = 0 then 0 else Suc (bit_length (n div 2)))"

declare bit_length.simps [simp del]

definition pow2 :: "int \<Rightarrow> rat" where
  "pow2 k = (if 0 \<le> k then 2 ^ nat k else 1 / 2 ^ nat (- k))"

text \<open>The binade of a positive number \<open>v\<close>: the \<open>e\<close> with \<open>2^e \<le> v < 2^(e+1)\<close>.\<close>

definition binade :: "rat \<Rightarrow> int" where
  "binade v =
     (if 1 \<le> v then int (bit_length (nat \<lfloor>v\<rfloor>)) - 1
      else - int (bit_length (nat (\<lceil>1 / v\<rceil> - 1))))"

text \<open>Rounding to the nearest integer, a tie to the even one.\<close>

definition round_half_even :: "rat \<Rightarrow> int" where
  "round_half_even x =
     (let f = \<lfloor>x\<rfloor>; d = x - of_int f
      in if d < 1 / 2 then f else if 1 / 2 < d then f + 1 else if even f then f else f + 1)"

text \<open>
  Rounding to \<open>float\<close>: to the nearest multiple of the unit in the last place of the
  number's binade (of the binade \<open>2^-126\<close> for the subnormal numbers below it).
\<close>

definition round_to_float :: "rat \<Rightarrow> cfloat" where
  "round_to_float v =
     (if v = 0 then 0
      else
        (let e = max (binade \<bar>v\<bar>) (- 126); ulp = pow2 (e - 23)
         in sgn v * of_int (round_half_even (\<bar>v\<bar> / ulp)) * ulp))"

text \<open>The conversion of a \<open>float\<close> to \<open>int\<close> truncates towards zero.\<close>

definition float_to_int :: "cfloat \<Rightarrow> int" where
  "float_to_int q = (if q < 0 then \<lceil>q\<rceil> else \<lfloor>q\<rfloor>)"

text \<open>
  \<open>n * p\<close> for an \<open>int n\<close> and a \<open>float p\<close>, passed where an \<open>int\<close> is expected
  (the argument of \<open>QRect::setX\<close> and of the \<open>QRect\<close> constructor): \<open>n\<close> is
  converted to \<open>float\<close>, the product is rounded to \<open>float\<close>, and the result is
  converted back to \<open>int\<close>.
\<close>

definition int_times_float :: "int \<Rightarrow> cfloat \<Rightarrow> int" where
  "int_times_float n p = float_to_int (round_to_float (round_to_float (of_int n) * p))"

text \<open>
  \<open>const float smallerViewPortRatio = 0.2f\<close>: the single-precision number nearest to one
  fifth, \<open>13421773 / 2^26\<close>.
\<close>

definition smallerViewPortRatio :: cfloat where
  "smallerViewPortRatio = 13421773 / 67108864"

section \<open>The scene\<close>

text \<open>
  Objects (the scene, cameras, lights) are known by their address; a pointer that may be
  null is an \<open>objptr option\<close>.
\<close>

type_synonym objptr = nat

text \<open>
  The signals the scene emits, in the order of emission, are kept in the field
  \<open>emitted\<close> of the state. No listener is attached in the model: a signal has no
  effect on the scene beyond being recorded.
\<close>

datatype signal =
    PrimarySubViewportChanged QRect
  | SecondarySubViewportChanged QRect
  | ViewportChanged QRect
  | SelectionQueryPositionChanged QPoint
  | SlicingActiveChanged bool
  | SecondarySubviewOnTopChanged bool
  | ActiveCameraChanged objptr
  | ActiveLightChanged objptr
  | DevicePixelRatioChanged cfloat
  | NeedRender

text \<open>
  \<open>Q3DSceneChangeBitField\<close>: one dirty flag for each attribute, as \<open>sync\<close> and the
  setters use them.
\<close>

record Q3DSceneChangeBitField =
  viewportChanged :: bool
  primarySubViewportChanged :: bool
  secondarySubViewportChanged :: bool
  subViewportOrderChanged :: bool
  cameraChanged :: bool
  lightChanged :: bool
  slicingActivatedChanged :: bool
  devicePixelRatioChanged :: bool
  selectionQueryPositionChanged :: bool
  windowSizeChanged :: bool

text \<open>
  The fields of \<open>Q3DScenePrivate\<close>. \<open>Q3DScene\<close> holds nothing but its private part
  (\<open>d_ptr\<close>), so one record stands for both; \<open>q_ptr\<close> is the address of the public
  object.
\<close>

record Q3DScenePrivate =
  q_ptr :: objptr
  m_changeTracker :: Q3DSceneChangeBitField
  m_viewport :: QRect
  m_primarySubViewport :: QRect
  m_secondarySubViewport :: QRect
  m_isSecondarySubviewOnTop :: bool
  m_devicePixelRatio :: cfloat
  m_camera :: "objptr option"
  m_light :: "objptr option"
  m_isUnderSideCameraEnabled :: bool
  m_isSlicingActive :: bool
  m_glViewport :: QRect
  m_glPrimarySubViewport :: QRect
  m_glSecondarySubViewport :: QRect
  m_selectionQueryPosition :: QPoint
  m_windowSize :: QSize
  m_sceneDirty :: bool
  emitted :: "signal list"

definition emit :: "signal \<Rightarrow> Q3DScenePrivate \<Rightarrow> Q3DScenePrivate" where
  "emit sg s = s\<lparr>emitted := emitted s @ [sg]\<rparr>"

definition invalidSelectionPoint :: QPoint where
  "invalidSelectionPoint = QPoint_ctor (- 1) (- 1)"

subsection \<open>Derived GL rectangles\<close>

definition updateGLSubViewports :: "Q3DScenePrivate \<Rightarrow> Q3DScenePrivate" where
  "updateGLSubViewports s =
     (let p = m_primarySubViewport s; v = m_viewport s; c = m_secondarySubViewport s;
          r = m_devicePixelRatio s; wh = ht (m_windowSize s);
          g1 = setX (int_times_float (rect_x p + rect_x v) r) (m_glPrimarySubViewport s);
          g2 = setY (int_times_float (wh - (rect_y p + rect_y v + rect_height p)) r) g1;
          g3 = setWidth (int_times_float (rect_width p) r) g2;
          g4 = setHeight (int_times_float (rect_height p) r) g3;
          k1 = setX (int_times_float (rect_x c) r) (m_glSecondarySubViewport s);
          k2 = setY (int_times_float (wh - (rect_y c + rect_y v + rect_height c)) r) k1;
          k3 = setWidth (int_times_float (rect_width c) r) k2;
          k4 = setHeight (int_times_float (rect_height c) r) k3
      in s\<lparr>m_glPrimarySubViewport := g4, m_glSecondarySubViewport := k4\<rparr>)"

definition updateGLViewport :: "Q3DScenePrivate \<Rightarrow> Q3DScenePrivate" where
  "updateGLViewport s =
     (let v = m_viewport s; r = m_devicePixelRatio s; wh = ht (m_windowSize s);
          g1 = setX (int_times_float (rect_x v) r) (m_glViewport s);
          g2 = setY (int_times_float (wh - (rect_y v + rect_height v)) r) g1;
          g3 = setWidth (int_times_float (rect_width v) r) g2;
          g4 = setHeight (int_times_float (rect_height v) r) g3;
          s1 = s\<lparr>m_glViewport := g4\<rparr>;
          s2 = s1\<lparr>m_changeTracker := (m_changeTracker s1)\<lparr>viewportChanged := True\<rparr>,
                   m_sceneDirty := True\<rparr>;
          s3 = updateGLSubViewports s2
      in emit (ViewportChanged (m_viewport s3)) s3)"

subsection \<open>Sub-viewports\<close>

definition setPrimarySubViewport :: "QRect \<Rightarrow> Q3DScenePrivate \<Rightarrow> Q3DScenePrivate" where
  "setPrimarySubViewport primarySubViewport s =
     (let clipRect = QRect_ctor 0 0 (rect_width (m_viewport s)) (rect_height (m_viewport s));
          intersectedViewport = intersected primarySubViewport clipRect
      in if m_primarySubViewport s \<noteq> intersectedViewport then
           (let s1 = s\<lparr>m_primarySubViewport := intersectedViewport\<rparr>;
                s2 = updateGLSubViewports s1;
                s3 = s2\<lparr>m_changeTracker :=
                          (m_changeTracker s2)\<lparr>primarySubViewportChanged := True\<rparr>,
                        m_sceneDirty := True\<rparr>
            in emit NeedRender (emit (PrimarySubViewportChanged intersectedViewport) s3))
         else s)"

definition setSecondarySubViewport :: "QRect \<Rightarrow> Q3DScenePrivate \<Rightarrow> Q3DScenePrivate" where
  "setSecondarySubViewport secondarySubViewport s =
     (let clipRect = QRect_ctor 0 0 (rect_width (m_viewport s)) (rect_height (m_viewport s));
          intersectedViewport = intersected secondarySubViewport clipRect
      in if m_secondarySubViewport s \<noteq> intersectedViewport then
           (let s1 = s\<lparr>m_secondarySubViewport := intersectedViewport\<rparr>;
                s2 = updateGLSubViewports s1;
                s3 = s2\<lparr>m_changeTracker :=
                          (m_changeTracker s2)\<lparr>secondarySubViewportChanged := True\<rparr>,
                        m_sceneDirty := True\<rparr>
            in emit NeedRender (emit (SecondarySubViewportChanged intersectedViewport) s3))
         else s)"

definition isPointInPrimarySubView :: "QPoint \<Rightarrow> Q3DScenePrivate \<Rightarrow> bool" where
  "isPointInPrimarySubView point s =
     (let x = xp point; y = yp point;
          areaMinX = rect_x (m_primarySubViewport s);
          areaMaxX = rect_x (m_viewport s) + rect_x (m_primarySubViewport s)
                     + rect_width (m_primarySubViewport s);
          areaMaxY = rect_y (m_viewport s) + rect_y (m_primarySubViewport s)
                     + rect_height (m_primarySubViewport s);
          areaMinY = rect_y (m_viewport s) + rect_y (m_primarySubViewport s)
      in x > areaMinX \<and> x < areaMaxX \<and> y > areaMinY \<and> y < areaMaxY)"

definition isPointInSecondarySubView :: "QPoint \<Rightarrow> Q3DScenePrivate \<Rightarrow> bool" where
  "isPointInSecondarySubView point s =
     (let x = xp point; y = yp point;
          areaMinX = rect_x (m_secondarySubViewport s);
          areaMaxX = rect_x (m_viewport s) + rect_x (m_secondarySubViewport s)
                     + rect_width (m_secondarySubViewport s);
          areaMaxY = rect_y (m_viewport s) + rect_y (m_secondarySubViewport s)
                     + rect_height (m_secondarySubViewport s);
          areaMinY = rect_y (m_viewport s) + rect_y (m_secondarySubViewport s)
      in x > areaMinX \<and> x < areaMaxX \<and> y > areaMinY \<and> y < areaMaxY)"

subsection \<open>Setters\<close>

definition setSelectionQueryPosition :: "QPoint \<Rightarrow> Q3DScenePrivate \<Rightarrow> Q3DScenePrivate" where
  "setSelectionQueryPosition point s =
     (if point \<noteq> m_selectionQueryPosition s then
        (let s1 = s\<lparr>m_selectionQueryPosition := point\<rparr>;
             s2 = s1\<lparr>m_changeTracker :=
                       (m_changeTracker s1)\<lparr>selectionQueryPositionChanged := True\<rparr>,
                     m_sceneDirty := True\<rparr>
         in emit NeedRender (emit (SelectionQueryPositionChanged point) s2))
      else s)"

definition calculateSubViewports :: "Q3DScenePrivate \<Rightarrow> Q3DScenePrivate" where
  "calculateSubViewports s =
     (let s2 =
        (if m_isSlicingActive s then
           (let s1 = setPrimarySubViewport
                       (QRect_ctor 0 0
                          (int_times_float (rect_width (m_viewport s)) smallerViewPortRatio)
                          (int_times_float (rect_height (m_viewport s)) smallerViewPortRatio)) s
            in setSecondarySubViewport
                 (QRect_ctor 0 0 (rect_width (m_viewport s1)) (rect_height (m_viewport s1))) s1)
         else
           (let s1 = setPrimarySubViewport
                       (QRect_ctor 0 0 (rect_width (m_viewport s)) (rect_height (m_viewport s))) s
            in setSecondarySubViewport (QRect_ctor 0 0 0 0) s1))
      in updateGLViewport s2)"

definition setSlicingActive :: "bool \<Rightarrow> Q3DScenePrivate \<Rightarrow> Q3DScenePrivate" where
  "setSlicingActive isSlicing s =
     (if m_isSlicingActive s \<noteq> isSlicing then
        (let s1 = s\<lparr>m_isSlicingActive := isSlicing\<rparr>;
             s2 = s1\<lparr>m_changeTracker :=
                       (m_changeTracker s1)\<lparr>slicingActivatedChanged := True\<rparr>,
                     m_sceneDirty := True\<rparr>;
             s3 = calculateSubViewports s2
         in emit NeedRender (emit (SlicingActiveChanged isSlicing) s3))
      else s)"

definition setSecondarySubviewOnTop :: "bool \<Rightarrow> Q3DScenePrivate \<Rightarrow> Q3DScenePrivate" where
  "setSecondarySubviewOnTop isSecondaryOnTop s =
     (if m_isSecondarySubviewOnTop s \<noteq> isSecondaryOnTop then
        (let s1 = s\<lparr>m_isSecondarySubviewOnTop := isSecondaryOnTop\<rparr>;
             s2 = s1\<lparr>m_changeTracker :=
                       (m_changeTracker s1)\<lparr>subViewportOrderChanged := True\<rparr>,
                     m_sceneDirty := True\<rparr>
         in emit NeedRender (emit (SecondarySubviewOnTopChanged isSecondaryOnTop) s2))
      else s)"

definition setDevicePixelRatio :: "cfloat \<Rightarrow> Q3DScenePrivate \<Rightarrow> Q3DScenePrivate" where
  "setDevicePixelRatio pixelRatio s =
     (if m_devicePixelRatio s \<noteq> pixelRatio then
        (let s1 = s\<lparr>m_devicePixelRatio := pixelRatio\<rparr>;
             s2 = s1\<lparr>m_changeTracker :=
                       (m_changeTracker s1)\<lparr>devicePixelRatioChanged := True\<rparr>,
                     m_sceneDirty := True\<rparr>;
             s3 = emit (DevicePixelRatioChanged pixelRatio) s2;
             s4 = updateGLViewport s3
         in emit NeedRender s4)
      else s)"

definition setViewport :: "QRect \<Rightarrow> Q3DScenePrivate \<Rightarrow> Q3DScenePrivate" where
  "setViewport viewport s =
     (if m_viewport s \<noteq> viewport then
        emit NeedRender (calculateSubViewports (s\<lparr>m_viewport := viewport\<rparr>))
      else s)"

definition setViewportSize :: "int \<Rightarrow> int \<Rightarrow> Q3DScenePrivate \<Rightarrow> Q3DScenePrivate" where
  "setViewportSize width height s =
     (if rect_width (m_viewport s) \<noteq> width \<or> rect_height (m_viewport s) \<noteq> height then
        emit NeedRender
          (calculateSubViewports
             (s\<lparr>m_viewport := setHeight height (setWidth width (m_viewport s))\<rparr>))
      else s)"

definition setWindowSize :: "QSize \<Rightarrow> Q3DScenePrivate \<Rightarrow> Q3DScenePrivate" where
  "setWindowSize sz s =
     (if m_windowSize s \<noteq> sz then
        (let s1 = s\<lparr>m_windowSize := sz\<rparr>;
             s2 = updateGLViewport s1;
             s3 = s2\<lparr>m_changeTracker := (m_changeTracker s2)\<lparr>windowSizeChanged := True\<rparr>,
                     m_sceneDirty := True\<rparr>
         in emit NeedRender s3)
      else s)"

definition windowSize :: "Q3DScenePrivate \<Rightarrow> QSize" where
  "windowSize s = m_windowSize s"

subsection \<open>Active camera and light\<close>

text \<open>
  What the scene touches of the objects around it: the \<open>QObject\<close> parent of each
  object, and the connections from a camera's signal to the slot \<open>needRender\<close> of a
  scene's private part (sender, signal, receiving scene). \<open>connect\<close> adds a connection,
  \<open>disconnect\<close> removes every connection of that sender, signal and receiver.
\<close>

datatype camera_signal = XRotationChanged | YRotationChanged | ZoomLevelChanged

record QObjects =
  parent :: "objptr \<Rightarrow> objptr option"
  connections :: "(objptr \<times> camera_signal \<times> objptr) list"

datatype failure = AssertionFailed | NullPointerDereference

definition setParent :: "objptr \<Rightarrow> objptr \<Rightarrow> QObjects \<Rightarrow> QObjects" where
  "setParent obj p h = h\<lparr>parent := (parent h)(obj := Some p)\<rparr>"

definition connect :: "objptr \<Rightarrow> camera_signal \<Rightarrow> objptr \<Rightarrow> QObjects \<Rightarrow> QObjects" where
  "connect sender sg receiver h = h\<lparr>connections := connections h @ [(sender, sg, receiver)]\<rparr>"

definition disconnect :: "objptr \<Rightarrow> camera_signal \<Rightarrow> objptr \<Rightarrow> QObjects \<Rightarrow> QObjects" where
  "disconnect sender sg receiver h =
     h\<lparr>connections := filter (\<lambda>c. c \<noteq> (sender, sg, receiver)) (connections h)\<rparr>"

text \<open>
  \<open>Q_ASSERT(camera)\<close> stops the program on a null pointer; without the assertion the
  next line dereferences the pointer. Both are the failure \<open>AssertionFailed\<close>.
\<close>

definition setActiveCamera ::
  "objptr option \<Rightarrow> QObjects \<times> Q3DScenePrivate \<Rightarrow> failure + QObjects \<times> Q3DScenePrivate" where
  "setActiveCamera camera w =
     (case camera of
        None \<Rightarrow> Inl AssertionFailed
      | Some c \<Rightarrow>
          (let h = fst w; s = snd w;
               h1 = (if parent h c \<noteq> Some (q_ptr s) then setParent c (q_ptr s) h else h)
           in if camera \<noteq> m_camera s then
                (let h2 = (case m_camera s of
                             None \<Rightarrow> h1
                           | Some old \<Rightarrow>
                               disconnect old ZoomLevelChanged (q_ptr s)
                                 (disconnect old YRotationChanged (q_ptr s)
                                    (disconnect old XRotationChanged (q_ptr s) h1)));
                     s1 = s\<lparr>m_camera := camera\<rparr>;
                     s2 = s1\<lparr>m_changeTracker := (m_changeTracker s1)\<lparr>cameraChanged := True\<rparr>,
                             m_sceneDirty := True\<rparr>;
                     h3 = connect c ZoomLevelChanged (q_ptr s)
                            (connect c YRotationChanged (q_ptr s)
                               (connect c XRotationChanged (q_ptr s) h2))
                 in Inr (h3, emit NeedRender (emit (ActiveCameraChanged c) s2)))
              else Inr (h1, s)))"

definition setActiveLight ::
  "objptr option \<Rightarrow> QObjects \<times> Q3DScenePrivate \<Rightarrow> failure + QObjects \<times> Q3DScenePrivate" where
  "setActiveLight light w =
     (case light of
        None \<Rightarrow> Inl AssertionFailed
      | Some l \<Rightarrow>
          (let h = fst w; s = snd w;
               h1 = (if parent h l \<noteq> Some (q_ptr s) then setParent l (q_ptr s) h else h)
           in if light \<noteq> m_light s then
                (let s1 = s\<lparr>m_light := light\<rparr>;
                     s2 = s1\<lparr>m_changeTracker := (m_changeTracker s1)\<lparr>lightChanged := True\<rparr>,
                             m_sceneDirty := True\<rparr>
                 in Inr (h1, emit (ActiveLightChanged l) s2))
              else Inr (h1, s)))"

subsection \<open>Construction\<close>

text \<open>
  The constructor of \<open>Q3DScenePrivate\<close>. The initial value of the change tracker is set
  by the constructor of \<open>Q3DSceneChangeBitField\<close>, and \<open>m_sceneDirty\<close> is not in the
  initialiser list; both are declared in a header that is not among the sources, so
  they are parameters here.
\<close>

definition Q3DScenePrivate_ctor ::
  "objptr \<Rightarrow> Q3DSceneChangeBitField \<Rightarrow> bool \<Rightarrow> Q3DScenePrivate" where
  "Q3DScenePrivate_ctor q tracker dirty =
     \<lparr>q_ptr = q, m_changeTracker = tracker,
      m_viewport = QRect_default, m_primarySubViewport = QRect_default,
      m_secondarySubViewport = QRect_default,
      m_isSecondarySubviewOnTop = True, m_devicePixelRatio = 1,
      m_camera = None, m_light = None,
      m_isUnderSideCameraEnabled = False, m_isSlicingActive = False,
      m_glViewport = QRect_default, m_glPrimarySubViewport = QRect_default,
      m_glSecondarySubViewport = QRect_default,
      m_selectionQueryPosition = invalidSelectionPoint,
      m_windowSize = QSize_default, m_sceneDirty = dirty, emitted = []\<rparr>"

text \<open>
  The constructor of \<open>Q3DScene\<close>: \<open>camera\<close> and \<open>light\<close> are the addresses of the
  freshly allocated \<open>Q3DCamera(0)\<close> and \<open>Q3DLight(0)\<close>, which have no parent yet.
\<close>

definition Q3DScene_ctor ::
  "objptr \<Rightarrow> objptr \<Rightarrow> objptr \<Rightarrow> Q3DSceneChangeBitField \<Rightarrow> bool \<Rightarrow> QObjects
     \<Rightarrow> failure + QObjects \<times> Q3DScenePrivate" where
  "Q3DScene_ctor this camera light tracker dirty h =
     (let h0 = h\<lparr>parent := (parent h)(camera := None, light := None)\<rparr>
      in case setActiveCamera (Some camera) (h0, Q3DScenePrivate_ctor this tracker dirty) of
           Inl e \<Rightarrow> Inl e
         | Inr w \<Rightarrow> setActiveLight (Some light) w)"

subsection \<open>Synchronisation\<close>

text \<open>
  \<open>sync\<close> works on the pair of the calling scene and the other scene; each of its
  blocks is one function on the pair, in the order of the source.
\<close>

type_synonym scenes = "Q3DScenePrivate \<times> Q3DScenePrivate"

definition sync_windowSize :: "scenes \<Rightarrow> scenes" where
  "sync_windowSize p =
     (let this = fst p; other = snd p
      in if windowSizeChanged (m_changeTracker this) then
           (let other1 = setWindowSize (windowSize this) other
            in (this\<lparr>m_changeTracker := (m_changeTracker this)\<lparr>windowSizeChanged := False\<rparr>\<rparr>,
                other1\<lparr>m_changeTracker := (m_changeTracker other1)\<lparr>windowSizeChanged := False\<rparr>\<rparr>))
         else (this, other))"

definition sync_viewport :: "scenes \<Rightarrow> scenes" where
  "sync_viewport p =
     (let this = fst p; other = snd p
      in if viewportChanged (m_changeTracker this) then
           (let other1 = setViewport (m_viewport this) other
            in (this\<lparr>m_changeTracker := (m_changeTracker this)\<lparr>viewportChanged := False\<rparr>\<rparr>,
                other1\<lparr>m_changeTracker := (m_changeTracker other1)\<lparr>viewportChanged := False\<rparr>\<rparr>))
         else (this, other))"

definition sync_subViewportOrder :: "scenes \<Rightarrow> scenes" where
  "sync_subViewportOrder p =
     (let this = fst p; other = snd p
      in if subViewportOrderChanged (m_changeTracker this) then
           (let other1 = setSecondarySubviewOnTop (m_isSecondarySubviewOnTop this) other
            in (this\<lparr>m_changeTracker :=
                       (m_changeTracker this)\<lparr>subViewportOrderChanged := False\<rparr>\<rparr>,
                other1\<lparr>m_changeTracker :=
                         (m_changeTracker other1)\<lparr>subViewportOrderChanged := False\<rparr>\<rparr>))
         else (this, other))"

definition sync_primarySubViewport :: "scenes \<Rightarrow> scenes" where
  "sync_primarySubViewport p =
     (let this = fst p; other = snd p
      in if primarySubViewportChanged (m_changeTracker this) then
           (let other1 = setPrimarySubViewport (m_primarySubViewport this) other
            in (this\<lparr>m_changeTracker :=
                       (m_changeTracker this)\<lparr>primarySubViewportChanged := False\<rparr>\<rparr>,
                other1\<lparr>m_changeTracker :=
                         (m_changeTracker other1)\<lparr>primarySubViewportChanged := False\<rparr>\<rparr>))
         else (this, other))"

definition sync_secondarySubViewport :: "scenes \<Rightarrow> scenes" where
  "sync_secondarySubViewport p =
     (let this = fst p; other = snd p
      in if secondarySubViewportChanged (m_changeTracker this) then
           (let other1 = setSecondarySubViewport (m_secondarySubViewport this) other
            in (this\<lparr>m_changeTracker :=
                       (m_changeTracker this)\<lparr>secondarySubViewportChanged := False\<rparr>\<rparr>,
                other1\<lparr>m_changeTracker :=
                         (m_changeTracker other1)\<lparr>secondarySubViewportChanged := False\<rparr>\<rparr>))
         else (this, other))"

definition sync_selectionQueryPosition :: "scenes \<Rightarrow> scenes" where
  "sync_selectionQueryPosition p =
     (let this = fst p; other = snd p
      in if selectionQueryPositionChanged (m_changeTracker this) then
           (let other1 = setSelectionQueryPosition (m_selectionQueryPosition this) other
            in (this\<lparr>m_changeTracker :=
                       (m_changeTracker this)\<lparr>selectionQueryPositionChanged := False\<rparr>\<rparr>,
                other1\<lparr>m_changeTracker :=
                         (m_changeTracker other1)\<lparr>selectionQueryPositionChanged := False\<rparr>\<rparr>))
         else (this, other))"

text \<open>
  The camera and the light are objects of their own: \<open>setDirty\<close> and the
  \<open>sync\<close> of their private parts write the fields of the camera and the light, not
  those of the scene, and their code is not part of the scene. Of these calls the
  model keeps what they need of the scene: that the pointers are not null.
\<close>

definition sync_camera :: "scenes \<Rightarrow> scenes" where
  "sync_camera p =
     (let this = fst p; other = snd p
      in if cameraChanged (m_changeTracker this) then
           (this\<lparr>m_changeTracker := (m_changeTracker this)\<lparr>cameraChanged := False\<rparr>\<rparr>,
            other\<lparr>m_changeTracker := (m_changeTracker other)\<lparr>cameraChanged := False\<rparr>\<rparr>)
         else (this, other))"

definition sync_light :: "scenes \<Rightarrow> scenes" where
  "sync_light p =
     (let this = fst p; other = snd p
      in if lightChanged (m_changeTracker this) then
           (this\<lparr>m_changeTracker := (m_changeTracker this)\<lparr>lightChanged := False\<rparr>\<rparr>,
            other\<lparr>m_changeTracker := (m_changeTracker other)\<lparr>lightChanged := False\<rparr>\<rparr>)
         else (this, other))"

definition sync_slicingActivated :: "scenes \<Rightarrow> scenes" where
  "sync_slicingActivated p =
     (let this = fst p; other = snd p
      in if slicingActivatedChanged (m_changeTracker this) then
           (let other1 = setSlicingActive (m_isSlicingActive this) other
            in (this\<lparr>m_changeTracker :=
                       (m_changeTracker this)\<lparr>slicingActivatedChanged := False\<rparr>\<rparr>,
                other1\<lparr>m_changeTracker :=
                         (m_changeTracker other1)\<lparr>slicingActivatedChanged := False\<rparr>\<rparr>))
         else (this, other))"

definition sync_devicePixelRatio :: "scenes \<Rightarrow> scenes" where
  "sync_devicePixelRatio p =
     (let this = fst p; other = snd p
      in if devicePixelRatioChanged (m_changeTracker this) then
           (let other1 = setDevicePixelRatio (m_devicePixelRatio this) other
            in (this\<lparr>m_changeTracker :=
                       (m_changeTracker this)\<lparr>devicePixelRatioChanged := False\<rparr>\<rparr>,
                other1\<lparr>m_changeTracker :=
                         (m_changeTracker other1)\<lparr>devicePixelRatioChanged := False\<rparr>\<rparr>))
         else (this, other))"

definition sync_upto_selection :: "scenes \<Rightarrow> scenes" where
  "sync_upto_selection p =
     sync_selectionQueryPosition
       (sync_secondarySubViewport
          (sync_primarySubViewport
             (sync_subViewportOrder (sync_viewport (sync_windowSize p)))))"

definition sync_finish :: "scenes \<Rightarrow> scenes" where
  "sync_finish p = ((fst p)\<lparr>m_sceneDirty := False\<rparr>, (snd p)\<lparr>m_sceneDirty := False\<rparr>)"

definition sync :: "Q3DScenePrivate \<Rightarrow> Q3DScenePrivate \<Rightarrow> failure + scenes" where
  "sync this other =
     (let p1 = sync_upto_selection (this, other)
      in if m_camera (fst p1) = None \<or> m_camera (snd p1) = None then Inl NullPointerDereference
         else
           (let p2 = sync_camera p1
            in if m_light (fst p2) = None \<or> m_light (snd p2) = None
               then Inl NullPointerDereference
               else Inr (sync_finish (sync_devicePixelRatio (sync_slicingActivated (sync_light p2))))))"

section \<open>Notions used to state the properties\<close>

text \<open>The clip rectangle of the sub-viewport setters, \<open>(0, 0, viewport width, viewport height)\<close>.\<close>

definition clipRect :: "Q3DScenePrivate \<Rightarrow> QRect" where
  "clipRect s = QRect_ctor 0 0 (rect_width (m_viewport s)) (rect_height (m_viewport s))"

text \<open>
  A rectangle does not extend outside a box: none of its four edges lies beyond the
  corresponding edge of the box.
\<close>

definition within_box :: "QRect \<Rightarrow> QRect \<Rightarrow> bool" where
  "within_box r b =
     (edge_left b \<le> x1 r \<and> x2 r \<le> edge_right b \<and> edge_top b \<le> y1 r \<and> y2 r \<le> edge_bottom b)"

subsection \<open>Concrete scenes\<close>

definition no_changes :: Q3DSceneChangeBitField where
  "no_changes =
     \<lparr>viewportChanged = False, primarySubViewportChanged = False,
      secondarySubViewportChanged = False, subViewportOrderChanged = False,
      cameraChanged = False, lightChanged = False, slicingActivatedChanged = False,
      devicePixelRatioChanged = False, selectionQueryPositionChanged = False,
      windowSizeChanged = False\<rparr>"

text \<open>
  A scene at address 1 as the constructor of its private part leaves it, with every flag
  of the change tracker clear, and with its camera at 2 and its light at 3.
\<close>

definition scene_new :: Q3DScenePrivate where
  "scene_new = (Q3DScenePrivate_ctor 1 no_changes False)\<lparr>m_camera := Some 2, m_light := Some 3\<rparr>"

text \<open>The same scene in a window of 800 by 600 pixels, the viewport filling the window.\<close>

definition scene_800x600 :: Q3DScenePrivate where
  "scene_800x600 =
     setViewport (QRect_ctor 0 0 800 600) (setWindowSize (QSize_ctor 800 600) scene_new)"

text \<open>A rectangle moved by \<open>(dx, dy)\<close>.\<close>

definition translated :: "QRect \<Rightarrow> int \<Rightarrow> int \<Rightarrow> QRect" where
  "translated r dx dy = \<lparr>x1 = x1 r + dx, y1 = y1 r + dy, x2 = x2 r + dx, y2 = y2 r + dy\<rparr>"

text \<open>
  The GPU-space rectangle in the spec's words: for a rectangle \<open>R\<close>, window height
  \<open>H\<close> and pixel ratio \<open>P\<close> it is
  \<open>(R.x * P, (H - (R.y + R.height)) * P, R.width * P, R.height * P)\<close>.
\<close>

definition spec_gl_rect :: "QRect \<Rightarrow> int \<Rightarrow> cfloat \<Rightarrow> QRect" where
  "spec_gl_rect R H P =
     QRect_ctor (int_times_float (rect_x R) P)
       (int_times_float (H - (rect_y R + rect_height R)) P)
       (int_times_float (rect_width R) P) (int_times_float (rect_height R) P)"

text \<open>
  A point strictly inside a rectangle, in the spec's words: strict inequalities on all
  four sides.
\<close>

definition strictly_inside :: "QPoint \<Rightarrow> QRect \<Rightarrow> bool" where
  "strictly_inside p r =
     (rect_x r < xp p \<and> xp p < rect_x r + rect_width r
      \<and> rect_y r < yp p \<and> yp p < rect_y r + rect_height r)"

text \<open>Two rectangles without a common pixel, one lying beside or above the other.\<close>

definition disjoint_rects :: "QRect \<Rightarrow> QRect \<Rightarrow> bool" where
  "disjoint_rects a b = (x2 a < x1 b \<or> x2 b < x1 a \<or> y2 a < y1 b \<or> y2 b < y1 a)"

text \<open>The 800 by 600 scene after its viewport was set to \<open>(100, 50, 600, 500)\<close>.\<close>

definition scene_inset :: Q3DScenePrivate where
  "scene_inset = setViewport (QRect_ctor 100 50 600 500) scene_800x600"

text \<open>
  A scene whose viewport starts at \<open>x = 300\<close>, with two sub-viewports of 100 by 100
  pixels side by side, 100 pixels apart.
\<close>

definition scene_two_views :: Q3DScenePrivate where
  "scene_two_views =
     setSecondarySubViewport (QRect_ctor 200 0 100 100)
       (setPrimarySubViewport (QRect_ctor 0 0 100 100)
          (setViewport (QRect_ctor 300 0 800 600) scene_800x600))"

text \<open>The 800 by 600 scene after its viewport was set to \<open>(0, 0, 4, 600)\<close>.\<close>

definition scene_narrow :: Q3DScenePrivate where
  "scene_narrow = setViewport (QRect_ctor 0 0 4 600) scene_800x600"

text \<open>
  The objects and the scene that the constructor of \<open>Q3DScene\<close> leaves, for a scene at
  address 1 whose camera and light are allocated at 2 and 3, a change tracker that
  starts with every flag clear, and no other object around.
\<close>

definition no_objects :: QObjects where
  "no_objects = \<lparr>parent = (\<lambda>_. None), connections = []\<rparr>"

definition objects_constructed :: QObjects where
  "objects_constructed =
     \<lparr>parent = (\<lambda>_. None)(2 := Some 1, 3 := Some 1),
      connections = [(2, XRotationChanged, 1), (2, YRotationChanged, 1), (2, ZoomLevelChanged, 1)]\<rparr>"

definition scene_constructed :: Q3DScenePrivate where
  "scene_constructed =
     (Q3DScenePrivate_ctor 1 no_changes False)
       \<lparr>m_changeTracker := no_changes\<lparr>cameraChanged := True, lightChanged := True\<rparr>,
        m_camera := Some 2, m_light := Some 3, m_sceneDirty := True,
        emitted := [ActiveCameraChanged 2, NeedRender, ActiveLightChanged 3]\<rparr>"

subsection \<open>Synchronisation\<close>

text \<open>The blocks of \<open>sync\<close> in a row, without the two null checks.\<close>

definition sync_blocks :: "scenes \<Rightarrow> scenes" where
  "sync_blocks p =
     sync_finish
       (sync_devicePixelRatio
          (sync_slicingActivated (sync_light (sync_camera (sync_upto_selection p)))))"

text \<open>
  A second scene, at address 11 with its camera at 12 and its light at 13, as its
  constructor leaves it apart from the change tracker, which has every flag clear.
\<close>

definition scene_other :: Q3DScenePrivate where
  "scene_other =
     (Q3DScenePrivate_ctor 11 no_changes False)\<lparr>m_camera := Some 12, m_light := Some 13\<rparr>"

text \<open>The 800 by 600 scene with no change pending.\<close>

definition scene_synced :: Q3DScenePrivate where
  "scene_synced = scene_800x600\<lparr>m_changeTracker := no_changes, m_sceneDirty := False\<rparr>"

text \<open>The 800 by 600 scene in which the viewport flag alone is pending.\<close>

definition scene_viewport_flagged :: Q3DScenePrivate where
  "scene_viewport_flagged =
     scene_800x600\<lparr>m_changeTracker := no_changes\<lparr>viewportChanged := True\<rparr>\<rparr>"

text \<open>The same scene after a selection query at the point \<open>(5, 5)\<close>.\<close>

definition scene_selecting :: Q3DScenePrivate where
  "scene_selecting = setSelectionQueryPosition (QPoint_ctor 5 5) scene_synced"

section \<open>Properties\<close>

subsection \<open>Floating-point products\<close>

lemma bit_length_le: "0 < n \<Longrightarrow> 2 ^ bit_length n \<le> 2 * n"
proof (induction n rule: bit_length.induct)
  case (1 n)
  show ?case
  proof (cases "n div 2 = 0")
    case True
    with "1.prems" show ?thesis
      by (simp add: bit_length.simps [of n] bit_length.simps [of 0])
  next
    case False
    with "1.IH" "1.prems" have "2 ^ bit_length (n div 2) \<le> 2 * (n div 2)" by simp
    also have "\<dots> \<le> n" by simp
    finally show ?thesis
      using "1.prems" by (simp add: bit_length.simps [of n])
  qed
qed

lemma bit_length_pos: "0 < n \<Longrightarrow> 0 < bit_length n"
  by (simp add: bit_length.simps [of n])

lemma bit_length_less:
  assumes "0 < n" "n < 2 ^ m"
  shows "bit_length n \<le> m"
proof -
  have "(2::nat) ^ bit_length n \<le> 2 * n" using assms(1) by (rule bit_length_le)
  also have "\<dots> < 2 ^ Suc m" using assms(2) by simp
  finally have "bit_length n < Suc m" by (simp only: power_strict_increasing_iff one_less_numeral_iff semiring_norm)
  then show ?thesis by simp
qed

text \<open>The binade of a number from 1 up to (excluding) 2^m lies in 0..m-1.\<close>

lemma binade_range:
  assumes "1 \<le> v" "v < 2 ^ m"
  shows "0 \<le> binade v" "binade v < int m"
proof -
  let ?n = "nat \<lfloor>v\<rfloor>"
  have n: "0 < ?n" using assms(1) by simp
  have "\<lfloor>v\<rfloor> < 2 ^ m"
    using assms(2) by (simp add: floor_less_iff)
  then have "?n < 2 ^ m" using n by (simp add: nat_less_iff)
  with n have "bit_length ?n \<le> m" by (rule bit_length_less)
  moreover have "0 < bit_length ?n" using n by (rule bit_length_pos)
  ultimately show "0 \<le> binade v" "binade v < int m"
    using assms(1) by (simp_all add: binade_def)
qed

lemma bit_length_gt: "n < 2 ^ bit_length n"
proof (induction n rule: bit_length.induct)
  case (1 n)
  show ?case
  proof (cases "n = 0")
    case True
    then show ?thesis by simp
  next
    case False
    with "1.IH" have "n div 2 < 2 ^ bit_length (n div 2)" by simp
    then have "n < 2 * 2 ^ bit_length (n div 2)" by linarith
    with False show ?thesis by (simp add: bit_length.simps [of n])
  qed
qed

text \<open>\<open>binade\<close> is the binade: a positive number lies between the two powers of two.\<close>

lemma binade_bounds:
  assumes "0 < v"
  shows "pow2 (binade v) \<le> v" "v < pow2 (binade v + 1)"
proof -
  have "pow2 (binade v) \<le> v \<and> v < pow2 (binade v + 1)"
  proof (cases "1 \<le> v")
    case True
    define n where "n = nat \<lfloor>v\<rfloor>"
    have n: "0 < n" using True by (simp add: n_def)
    have "of_int \<lfloor>v\<rfloor> \<le> v" "v < of_int \<lfloor>v\<rfloor> + 1" by linarith+
    moreover have "of_int \<lfloor>v\<rfloor> = (of_nat n :: rat)"
      using True by (simp add: n_def)
    ultimately have nv: "of_nat n \<le> v" "v < of_nat n + 1" by simp_all
    have b: "binade v = int (bit_length n) - 1" using True by (simp add: binade_def n_def)
    from bit_length_pos [OF n] obtain k where k: "bit_length n = Suc k"
      by (cases "bit_length n") simp_all
    from bit_length_le [OF n] have "2 ^ k \<le> n" by (simp add: k)
    then have "of_nat (2 ^ k) \<le> (of_nat n :: rat)" by (simp only: of_nat_le_iff)
    then have lo: "(2::rat) ^ k \<le> of_nat n" by simp
    from bit_length_gt [of n] have "n + 1 \<le> 2 ^ Suc k" by (simp add: k)
    then have "of_nat (n + 1) \<le> (of_nat (2 ^ Suc k) :: rat)" by (simp only: of_nat_le_iff)
    then have hi: "(of_nat n :: rat) + 1 \<le> 2 ^ Suc k" by simp
    have p: "pow2 (binade v) = 2 ^ k" "pow2 (binade v + 1) = 2 ^ Suc k"
      by (simp_all add: b k pow2_def nat_add_distrib)
    from lo hi nv show ?thesis unfolding p by linarith
  next
    case False
    with assms have x: "1 < 1 / v" by simp
    define c where "c = \<lceil>1 / v\<rceil>"
    define m where "m = nat (c - 1)"
    have c: "1 / v \<le> of_int c" "of_int c - 1 < 1 / v" unfolding c_def by linarith+
    have "1 < (of_int c :: rat)" using x c(1) by linarith
    then have c2: "2 \<le> c" by simp
    have m: "0 < m" using c2 by (simp add: m_def)
    have mc: "(of_nat m :: rat) = of_int c - 1" using c2 by (simp add: m_def)
    have b: "binade v = - int (bit_length m)" using False by (simp add: binade_def m_def c_def)
    from bit_length_pos [OF m] obtain k where k: "bit_length m = Suc k"
      by (cases "bit_length m") simp_all
    from bit_length_le [OF m] have "2 ^ k \<le> m" by (simp add: k)
    then have "of_nat (2 ^ k) \<le> (of_nat m :: rat)" by (simp only: of_nat_le_iff)
    then have lo: "(2::rat) ^ k \<le> of_int c - 1" by (simp add: mc)
    from bit_length_gt [of m] have "m + 1 \<le> 2 ^ Suc k" by (simp add: k)
    then have "of_nat (m + 1) \<le> (of_nat (2 ^ Suc k) :: rat)" by (simp only: of_nat_le_iff)
    then have hi: "of_int c \<le> (2::rat) ^ Suc k" by (simp add: mc)
    have "1 / v \<le> 2 ^ Suc k" using c(1) hi by linarith
    then have 1: "1 / 2 ^ Suc k \<le> v"
      using assms by (simp add: field_simps)
    have "2 ^ k < 1 / v" using c(2) lo by linarith
    then have 2: "v < 1 / 2 ^ k"
      using assms by (simp add: field_simps)
    have p: "pow2 (binade v) = 1 / 2 ^ Suc k" "pow2 (binade v + 1) = 1 / 2 ^ k"
      by (simp_all add: b k pow2_def nat_add_distrib)
    from 1 2 show ?thesis unfolding p by simp
  qed
  then show "pow2 (binade v) \<le> v" "v < pow2 (binade v + 1)" by simp_all
qed

lemma binade_small: "0 < v \<Longrightarrow> v < 1 \<Longrightarrow> binade v \<le> 0"
  by (simp add: binade_def)

lemma round_half_even_of_int: "round_half_even (of_int j) = j"
  by (simp add: round_half_even_def)

lemma round_half_even_cases:
  "round_half_even x = \<lfloor>x\<rfloor> \<and> x - of_int \<lfloor>x\<rfloor> \<le> 1 / 2
   \<or> round_half_even x = \<lfloor>x\<rfloor> + 1 \<and> 1 / 2 \<le> x - of_int \<lfloor>x\<rfloor>"
  by (simp add: round_half_even_def Let_def not_less)

lemma round_half_even_bounds:
  "x - 1 / 2 \<le> of_int (round_half_even x)" "of_int (round_half_even x) \<le> x + 1 / 2"
proof -
  have f: "of_int \<lfloor>x\<rfloor> \<le> x" "x < of_int \<lfloor>x\<rfloor> + 1" by linarith+
  from round_half_even_cases [of x] f
  show "x - 1 / 2 \<le> of_int (round_half_even x)" "of_int (round_half_even x) \<le> x + 1 / 2"
    by (elim disjE conjE; simp; linarith)+
qed

lemma pow2_nonpos: "k \<le> 0 \<Longrightarrow> pow2 k = 1 / 2 ^ nat (- k)"
  by (cases "k = 0") (simp_all add: pow2_def)

text \<open>Integers of magnitude below 2^24 are floats.\<close>

lemma round_to_float_of_int:
  assumes "\<bar>n\<bar> < 16777216"
  shows "round_to_float (of_int n) = of_int n"
proof (cases "n = 0")
  case True
  then show ?thesis by (simp add: round_to_float_def)
next
  case False
  let ?v = "\<bar>of_int n :: rat\<bar>"
  have v: "1 \<le> ?v" "?v < 2 ^ 24"
    using False assms by (simp_all flip: of_int_abs)
  from binade_range [OF v] have e: "0 \<le> binade ?v" "binade ?v < 24" by simp_all
  define m where "m = nat (23 - binade ?v)"
  have emax: "max (binade ?v) (- 126) = binade ?v" using e by simp
  have ulp: "pow2 (binade ?v - 23) = 1 / 2 ^ m"
    using e by (simp add: pow2_nonpos m_def)
  have "?v * 2 ^ m = of_int (\<bar>n\<bar> * 2 ^ m)" by simp
  then have r: "round_half_even (?v * 2 ^ m) = \<bar>n\<bar> * 2 ^ m"
    by (simp only: round_half_even_of_int)
  have "round_to_float (of_int n) = sgn (of_int n) * of_int (\<bar>n\<bar> * 2 ^ m) * (1 / 2 ^ m)"
    using False by (simp add: round_to_float_def Let_def emax ulp r del: of_int_mult of_int_power)
  also have "\<dots> = sgn (of_int n) * \<bar>of_int n\<bar>" by simp
  also have "\<dots> = of_int n" by (rule sgn_mult_abs)
  finally show ?thesis .
qed


lemma float_to_int_of_int: "float_to_int (of_int k) = k"
  by (simp add: float_to_int_def)

text \<open>Products that are integers of magnitude below 2^24 are computed exactly.\<close>

lemma int_times_float_exact:
  assumes "\<bar>n\<bar> < 16777216" "of_int n * p = of_int k" "\<bar>k\<bar> < 16777216"
  shows "int_times_float n p = k"
  by (simp add: int_times_float_def round_to_float_of_int assms float_to_int_of_int)

lemma int_times_float_1: "\<bar>n\<bar> < 16777216 \<Longrightarrow> int_times_float n 1 = n"
  by (rule int_times_float_exact) simp_all

lemma int_times_float_2: "\<bar>n\<bar> < 8388608 \<Longrightarrow> int_times_float n 2 = 2 * n"
  by (rule int_times_float_exact) simp_all

text \<open>
  A non-negative number below 2^22 that lies less than 7/8 above an integer rounds to a
  float that truncates to that integer.
\<close>

lemma truncated_round:
  assumes "of_int k \<le> v" "v < of_int k + 7 / 8" "v < 4194304" "0 \<le> k"
  shows "float_to_int (round_to_float v) = k"
proof (cases "v = 0")
  case True
  with assms have "k = 0" by simp
  with True show ?thesis by (simp add: round_to_float_def float_to_int_def)
next
  case False
  with assms(1,4) have pos: "0 < v" by simp
  have e: "binade v \<le> 21"
  proof (cases "1 \<le> v")
    case True
    from binade_range(2) [OF True, of 22] assms(3) show ?thesis by simp
  next
    case False
    with pos binade_small [of v] show ?thesis by simp
  qed
  define e' where "e' = max (binade v) (- 126)"
  define m where "m = nat (23 - e')"
  have e': "e' \<le> 21" using e by (simp add: e'_def)
  have m: "2 \<le> m" using e' by (simp add: m_def)
  have ulp: "pow2 (e' - 23) = 1 / 2 ^ m"
    using e' by (simp add: pow2_nonpos m_def)
  define S :: rat where "S = 2 ^ m"
  have "(2::rat) ^ 2 \<le> 2 ^ m" using m by (intro power_increasing) simp_all
  then have S: "4 \<le> S" by (simp add: S_def)
  define r where "r = round_half_even (v * S)"
  have rt: "round_to_float v = of_int r / S"
    using False pos
    by (simp add: round_to_float_def Let_def e'_def [symmetric] ulp r_def S_def)
  have lo: "of_int (k * 2 ^ m) \<le> v * S"
    using assms(1) S by (simp add: S_def)
  have "v * S - 1 / 2 \<le> of_int r" unfolding r_def by (rule round_half_even_bounds)
  moreover have "of_int r \<le> v * S + 1 / 2" unfolding r_def by (rule round_half_even_bounds)
  moreover have "v * S < (of_int k + 7 / 8) * S" using assms(2) S by simp
  ultimately have hi: "of_int r < (of_int k + 1) * S"
    using S by (simp add: algebra_simps)
  have "of_int (k * 2 ^ m) \<le> (of_int r :: rat)"
  proof -
    have "\<lfloor>v * S\<rfloor> \<le> r"
      using round_half_even_cases [of "v * S"] by (auto simp: r_def)
    moreover have "k * 2 ^ m \<le> \<lfloor>v * S\<rfloor>" using lo by (simp only: le_floor_iff)
    ultimately show ?thesis by (simp only: of_int_le_iff) 
  qed
  then have lo': "of_int k * S \<le> of_int r" by (simp add: S_def)
  have Spos: "0 < S" using S by simp
  from lo' Spos have a: "of_int k \<le> of_int r / S" by (simp add: pos_le_divide_eq)
  from hi Spos have b: "of_int r / S < of_int k + 1" by (simp add: pos_divide_less_eq)
  from a b have "\<lfloor>of_int r / S\<rfloor> = k" by (simp add: floor_unique)
  moreover from a assms(4) have "0 \<le> of_int r / S" by simp
  ultimately show ?thesis by (simp add: rt float_to_int_def)
qed

lemma ratio_product_bounds:
  fixes a b :: rat
  assumes "0 \<le> b" "b \<le> 4" "0 \<le> a" "a < 3355444"
  shows "a \<le> a + (a + b * 13421773) / 67108864"
    and "a + (a + b * 13421773) / 67108864 < a + 7 / 8"
    and "a + (a + b * 13421773) / 67108864 < 4194304"
proof -
  have "0 \<le> a + b * 13421773" using assms by simp
  then show "a \<le> a + (a + b * 13421773) / 67108864" by simp
  have "a + b * 13421773 < 58720256" using assms by linarith
  then have s: "(a + b * 13421773) / 67108864 < 7 / 8" by simp
  then show "a + (a + b * 13421773) / 67108864 < a + 7 / 8" by simp
  from s assms(4) show "a + (a + b * 13421773) / 67108864 < 4194304" by linarith
qed

lemma int_times_ratio_fifth:
  assumes "0 \<le> w" "w < 16777216"
  shows "int_times_float w smallerViewPortRatio = w div 5"
proof -
  define q where "q = w div 5"
  define m where "m = w mod 5"
  have w: "w = 5 * q + m" and m: "0 \<le> m" "m < 5"
    by (simp_all add: q_def m_def)
  have q: "0 \<le> q" using assms(1) by (simp add: q_def)
  have ql: "q < 3355444" using w m assms(2) by linarith
  define v :: rat where "v = of_int w * (13421773 / 67108864)"
  have v: "v = of_int q + (of_int q + of_int m * 13421773) / 67108864"
    unfolding v_def w by (simp add: field_simps)
  have mr: "(0::rat) \<le> of_int m" "(of_int m :: rat) \<le> 4" "(0::rat) \<le> of_int q"
    "(of_int q :: rat) < 3355444"
    using m q ql by simp_all
  have "float_to_int (round_to_float v) = q"
  proof (rule truncated_round)
    show "of_int q \<le> v" unfolding v by (rule ratio_product_bounds(1) [OF mr])
    show "v < of_int q + 7 / 8" unfolding v by (rule ratio_product_bounds(2) [OF mr])
    show "v < 4194304" unfolding v by (rule ratio_product_bounds(3) [OF mr])
    show "0 \<le> q" by (rule q)
  qed
  moreover have "\<bar>w\<bar> < 16777216" using assms by simp
  ultimately show ?thesis
    by (simp add: int_times_float_def smallerViewPortRatio_def round_to_float_of_int v_def q_def)
qed

text \<open>
  The rounding shows in \<open>800 * 1.3f\<close>: \<open>1.3f\<close> is \<open>10905190 / 2^23\<close>, the exact
  product is a little less than 1040 and rounds to the float 1040.
\<close>

lemma bit_length_1039: "bit_length 1039 = 11"
  by (simp add: bit_length.simps)

lemma int_times_float_rounds: "int_times_float 800 (10905190 / 8388608) = 1040"
proof -
  have n: "round_to_float 800 = 800"
    using round_to_float_of_int [of 800] by simp
  have f: "\<lfloor>(136314875::rat) / 131072\<rfloor> = 1039"
    by (rule floor_unique) simp_all
  have b: "binade \<bar>800 * (10905190 / 8388608)\<bar> = 10"
    by (simp add: binade_def f bit_length_1039)
  have p: "pow2 (- 13) = 1 / 8192" by (simp add: pow2_def)
  have g: "\<lfloor>(136314875::rat) / 16\<rfloor> = 8519679"
    by (rule floor_unique) simp_all
  have h: "round_half_even (136314875 / 16) = 8519680"
    by (simp add: round_half_even_def Let_def g)
  have "round_to_float (800 * (10905190 / 8388608)) = 1040"
    unfolding round_to_float_def Let_def b by (simp add: p h)
  then have "round_to_float (round_to_float 800 * (10905190 / 8388608)) = 1040"
    by (simp only: n)
  then show ?thesis
    by (simp add: int_times_float_def float_to_int_def)
qed

subsection \<open>The concrete scenes\<close>

lemmas rect_defs = QRect_ctor_def QRect_default_def rect_x_def rect_y_def rect_width_def
  rect_height_def setX_def setY_def setWidth_def setHeight_def isNull_def edge_left_def
  edge_right_def edge_top_def edge_bottom_def intersected_def QSize_ctor_def QSize_default_def
  QPoint_ctor_def

lemmas scene_defs = emit_def updateGLSubViewports_def updateGLViewport_def
  setPrimarySubViewport_def setSecondarySubViewport_def calculateSubViewports_def
  setSlicingActive_def setViewport_def setWindowSize_def setDevicePixelRatio_def
  setSecondarySubviewOnTop_def setSelectionQueryPosition_def Q3DScenePrivate_ctor_def
  invalidSelectionPoint_def

lemma scene_800x600_eq:
  "scene_800x600 =
     \<lparr>q_ptr = 1,
      m_changeTracker = no_changes\<lparr>viewportChanged := True, primarySubViewportChanged := True,
         windowSizeChanged := True\<rparr>,
      m_viewport = QRect_ctor 0 0 800 600, m_primarySubViewport = QRect_ctor 0 0 800 600,
      m_secondarySubViewport = QRect_default,
      m_isSecondarySubviewOnTop = True, m_devicePixelRatio = 1,
      m_camera = Some 2, m_light = Some 3,
      m_isUnderSideCameraEnabled = False, m_isSlicingActive = False,
      m_glViewport = QRect_ctor 0 0 800 600, m_glPrimarySubViewport = QRect_ctor 0 0 800 600,
      m_glSecondarySubViewport = QRect_ctor 0 600 0 0,
      m_selectionQueryPosition = invalidSelectionPoint,
      m_windowSize = QSize_ctor 800 600, m_sceneDirty = True,
      emitted = [ViewportChanged QRect_default, NeedRender,
                 PrimarySubViewportChanged (QRect_ctor 0 0 800 600), NeedRender,
                 ViewportChanged (QRect_ctor 0 0 800 600), NeedRender]\<rparr>"
  by (simp add: scene_800x600_def scene_new_def scene_defs rect_defs int_times_float_1
      no_changes_def Let_def)

subsection \<open>Clipping of the sub-viewports\<close>

lemma edges_origin:
  "edge_left (QRect_ctor 0 0 w h) = (if w < 0 then w - 1 else 0)"
  "edge_right (QRect_ctor 0 0 w h) = (if w < 0 then 0 else w - 1)"
  "edge_top (QRect_ctor 0 0 w h) = (if h < 0 then h - 1 else 0)"
  "edge_bottom (QRect_ctor 0 0 w h) = (if h < 0 then 0 else h - 1)"
  by (simp_all add: edge_left_def edge_right_def edge_top_def edge_bottom_def QRect_ctor_def)

lemma default_within_origin_box: "within_box QRect_default (QRect_ctor 0 0 w h)"
  by (simp add: within_box_def edges_origin) (simp add: QRect_default_def)

lemma overlap_within_box:
  "within_box \<lparr>x1 = max (edge_left a) (edge_left b), y1 = max (edge_top a) (edge_top b),
            x2 = min (edge_right a) (edge_right b), y2 = min (edge_bottom a) (edge_bottom b)\<rparr> b"
  by (simp add: within_box_def)

lemma intersected_within_box:
  "within_box (intersected a (QRect_ctor 0 0 w h)) (QRect_ctor 0 0 w h)"
  by (simp add: intersected_def default_within_origin_box overlap_within_box)

text \<open>
  For a box of non-negative width and height, \<open>within_box\<close> says that the rectangle
  starts at or after the origin and ends at or before \<open>(w, h)\<close>.
\<close>

lemma within_box_origin:
  "0 \<le> w \<Longrightarrow> 0 \<le> h \<Longrightarrow>
   within_box r (QRect_ctor 0 0 w h) =
     (0 \<le> rect_x r \<and> 0 \<le> rect_y r \<and> rect_x r + rect_width r \<le> w
      \<and> rect_y r + rect_height r \<le> h)"
  by (auto simp: within_box_def edges_origin rect_x_def rect_y_def rect_width_def rect_height_def)

lemma m_primarySubViewport_setPrimarySubViewport:
  "m_primarySubViewport (setPrimarySubViewport R s) = intersected R (clipRect s)"
  by (simp add: setPrimarySubViewport_def clipRect_def Let_def emit_def updateGLSubViewports_def)

lemma m_secondarySubViewport_setSecondarySubViewport:
  "m_secondarySubViewport (setSecondarySubViewport R s) = intersected R (clipRect s)"
  by (simp add: setSecondarySubViewport_def clipRect_def Let_def emit_def updateGLSubViewports_def)

text \<open>
  Claim C2. For every viewport and every rectangle \<open>R\<close>, \<open>setPrimarySubViewport R\<close>
  and \<open>setSecondarySubViewport R\<close> store the intersection of \<open>R\<close> with
  \<open>(0, 0, viewport width, viewport height)\<close>; the stored rectangle never extends outside
  that box; the setters are total functions on the scene (there is no failure to
  return); and when the clipped rectangle equals the stored one the call returns the
  scene as it was: no field, no dirty flag and no emitted signal changes.
\<close>

theorem setSubViewport_stores_clipped:
  "m_primarySubViewport (setPrimarySubViewport R s) = intersected R (clipRect s)
   \<and> m_secondarySubViewport (setSecondarySubViewport R s) = intersected R (clipRect s)
   \<and> within_box (m_primarySubViewport (setPrimarySubViewport R s)) (clipRect s)
   \<and> within_box (m_secondarySubViewport (setSecondarySubViewport R s)) (clipRect s)
   \<and> (intersected R (clipRect s) = m_primarySubViewport s \<longrightarrow> setPrimarySubViewport R s = s)
   \<and> (intersected R (clipRect s) = m_secondarySubViewport s
        \<longrightarrow> setSecondarySubViewport R s = s)"
proof (intro conjI)
  show "m_primarySubViewport (setPrimarySubViewport R s) = intersected R (clipRect s)"
    by (rule m_primarySubViewport_setPrimarySubViewport)
  show "m_secondarySubViewport (setSecondarySubViewport R s) = intersected R (clipRect s)"
    by (rule m_secondarySubViewport_setSecondarySubViewport)
  show "within_box (m_primarySubViewport (setPrimarySubViewport R s)) (clipRect s)"
    by (simp add: m_primarySubViewport_setPrimarySubViewport clipRect_def intersected_within_box)
  show "within_box (m_secondarySubViewport (setSecondarySubViewport R s)) (clipRect s)"
    by (simp add: m_secondarySubViewport_setSecondarySubViewport clipRect_def
        intersected_within_box)
  show "intersected R (clipRect s) = m_primarySubViewport s \<longrightarrow> setPrimarySubViewport R s = s"
    by (simp add: setPrimarySubViewport_def clipRect_def)
  show "intersected R (clipRect s) = m_secondarySubViewport s
        \<longrightarrow> setSecondarySubViewport R s = s"
    by (simp add: setSecondarySubViewport_def clipRect_def)
qed

theorem setSubViewport_stores_clipped_witness:
  "m_primarySubViewport (setPrimarySubViewport (QRect_ctor (- 10) (- 20) 100 100) scene_800x600)
     = QRect_ctor 0 0 90 80
   \<and> within_box (QRect_ctor 0 0 90 80) (QRect_ctor 0 0 800 600)
   \<and> setPrimarySubViewport (QRect_ctor (- 5) (- 5) 900 700) scene_800x600 = scene_800x600
   \<and> setSecondarySubViewport (QRect_ctor 900 700 10 10) scene_800x600 = scene_800x600"
proof -
  have c: "clipRect scene_800x600 = QRect_ctor 0 0 800 600"
    by (simp add: clipRect_def scene_800x600_eq rect_defs)
  have e1: "intersected (QRect_ctor (- 10) (- 20) 100 100) (QRect_ctor 0 0 800 600)
              = QRect_ctor 0 0 90 80"
    by (simp add: rect_defs)
  have e2: "intersected (QRect_ctor (- 5) (- 5) 900 700) (clipRect scene_800x600)
              = m_primarySubViewport scene_800x600"
    unfolding c by (simp add: scene_800x600_eq) (simp add: rect_defs)
  have e3: "intersected (QRect_ctor 900 700 10 10) (clipRect scene_800x600)
              = m_secondarySubViewport scene_800x600"
    unfolding c by (simp add: scene_800x600_eq) (simp add: rect_defs)
  note t1 = setSubViewport_stores_clipped [of "QRect_ctor (- 10) (- 20) 100 100" scene_800x600]
  note t2 = setSubViewport_stores_clipped [of "QRect_ctor (- 5) (- 5) 900 700" scene_800x600]
  note t3 = setSubViewport_stores_clipped [of "QRect_ctor 900 700 10 10" scene_800x600]
  from t1 have
    "m_primarySubViewport (setPrimarySubViewport (QRect_ctor (- 10) (- 20) 100 100) scene_800x600)
       = intersected (QRect_ctor (- 10) (- 20) 100 100) (clipRect scene_800x600)"
    and "within_box
           (m_primarySubViewport
              (setPrimarySubViewport (QRect_ctor (- 10) (- 20) 100 100) scene_800x600))
           (clipRect scene_800x600)"
    by blast+
  then have p1:
    "m_primarySubViewport (setPrimarySubViewport (QRect_ctor (- 10) (- 20) 100 100) scene_800x600)
       = QRect_ctor 0 0 90 80"
    and p2: "within_box (QRect_ctor 0 0 90 80) (QRect_ctor 0 0 800 600)"
    by (simp_all only: c e1)
  from t2 e2 have p3:
    "setPrimarySubViewport (QRect_ctor (- 5) (- 5) 900 700) scene_800x600 = scene_800x600"
    by blast
  from t3 e3 have p4:
    "setSecondarySubViewport (QRect_ctor 900 700 10 10) scene_800x600 = scene_800x600"
    by blast
  from p1 p2 p3 p4 show ?thesis by blast
qed

subsection \<open>What each function leaves alone\<close>

lemma emit_frame [simp]:
  "q_ptr (emit sg s) = q_ptr s"
  "m_viewport (emit sg s) = m_viewport s"
  "m_primarySubViewport (emit sg s) = m_primarySubViewport s"
  "m_secondarySubViewport (emit sg s) = m_secondarySubViewport s"
  "m_isSecondarySubviewOnTop (emit sg s) = m_isSecondarySubviewOnTop s"
  "m_devicePixelRatio (emit sg s) = m_devicePixelRatio s"
  "m_camera (emit sg s) = m_camera s"
  "m_light (emit sg s) = m_light s"
  "m_isUnderSideCameraEnabled (emit sg s) = m_isUnderSideCameraEnabled s"
  "m_isSlicingActive (emit sg s) = m_isSlicingActive s"
  "m_glViewport (emit sg s) = m_glViewport s"
  "m_glPrimarySubViewport (emit sg s) = m_glPrimarySubViewport s"
  "m_glSecondarySubViewport (emit sg s) = m_glSecondarySubViewport s"
  "m_selectionQueryPosition (emit sg s) = m_selectionQueryPosition s"
  "m_windowSize (emit sg s) = m_windowSize s"
  "m_sceneDirty (emit sg s) = m_sceneDirty s"
  "m_changeTracker (emit sg s) = m_changeTracker s"
  by (simp_all add: emit_def)

lemma updateGLSubViewports_frame [simp]:
  "q_ptr (updateGLSubViewports s) = q_ptr s"
  "m_viewport (updateGLSubViewports s) = m_viewport s"
  "m_primarySubViewport (updateGLSubViewports s) = m_primarySubViewport s"
  "m_secondarySubViewport (updateGLSubViewports s) = m_secondarySubViewport s"
  "m_isSecondarySubviewOnTop (updateGLSubViewports s) = m_isSecondarySubviewOnTop s"
  "m_devicePixelRatio (updateGLSubViewports s) = m_devicePixelRatio s"
  "m_camera (updateGLSubViewports s) = m_camera s"
  "m_light (updateGLSubViewports s) = m_light s"
  "m_isUnderSideCameraEnabled (updateGLSubViewports s) = m_isUnderSideCameraEnabled s"
  "m_isSlicingActive (updateGLSubViewports s) = m_isSlicingActive s"
  "m_glViewport (updateGLSubViewports s) = m_glViewport s"
  "m_selectionQueryPosition (updateGLSubViewports s) = m_selectionQueryPosition s"
  "m_windowSize (updateGLSubViewports s) = m_windowSize s"
  "m_sceneDirty (updateGLSubViewports s) = m_sceneDirty s"
  "emitted (updateGLSubViewports s) = emitted s"
  "m_changeTracker (updateGLSubViewports s) = m_changeTracker s"
  by (simp_all add: updateGLSubViewports_def Let_def)

lemma updateGLViewport_frame [simp]:
  "q_ptr (updateGLViewport s) = q_ptr s"
  "m_viewport (updateGLViewport s) = m_viewport s"
  "m_primarySubViewport (updateGLViewport s) = m_primarySubViewport s"
  "m_secondarySubViewport (updateGLViewport s) = m_secondarySubViewport s"
  "m_isSecondarySubviewOnTop (updateGLViewport s) = m_isSecondarySubviewOnTop s"
  "m_devicePixelRatio (updateGLViewport s) = m_devicePixelRatio s"
  "m_camera (updateGLViewport s) = m_camera s"
  "m_light (updateGLViewport s) = m_light s"
  "m_isUnderSideCameraEnabled (updateGLViewport s) = m_isUnderSideCameraEnabled s"
  "m_isSlicingActive (updateGLViewport s) = m_isSlicingActive s"
  "m_selectionQueryPosition (updateGLViewport s) = m_selectionQueryPosition s"
  "m_windowSize (updateGLViewport s) = m_windowSize s"
  "primarySubViewportChanged (m_changeTracker (updateGLViewport s)) = primarySubViewportChanged (m_changeTracker s)"
  "secondarySubViewportChanged (m_changeTracker (updateGLViewport s)) = secondarySubViewportChanged (m_changeTracker s)"
  "subViewportOrderChanged (m_changeTracker (updateGLViewport s)) = subViewportOrderChanged (m_changeTracker s)"
  "cameraChanged (m_changeTracker (updateGLViewport s)) = cameraChanged (m_changeTracker s)"
  "lightChanged (m_changeTracker (updateGLViewport s)) = lightChanged (m_changeTracker s)"
  "slicingActivatedChanged (m_changeTracker (updateGLViewport s)) = slicingActivatedChanged (m_changeTracker s)"
  "devicePixelRatioChanged (m_changeTracker (updateGLViewport s)) = devicePixelRatioChanged (m_changeTracker s)"
  "selectionQueryPositionChanged (m_changeTracker (updateGLViewport s)) = selectionQueryPositionChanged (m_changeTracker s)"
  "windowSizeChanged (m_changeTracker (updateGLViewport s)) = windowSizeChanged (m_changeTracker s)"
  by (simp_all add: updateGLViewport_def Let_def)

lemma setPrimarySubViewport_frame [simp]:
  "q_ptr (setPrimarySubViewport R s) = q_ptr s"
  "m_viewport (setPrimarySubViewport R s) = m_viewport s"
  "m_secondarySubViewport (setPrimarySubViewport R s) = m_secondarySubViewport s"
  "m_isSecondarySubviewOnTop (setPrimarySubViewport R s) = m_isSecondarySubviewOnTop s"
  "m_devicePixelRatio (setPrimarySubViewport R s) = m_devicePixelRatio s"
  "m_camera (setPrimarySubViewport R s) = m_camera s"
  "m_light (setPrimarySubViewport R s) = m_light s"
  "m_isUnderSideCameraEnabled (setPrimarySubViewport R s) = m_isUnderSideCameraEnabled s"
  "m_isSlicingActive (setPrimarySubViewport R s) = m_isSlicingActive s"
  "m_glViewport (setPrimarySubViewport R s) = m_glViewport s"
  "m_selectionQueryPosition (setPrimarySubViewport R s) = m_selectionQueryPosition s"
  "m_windowSize (setPrimarySubViewport R s) = m_windowSize s"
  "viewportChanged (m_changeTracker (setPrimarySubViewport R s)) = viewportChanged (m_changeTracker s)"
  "secondarySubViewportChanged (m_changeTracker (setPrimarySubViewport R s)) = secondarySubViewportChanged (m_changeTracker s)"
  "subViewportOrderChanged (m_changeTracker (setPrimarySubViewport R s)) = subViewportOrderChanged (m_changeTracker s)"
  "cameraChanged (m_changeTracker (setPrimarySubViewport R s)) = cameraChanged (m_changeTracker s)"
  "lightChanged (m_changeTracker (setPrimarySubViewport R s)) = lightChanged (m_changeTracker s)"
  "slicingActivatedChanged (m_changeTracker (setPrimarySubViewport R s)) = slicingActivatedChanged (m_changeTracker s)"
  "devicePixelRatioChanged (m_changeTracker (setPrimarySubViewport R s)) = devicePixelRatioChanged (m_changeTracker s)"
  "selectionQueryPositionChanged (m_changeTracker (setPrimarySubViewport R s)) = selectionQueryPositionChanged (m_changeTracker s)"
  "windowSizeChanged (m_changeTracker (setPrimarySubViewport R s)) = windowSizeChanged (m_changeTracker s)"
  by (simp_all add: setPrimarySubViewport_def Let_def)

lemma setSecondarySubViewport_frame [simp]:
  "q_ptr (setSecondarySubViewport R s) = q_ptr s"
  "m_viewport (setSecondarySubViewport R s) = m_viewport s"
  "m_primarySubViewport (setSecondarySubViewport R s) = m_primarySubViewport s"
  "m_isSecondarySubviewOnTop (setSecondarySubViewport R s) = m_isSecondarySubviewOnTop s"
  "m_devicePixelRatio (setSecondarySubViewport R s) = m_devicePixelRatio s"
  "m_camera (setSecondarySubViewport R s) = m_camera s"
  "m_light (setSecondarySubViewport R s) = m_light s"
  "m_isUnderSideCameraEnabled (setSecondarySubViewport R s) = m_isUnderSideCameraEnabled s"
  "m_isSlicingActive (setSecondarySubViewport R s) = m_isSlicingActive s"
  "m_glViewport (setSecondarySubViewport R s) = m_glViewport s"
  "m_selectionQueryPosition (setSecondarySubViewport R s) = m_selectionQueryPosition s"
  "m_windowSize (setSecondarySubViewport R s) = m_windowSize s"
  "viewportChanged (m_changeTracker (setSecondarySubViewport R s)) = viewportChanged (m_changeTracker s)"
  "primarySubViewportChanged (m_changeTracker (setSecondarySubViewport R s)) = primarySubViewportChanged (m_changeTracker s)"
  "subViewportOrderChanged (m_changeTracker (setSecondarySubViewport R s)) = subViewportOrderChanged (m_changeTracker s)"
  "cameraChanged (m_changeTracker (setSecondarySubViewport R s)) = cameraChanged (m_changeTracker s)"
  "lightChanged (m_changeTracker (setSecondarySubViewport R s)) = lightChanged (m_changeTracker s)"
  "slicingActivatedChanged (m_changeTracker (setSecondarySubViewport R s)) = slicingActivatedChanged (m_changeTracker s)"
  "devicePixelRatioChanged (m_changeTracker (setSecondarySubViewport R s)) = devicePixelRatioChanged (m_changeTracker s)"
  "selectionQueryPositionChanged (m_changeTracker (setSecondarySubViewport R s)) = selectionQueryPositionChanged (m_changeTracker s)"
  "windowSizeChanged (m_changeTracker (setSecondarySubViewport R s)) = windowSizeChanged (m_changeTracker s)"
  by (simp_all add: setSecondarySubViewport_def Let_def)

lemma calculateSubViewports_frame [simp]:
  "q_ptr (calculateSubViewports s) = q_ptr s"
  "m_viewport (calculateSubViewports s) = m_viewport s"
  "m_isSecondarySubviewOnTop (calculateSubViewports s) = m_isSecondarySubviewOnTop s"
  "m_devicePixelRatio (calculateSubViewports s) = m_devicePixelRatio s"
  "m_camera (calculateSubViewports s) = m_camera s"
  "m_light (calculateSubViewports s) = m_light s"
  "m_isUnderSideCameraEnabled (calculateSubViewports s) = m_isUnderSideCameraEnabled s"
  "m_isSlicingActive (calculateSubViewports s) = m_isSlicingActive s"
  "m_selectionQueryPosition (calculateSubViewports s) = m_selectionQueryPosition s"
  "m_windowSize (calculateSubViewports s) = m_windowSize s"
  "subViewportOrderChanged (m_changeTracker (calculateSubViewports s)) = subViewportOrderChanged (m_changeTracker s)"
  "cameraChanged (m_changeTracker (calculateSubViewports s)) = cameraChanged (m_changeTracker s)"
  "lightChanged (m_changeTracker (calculateSubViewports s)) = lightChanged (m_changeTracker s)"
  "slicingActivatedChanged (m_changeTracker (calculateSubViewports s)) = slicingActivatedChanged (m_changeTracker s)"
  "devicePixelRatioChanged (m_changeTracker (calculateSubViewports s)) = devicePixelRatioChanged (m_changeTracker s)"
  "selectionQueryPositionChanged (m_changeTracker (calculateSubViewports s)) = selectionQueryPositionChanged (m_changeTracker s)"
  "windowSizeChanged (m_changeTracker (calculateSubViewports s)) = windowSizeChanged (m_changeTracker s)"
  by (simp_all add: calculateSubViewports_def Let_def)

lemma setSelectionQueryPosition_frame [simp]:
  "q_ptr (setSelectionQueryPosition pt s) = q_ptr s"
  "m_viewport (setSelectionQueryPosition pt s) = m_viewport s"
  "m_primarySubViewport (setSelectionQueryPosition pt s) = m_primarySubViewport s"
  "m_secondarySubViewport (setSelectionQueryPosition pt s) = m_secondarySubViewport s"
  "m_isSecondarySubviewOnTop (setSelectionQueryPosition pt s) = m_isSecondarySubviewOnTop s"
  "m_devicePixelRatio (setSelectionQueryPosition pt s) = m_devicePixelRatio s"
  "m_camera (setSelectionQueryPosition pt s) = m_camera s"
  "m_light (setSelectionQueryPosition pt s) = m_light s"
  "m_isUnderSideCameraEnabled (setSelectionQueryPosition pt s) = m_isUnderSideCameraEnabled s"
  "m_isSlicingActive (setSelectionQueryPosition pt s) = m_isSlicingActive s"
  "m_glViewport (setSelectionQueryPosition pt s) = m_glViewport s"
  "m_glPrimarySubViewport (setSelectionQueryPosition pt s) = m_glPrimarySubViewport s"
  "m_glSecondarySubViewport (setSelectionQueryPosition pt s) = m_glSecondarySubViewport s"
  "m_windowSize (setSelectionQueryPosition pt s) = m_windowSize s"
  "viewportChanged (m_changeTracker (setSelectionQueryPosition pt s)) = viewportChanged (m_changeTracker s)"
  "primarySubViewportChanged (m_changeTracker (setSelectionQueryPosition pt s)) = primarySubViewportChanged (m_changeTracker s)"
  "secondarySubViewportChanged (m_changeTracker (setSelectionQueryPosition pt s)) = secondarySubViewportChanged (m_changeTracker s)"
  "subViewportOrderChanged (m_changeTracker (setSelectionQueryPosition pt s)) = subViewportOrderChanged (m_changeTracker s)"
  "cameraChanged (m_changeTracker (setSelectionQueryPosition pt s)) = cameraChanged (m_changeTracker s)"
  "lightChanged (m_changeTracker (setSelectionQueryPosition pt s)) = lightChanged (m_changeTracker s)"
  "slicingActivatedChanged (m_changeTracker (setSelectionQueryPosition pt s)) = slicingActivatedChanged (m_changeTracker s)"
  "devicePixelRatioChanged (m_changeTracker (setSelectionQueryPosition pt s)) = devicePixelRatioChanged (m_changeTracker s)"
  "windowSizeChanged (m_changeTracker (setSelectionQueryPosition pt s)) = windowSizeChanged (m_changeTracker s)"
  by (simp_all add: setSelectionQueryPosition_def Let_def)

lemma setSlicingActive_frame [simp]:
  "q_ptr (setSlicingActive b s) = q_ptr s"
  "m_viewport (setSlicingActive b s) = m_viewport s"
  "m_isSecondarySubviewOnTop (setSlicingActive b s) = m_isSecondarySubviewOnTop s"
  "m_devicePixelRatio (setSlicingActive b s) = m_devicePixelRatio s"
  "m_camera (setSlicingActive b s) = m_camera s"
  "m_light (setSlicingActive b s) = m_light s"
  "m_isUnderSideCameraEnabled (setSlicingActive b s) = m_isUnderSideCameraEnabled s"
  "m_selectionQueryPosition (setSlicingActive b s) = m_selectionQueryPosition s"
  "m_windowSize (setSlicingActive b s) = m_windowSize s"
  "subViewportOrderChanged (m_changeTracker (setSlicingActive b s)) = subViewportOrderChanged (m_changeTracker s)"
  "cameraChanged (m_changeTracker (setSlicingActive b s)) = cameraChanged (m_changeTracker s)"
  "lightChanged (m_changeTracker (setSlicingActive b s)) = lightChanged (m_changeTracker s)"
  "devicePixelRatioChanged (m_changeTracker (setSlicingActive b s)) = devicePixelRatioChanged (m_changeTracker s)"
  "selectionQueryPositionChanged (m_changeTracker (setSlicingActive b s)) = selectionQueryPositionChanged (m_changeTracker s)"
  "windowSizeChanged (m_changeTracker (setSlicingActive b s)) = windowSizeChanged (m_changeTracker s)"
  by (simp_all add: setSlicingActive_def Let_def)

lemma setSecondarySubviewOnTop_frame [simp]:
  "q_ptr (setSecondarySubviewOnTop b s) = q_ptr s"
  "m_viewport (setSecondarySubviewOnTop b s) = m_viewport s"
  "m_primarySubViewport (setSecondarySubviewOnTop b s) = m_primarySubViewport s"
  "m_secondarySubViewport (setSecondarySubviewOnTop b s) = m_secondarySubViewport s"
  "m_devicePixelRatio (setSecondarySubviewOnTop b s) = m_devicePixelRatio s"
  "m_camera (setSecondarySubviewOnTop b s) = m_camera s"
  "m_light (setSecondarySubviewOnTop b s) = m_light s"
  "m_isUnderSideCameraEnabled (setSecondarySubviewOnTop b s) = m_isUnderSideCameraEnabled s"
  "m_isSlicingActive (setSecondarySubviewOnTop b s) = m_isSlicingActive s"
  "m_glViewport (setSecondarySubviewOnTop b s) = m_glViewport s"
  "m_glPrimarySubViewport (setSecondarySubviewOnTop b s) = m_glPrimarySubViewport s"
  "m_glSecondarySubViewport (setSecondarySubviewOnTop b s) = m_glSecondarySubViewport s"
  "m_selectionQueryPosition (setSecondarySubviewOnTop b s) = m_selectionQueryPosition s"
  "m_windowSize (setSecondarySubviewOnTop b s) = m_windowSize s"
  "viewportChanged (m_changeTracker (setSecondarySubviewOnTop b s)) = viewportChanged (m_changeTracker s)"
  "primarySubViewportChanged (m_changeTracker (setSecondarySubviewOnTop b s)) = primarySubViewportChanged (m_changeTracker s)"
  "secondarySubViewportChanged (m_changeTracker (setSecondarySubviewOnTop b s)) = secondarySubViewportChanged (m_changeTracker s)"
  "cameraChanged (m_changeTracker (setSecondarySubviewOnTop b s)) = cameraChanged (m_changeTracker s)"
  "lightChanged (m_changeTracker (setSecondarySubviewOnTop b s)) = lightChanged (m_changeTracker s)"
  "slicingActivatedChanged (m_changeTracker (setSecondarySubviewOnTop b s)) = slicingActivatedChanged (m_changeTracker s)"
  "devicePixelRatioChanged (m_changeTracker (setSecondarySubviewOnTop b s)) = devicePixelRatioChanged (m_changeTracker s)"
  "selectionQueryPositionChanged (m_changeTracker (setSecondarySubviewOnTop b s)) = selectionQueryPositionChanged (m_changeTracker s)"
  "windowSizeChanged (m_changeTracker (setSecondarySubviewOnTop b s)) = windowSizeChanged (m_changeTracker s)"
  by (simp_all add: setSecondarySubviewOnTop_def Let_def)

lemma setDevicePixelRatio_frame [simp]:
  "q_ptr (setDevicePixelRatio r s) = q_ptr s"
  "m_viewport (setDevicePixelRatio r s) = m_viewport s"
  "m_primarySubViewport (setDevicePixelRatio r s) = m_primarySubViewport s"
  "m_secondarySubViewport (setDevicePixelRatio r s) = m_secondarySubViewport s"
  "m_isSecondarySubviewOnTop (setDevicePixelRatio r s) = m_isSecondarySubviewOnTop s"
  "m_camera (setDevicePixelRatio r s) = m_camera s"
  "m_light (setDevicePixelRatio r s) = m_light s"
  "m_isUnderSideCameraEnabled (setDevicePixelRatio r s) = m_isUnderSideCameraEnabled s"
  "m_isSlicingActive (setDevicePixelRatio r s) = m_isSlicingActive s"
  "m_selectionQueryPosition (setDevicePixelRatio r s) = m_selectionQueryPosition s"
  "m_windowSize (setDevicePixelRatio r s) = m_windowSize s"
  "primarySubViewportChanged (m_changeTracker (setDevicePixelRatio r s)) = primarySubViewportChanged (m_changeTracker s)"
  "secondarySubViewportChanged (m_changeTracker (setDevicePixelRatio r s)) = secondarySubViewportChanged (m_changeTracker s)"
  "subViewportOrderChanged (m_changeTracker (setDevicePixelRatio r s)) = subViewportOrderChanged (m_changeTracker s)"
  "cameraChanged (m_changeTracker (setDevicePixelRatio r s)) = cameraChanged (m_changeTracker s)"
  "lightChanged (m_changeTracker (setDevicePixelRatio r s)) = lightChanged (m_changeTracker s)"
  "slicingActivatedChanged (m_changeTracker (setDevicePixelRatio r s)) = slicingActivatedChanged (m_changeTracker s)"
  "selectionQueryPositionChanged (m_changeTracker (setDevicePixelRatio r s)) = selectionQueryPositionChanged (m_changeTracker s)"
  "windowSizeChanged (m_changeTracker (setDevicePixelRatio r s)) = windowSizeChanged (m_changeTracker s)"
  by (simp_all add: setDevicePixelRatio_def Let_def)

lemma setViewport_frame [simp]:
  "q_ptr (setViewport v s) = q_ptr s"
  "m_isSecondarySubviewOnTop (setViewport v s) = m_isSecondarySubviewOnTop s"
  "m_devicePixelRatio (setViewport v s) = m_devicePixelRatio s"
  "m_camera (setViewport v s) = m_camera s"
  "m_light (setViewport v s) = m_light s"
  "m_isUnderSideCameraEnabled (setViewport v s) = m_isUnderSideCameraEnabled s"
  "m_isSlicingActive (setViewport v s) = m_isSlicingActive s"
  "m_selectionQueryPosition (setViewport v s) = m_selectionQueryPosition s"
  "m_windowSize (setViewport v s) = m_windowSize s"
  "subViewportOrderChanged (m_changeTracker (setViewport v s)) = subViewportOrderChanged (m_changeTracker s)"
  "cameraChanged (m_changeTracker (setViewport v s)) = cameraChanged (m_changeTracker s)"
  "lightChanged (m_changeTracker (setViewport v s)) = lightChanged (m_changeTracker s)"
  "slicingActivatedChanged (m_changeTracker (setViewport v s)) = slicingActivatedChanged (m_changeTracker s)"
  "devicePixelRatioChanged (m_changeTracker (setViewport v s)) = devicePixelRatioChanged (m_changeTracker s)"
  "selectionQueryPositionChanged (m_changeTracker (setViewport v s)) = selectionQueryPositionChanged (m_changeTracker s)"
  "windowSizeChanged (m_changeTracker (setViewport v s)) = windowSizeChanged (m_changeTracker s)"
  by (simp_all add: setViewport_def Let_def)

lemma setWindowSize_frame [simp]:
  "q_ptr (setWindowSize z s) = q_ptr s"
  "m_viewport (setWindowSize z s) = m_viewport s"
  "m_primarySubViewport (setWindowSize z s) = m_primarySubViewport s"
  "m_secondarySubViewport (setWindowSize z s) = m_secondarySubViewport s"
  "m_isSecondarySubviewOnTop (setWindowSize z s) = m_isSecondarySubviewOnTop s"
  "m_devicePixelRatio (setWindowSize z s) = m_devicePixelRatio s"
  "m_camera (setWindowSize z s) = m_camera s"
  "m_light (setWindowSize z s) = m_light s"
  "m_isUnderSideCameraEnabled (setWindowSize z s) = m_isUnderSideCameraEnabled s"
  "m_isSlicingActive (setWindowSize z s) = m_isSlicingActive s"
  "m_selectionQueryPosition (setWindowSize z s) = m_selectionQueryPosition s"
  "primarySubViewportChanged (m_changeTracker (setWindowSize z s)) = primarySubViewportChanged (m_changeTracker s)"
  "secondarySubViewportChanged (m_changeTracker (setWindowSize z s)) = secondarySubViewportChanged (m_changeTracker s)"
  "subViewportOrderChanged (m_changeTracker (setWindowSize z s)) = subViewportOrderChanged (m_changeTracker s)"
  "cameraChanged (m_changeTracker (setWindowSize z s)) = cameraChanged (m_changeTracker s)"
  "lightChanged (m_changeTracker (setWindowSize z s)) = lightChanged (m_changeTracker s)"
  "slicingActivatedChanged (m_changeTracker (setWindowSize z s)) = slicingActivatedChanged (m_changeTracker s)"
  "devicePixelRatioChanged (m_changeTracker (setWindowSize z s)) = devicePixelRatioChanged (m_changeTracker s)"
  "selectionQueryPositionChanged (m_changeTracker (setWindowSize z s)) = selectionQueryPositionChanged (m_changeTracker s)"
  by (simp_all add: setWindowSize_def Let_def)

subsection \<open>Derived GL rectangles\<close>

lemma translated_simps:
  "rect_x (translated r dx dy) = rect_x r + dx"
  "rect_y (translated r dx dy) = rect_y r + dy"
  "rect_width (translated r dx dy) = rect_width r"
  "rect_height (translated r dx dy) = rect_height r"
  by (simp_all add: translated_def rect_x_def rect_y_def rect_width_def rect_height_def)

lemma set_all_four:
  "setHeight h (setWidth w (setY y (setX x r))) = QRect_ctor x y w h"
  by (simp add: setHeight_def setWidth_def setY_def setX_def QRect_ctor_def)

lemma QRect_ctor_simps:
  "rect_x (QRect_ctor x y w h) = x"
  "rect_y (QRect_ctor x y w h) = y"
  "rect_width (QRect_ctor x y w h) = w"
  "rect_height (QRect_ctor x y w h) = h"
  by (simp_all add: QRect_ctor_def rect_x_def rect_y_def rect_width_def rect_height_def)

lemma m_glPrimarySubViewport_updateGLSubViewports:
  "m_glPrimarySubViewport (updateGLSubViewports s) =
     spec_gl_rect
       (translated (m_primarySubViewport s) (rect_x (m_viewport s)) (rect_y (m_viewport s)))
       (ht (m_windowSize s)) (m_devicePixelRatio s)"
  by (simp add: updateGLSubViewports_def Let_def set_all_four spec_gl_rect_def translated_simps)

lemma m_glSecondarySubViewport_updateGLSubViewports:
  "m_glSecondarySubViewport (updateGLSubViewports s) =
     QRect_ctor (int_times_float (rect_x (m_secondarySubViewport s)) (m_devicePixelRatio s))
       (int_times_float
          (ht (m_windowSize s)
           - (rect_y (m_secondarySubViewport s) + rect_y (m_viewport s)
              + rect_height (m_secondarySubViewport s)))
          (m_devicePixelRatio s))
       (int_times_float (rect_width (m_secondarySubViewport s)) (m_devicePixelRatio s))
       (int_times_float (rect_height (m_secondarySubViewport s)) (m_devicePixelRatio s))"
  by (simp add: updateGLSubViewports_def Let_def set_all_four)

lemma m_glViewport_updateGLViewport:
  "m_glViewport (updateGLViewport s) =
     spec_gl_rect (m_viewport s) (ht (m_windowSize s)) (m_devicePixelRatio s)"
  by (simp add: updateGLViewport_def Let_def set_all_four spec_gl_rect_def)

lemma gl_sub_updateGLViewport:
  "m_glPrimarySubViewport (updateGLViewport s) = m_glPrimarySubViewport (updateGLSubViewports s)"
  "m_glSecondarySubViewport (updateGLViewport s)
     = m_glSecondarySubViewport (updateGLSubViewports s)"
  by (simp_all add: updateGLViewport_def Let_def m_glPrimarySubViewport_updateGLSubViewports
      m_glSecondarySubViewport_updateGLSubViewports)

lemma scene_inset_eq:
  "scene_inset =
     \<lparr>q_ptr = 1,
      m_changeTracker = no_changes\<lparr>viewportChanged := True, primarySubViewportChanged := True,
         windowSizeChanged := True\<rparr>,
      m_viewport = QRect_ctor 100 50 600 500, m_primarySubViewport = QRect_ctor 0 0 600 500,
      m_secondarySubViewport = QRect_default,
      m_isSecondarySubviewOnTop = True, m_devicePixelRatio = 1,
      m_camera = Some 2, m_light = Some 3,
      m_isUnderSideCameraEnabled = False, m_isSlicingActive = False,
      m_glViewport = QRect_ctor 100 50 600 500,
      m_glPrimarySubViewport = QRect_ctor 100 50 600 500,
      m_glSecondarySubViewport = QRect_ctor 0 550 0 0,
      m_selectionQueryPosition = invalidSelectionPoint,
      m_windowSize = QSize_ctor 800 600, m_sceneDirty = True,
      emitted = [ViewportChanged QRect_default, NeedRender,
                 PrimarySubViewportChanged (QRect_ctor 0 0 800 600), NeedRender,
                 ViewportChanged (QRect_ctor 0 0 800 600), NeedRender,
                 PrimarySubViewportChanged (QRect_ctor 0 0 600 500), NeedRender,
                 ViewportChanged (QRect_ctor 100 50 600 500), NeedRender]\<rparr>"
  unfolding scene_inset_def scene_800x600_eq
  by (simp add: scene_defs rect_defs int_times_float_1 no_changes_def Let_def)

lemma gl_example_800x600:
  "m_glViewport (setDevicePixelRatio 2 scene_800x600) = QRect_ctor 0 0 1600 1200"
  "m_glPrimarySubViewport (setDevicePixelRatio 2 scene_800x600) = QRect_ctor 0 0 1600 1200"
  unfolding scene_800x600_eq
  by (simp_all add: setDevicePixelRatio_def Let_def m_glViewport_updateGLViewport
      gl_sub_updateGLViewport m_glPrimarySubViewport_updateGLSubViewports spec_gl_rect_def
      translated_simps QRect_ctor_simps QSize_ctor_def int_times_float_2)

text \<open>
  Claim C3, as stated, fails for the sub-viewports: in the scene whose viewport is
  \<open>(100, 50, 600, 500)\<close> in a window of height 600, with pixel ratio 1, the primary
  sub-viewport is \<open>(0, 0, 600, 500)\<close> and its GL rectangle is \<open>(100, 50, 600, 500)\<close>,
  where the formula of the claim gives \<open>(0, 100, 600, 500)\<close>.
\<close>

theorem gl_primary_differs_from_spec_formula:
  "m_primarySubViewport scene_inset = QRect_ctor 0 0 600 500
   \<and> ht (m_windowSize scene_inset) = 600
   \<and> m_devicePixelRatio scene_inset = 1
   \<and> m_glPrimarySubViewport scene_inset = QRect_ctor 100 50 600 500
   \<and> spec_gl_rect (m_primarySubViewport scene_inset) (ht (m_windowSize scene_inset))
        (m_devicePixelRatio scene_inset) = QRect_ctor 0 100 600 500
   \<and> m_glPrimarySubViewport scene_inset
        \<noteq> spec_gl_rect (m_primarySubViewport scene_inset) (ht (m_windowSize scene_inset))
            (m_devicePixelRatio scene_inset)"
  unfolding scene_inset_eq
  by (simp add: spec_gl_rect_def QRect_ctor_simps QSize_ctor_def int_times_float_1)
    (simp add: QRect_ctor_def)

text \<open>
  Claim C3, amended. With window height \<open>H\<close> and pixel ratio \<open>P\<close>,
  \<open>updateGLViewport\<close> sets the GL viewport to the formula of the spec applied to the
  viewport; \<open>updateGLViewport\<close> and \<open>updateGLSubViewports\<close> set the GL primary
  sub-viewport to the formula applied to the primary sub-viewport moved by the
  viewport's position, and give the GL secondary sub-viewport the \<open>y\<close>, width and
  height of the formula applied to the secondary sub-viewport moved by the viewport's
  position. Each product of the formula is the single-precision product of the integer
  and \<open>P\<close>, truncated to an integer. For the viewport \<open>(0, 0, 800, 600)\<close> in a window
  of height 600 and pixel ratio 2 the GL viewport and the GL primary sub-viewport are
  \<open>(0, 0, 1600, 1200)\<close>.
\<close>

theorem gl_rectangles:
  "m_glViewport (updateGLViewport s)
     = spec_gl_rect (m_viewport s) (ht (m_windowSize s)) (m_devicePixelRatio s)
   \<and> m_glPrimarySubViewport (updateGLViewport s)
     = spec_gl_rect
         (translated (m_primarySubViewport s) (rect_x (m_viewport s)) (rect_y (m_viewport s)))
         (ht (m_windowSize s)) (m_devicePixelRatio s)
   \<and> m_glPrimarySubViewport (updateGLSubViewports s)
     = spec_gl_rect
         (translated (m_primarySubViewport s) (rect_x (m_viewport s)) (rect_y (m_viewport s)))
         (ht (m_windowSize s)) (m_devicePixelRatio s)
   \<and> rect_y (m_glSecondarySubViewport (updateGLSubViewports s))
     = rect_y (spec_gl_rect
         (translated (m_secondarySubViewport s) (rect_x (m_viewport s)) (rect_y (m_viewport s)))
         (ht (m_windowSize s)) (m_devicePixelRatio s))
   \<and> rect_width (m_glSecondarySubViewport (updateGLSubViewports s))
     = rect_width (spec_gl_rect
         (translated (m_secondarySubViewport s) (rect_x (m_viewport s)) (rect_y (m_viewport s)))
         (ht (m_windowSize s)) (m_devicePixelRatio s))
   \<and> rect_height (m_glSecondarySubViewport (updateGLSubViewports s))
     = rect_height (spec_gl_rect
         (translated (m_secondarySubViewport s) (rect_x (m_viewport s)) (rect_y (m_viewport s)))
         (ht (m_windowSize s)) (m_devicePixelRatio s))
   \<and> m_glSecondarySubViewport (updateGLViewport s)
     = m_glSecondarySubViewport (updateGLSubViewports s)
   \<and> m_viewport scene_800x600 = QRect_ctor 0 0 800 600
   \<and> ht (m_windowSize scene_800x600) = 600
   \<and> m_glViewport (setDevicePixelRatio 2 scene_800x600) = QRect_ctor 0 0 1600 1200
   \<and> m_glPrimarySubViewport (setDevicePixelRatio 2 scene_800x600) = QRect_ctor 0 0 1600 1200"
proof -
  have sec:
    "rect_y (m_glSecondarySubViewport (updateGLSubViewports s))
       = rect_y (spec_gl_rect
           (translated (m_secondarySubViewport s) (rect_x (m_viewport s)) (rect_y (m_viewport s)))
           (ht (m_windowSize s)) (m_devicePixelRatio s))"
    "rect_width (m_glSecondarySubViewport (updateGLSubViewports s))
       = rect_width (spec_gl_rect
           (translated (m_secondarySubViewport s) (rect_x (m_viewport s)) (rect_y (m_viewport s)))
           (ht (m_windowSize s)) (m_devicePixelRatio s))"
    "rect_height (m_glSecondarySubViewport (updateGLSubViewports s))
       = rect_height (spec_gl_rect
           (translated (m_secondarySubViewport s) (rect_x (m_viewport s)) (rect_y (m_viewport s)))
           (ht (m_windowSize s)) (m_devicePixelRatio s))"
    by (simp_all add: m_glSecondarySubViewport_updateGLSubViewports spec_gl_rect_def
        QRect_ctor_simps translated_simps add.assoc)
  have ex: "m_viewport scene_800x600 = QRect_ctor 0 0 800 600"
    "ht (m_windowSize scene_800x600) = 600"
    by (simp_all add: scene_800x600_eq QSize_ctor_def)
  show ?thesis
    by (intro conjI m_glViewport_updateGLViewport sec ex gl_example_800x600
        gl_sub_updateGLViewport(2)
        trans [OF gl_sub_updateGLViewport(1) m_glPrimarySubViewport_updateGLSubViewports]
        m_glPrimarySubViewport_updateGLSubViewports)
qed

subsection \<open>Pointer hit tests\<close>

lemma scene_two_views_fields:
  "m_viewport scene_two_views = QRect_ctor 300 0 800 600"
  "m_primarySubViewport scene_two_views = QRect_ctor 0 0 100 100"
  "m_secondarySubViewport scene_two_views = QRect_ctor 200 0 100 100"
proof -
  have i1: "intersected (QRect_ctor 0 0 100 100) (QRect_ctor 0 0 800 600) = QRect_ctor 0 0 100 100"
    and i2: "intersected (QRect_ctor 200 0 100 100) (QRect_ctor 0 0 800 600)
               = QRect_ctor 200 0 100 100"
    by (simp_all add: rect_defs)
  have v: "m_viewport (setViewport (QRect_ctor 300 0 800 600) scene_800x600)
             = QRect_ctor 300 0 800 600"
    by (simp add: setViewport_def)
  show "m_viewport scene_two_views = QRect_ctor 300 0 800 600"
    by (simp add: scene_two_views_def v)
  show "m_primarySubViewport scene_two_views = QRect_ctor 0 0 100 100"
    by (simp add: scene_two_views_def m_primarySubViewport_setPrimarySubViewport clipRect_def v
        QRect_ctor_simps i1)
  show "m_secondarySubViewport scene_two_views = QRect_ctor 200 0 100 100"
    by (simp add: scene_two_views_def m_secondarySubViewport_setSecondarySubViewport clipRect_def
        v QRect_ctor_simps i2)
qed

text \<open>The four bounds the two tests compare the point with.\<close>

lemma isPointInPrimarySubView_bounds:
  "isPointInPrimarySubView p s =
     (rect_x (m_primarySubViewport s) < xp p
      \<and> xp p < rect_x (m_viewport s) + rect_x (m_primarySubViewport s)
                 + rect_width (m_primarySubViewport s)
      \<and> rect_y (m_viewport s) + rect_y (m_primarySubViewport s) < yp p
      \<and> yp p < rect_y (m_viewport s) + rect_y (m_primarySubViewport s)
                 + rect_height (m_primarySubViewport s))"
  by (simp add: isPointInPrimarySubView_def Let_def)

lemma isPointInSecondarySubView_bounds:
  "isPointInSecondarySubView p s =
     (rect_x (m_secondarySubViewport s) < xp p
      \<and> xp p < rect_x (m_viewport s) + rect_x (m_secondarySubViewport s)
                 + rect_width (m_secondarySubViewport s)
      \<and> rect_y (m_viewport s) + rect_y (m_secondarySubViewport s) < yp p
      \<and> yp p < rect_y (m_viewport s) + rect_y (m_secondarySubViewport s)
                 + rect_height (m_secondarySubViewport s))"
  by (simp add: isPointInSecondarySubView_def Let_def)

text \<open>
  Where the viewport starts at \<open>x = 0\<close> the tests are the strict test against the
  sub-viewport moved by the viewport's position.
\<close>

lemma isPointInSubView_when_viewport_x_is_0:
  assumes "rect_x (m_viewport s) = 0"
  shows "isPointInPrimarySubView p s =
           strictly_inside p (translated (m_primarySubViewport s) (rect_x (m_viewport s))
                                (rect_y (m_viewport s)))"
    and "isPointInSecondarySubView p s =
           strictly_inside p (translated (m_secondarySubViewport s) (rect_x (m_viewport s))
                                (rect_y (m_viewport s)))"
  using assms
  by (auto simp: isPointInPrimarySubView_bounds isPointInSecondarySubView_bounds
      strictly_inside_def translated_simps)

text \<open>
  Claim C5 at the input where the code departs from it. In the scene whose viewport is
  \<open>(100, 50, 600, 500)\<close> and whose primary sub-viewport is \<open>(0, 0, 600, 500)\<close>, the
  point \<open>(50, 100)\<close> lies left of the sub-viewport moved by the viewport's offset
  (which starts at \<open>x = 100\<close>), and \<open>isPointInPrimarySubView\<close> returns true: the lower
  bound for \<open>x\<close> is the only one of the four bounds that leaves the offset out.
\<close>

theorem isPointInPrimarySubView_left_of_subview:
  "m_viewport scene_inset = QRect_ctor 100 50 600 500
   \<and> m_primarySubViewport scene_inset = QRect_ctor 0 0 600 500
   \<and> isPointInPrimarySubView (QPoint_ctor 50 100) scene_inset
   \<and> \<not> strictly_inside (QPoint_ctor 50 100)
         (translated (m_primarySubViewport scene_inset) (rect_x (m_viewport scene_inset))
            (rect_y (m_viewport scene_inset)))"
  unfolding scene_inset_eq
  by (simp add: isPointInPrimarySubView_bounds strictly_inside_def translated_simps
      QRect_ctor_simps QPoint_ctor_def)

text \<open>
  Claim C6 at the input where the code departs from it. With the viewport at
  \<open>(300, 0, 800, 600)\<close>, the primary sub-viewport \<open>(0, 0, 100, 100)\<close> and the secondary
  sub-viewport \<open>(200, 0, 100, 100)\<close> are disjoint, and both tests return true for the
  point \<open>(350, 50)\<close>.
\<close>

theorem isPointIn_both_subviews:
  "m_viewport scene_two_views = QRect_ctor 300 0 800 600
   \<and> m_primarySubViewport scene_two_views = QRect_ctor 0 0 100 100
   \<and> m_secondarySubViewport scene_two_views = QRect_ctor 200 0 100 100
   \<and> disjoint_rects (m_primarySubViewport scene_two_views)
        (m_secondarySubViewport scene_two_views)
   \<and> intersected (m_primarySubViewport scene_two_views)
        (m_secondarySubViewport scene_two_views) = QRect_default
   \<and> isPointInPrimarySubView (QPoint_ctor 350 50) scene_two_views
   \<and> isPointInSecondarySubView (QPoint_ctor 350 50) scene_two_views"
  by (simp add: scene_two_views_fields isPointInPrimarySubView_bounds
      isPointInSecondarySubView_bounds QRect_ctor_simps QPoint_ctor_def)
    (simp add: disjoint_rects_def rect_defs)

subsection \<open>Slicing mode\<close>

lemma int_times_ratio_bounds:
  assumes "5 \<le> w" "w < 16777216"
  shows "0 < int_times_float w smallerViewPortRatio" "int_times_float w smallerViewPortRatio \<le> w"
  using assms by (simp_all add: int_times_ratio_fifth pos_imp_zdiv_pos_iff)

lemma int_times_ratio_small:
  assumes "0 \<le> w" "w < 5"
  shows "int_times_float w smallerViewPortRatio = 0"
  using assms by (simp add: int_times_ratio_fifth)

lemma intersected_origin_inner:
  "0 < a \<Longrightarrow> a \<le> w \<Longrightarrow> 0 < b \<Longrightarrow> b \<le> h \<Longrightarrow>
   intersected (QRect_ctor 0 0 a b) (QRect_ctor 0 0 w h) = QRect_ctor 0 0 a b"
  by (simp add: rect_defs)

lemma intersected_null:
  "intersected (QRect_ctor 0 0 0 0) b = QRect_ctor 0 0 0 0"
  by (simp add: rect_defs)

lemma m_viewport_setViewport: "m_viewport (setViewport v s) = v"
  by (simp add: setViewport_def)

lemma clipRect_frame:
  "clipRect (setPrimarySubViewport R s) = clipRect s"
  "clipRect (setSecondarySubViewport R s) = clipRect s"
  by (simp_all add: clipRect_def)

lemma m_primarySubViewport_calculateSubViewports:
  "m_primarySubViewport (calculateSubViewports s) =
     intersected
       (if m_isSlicingActive s
        then QRect_ctor 0 0
               (int_times_float (rect_width (m_viewport s)) smallerViewPortRatio)
               (int_times_float (rect_height (m_viewport s)) smallerViewPortRatio)
        else QRect_ctor 0 0 (rect_width (m_viewport s)) (rect_height (m_viewport s)))
       (clipRect s)"
  by (simp add: calculateSubViewports_def Let_def m_primarySubViewport_setPrimarySubViewport)

lemma m_secondarySubViewport_calculateSubViewports:
  "m_secondarySubViewport (calculateSubViewports s) =
     intersected
       (if m_isSlicingActive s
        then QRect_ctor 0 0 (rect_width (m_viewport s)) (rect_height (m_viewport s))
        else QRect_ctor 0 0 0 0)
       (clipRect s)"
  by (simp add: calculateSubViewports_def Let_def m_secondarySubViewport_setSecondarySubViewport
      clipRect_frame)

lemma subViewports_setSlicingActive:
  assumes "m_isSlicingActive s \<noteq> b"
  shows "m_primarySubViewport (setSlicingActive b s) =
     intersected
       (if b
        then QRect_ctor 0 0
               (int_times_float (rect_width (m_viewport s)) smallerViewPortRatio)
               (int_times_float (rect_height (m_viewport s)) smallerViewPortRatio)
        else QRect_ctor 0 0 (rect_width (m_viewport s)) (rect_height (m_viewport s)))
       (clipRect s)"
    and "m_secondarySubViewport (setSlicingActive b s) =
     intersected
       (if b
        then QRect_ctor 0 0 (rect_width (m_viewport s)) (rect_height (m_viewport s))
        else QRect_ctor 0 0 0 0)
       (clipRect s)"
  using assms
  by (simp_all add: setSlicingActive_def Let_def m_primarySubViewport_calculateSubViewports
      m_secondarySubViewport_calculateSubViewports clipRect_def)

lemma enter_slicing:
  assumes "\<not> m_isSlicingActive s"
    and "(5 \<le> rect_width (m_viewport s) \<and> rect_width (m_viewport s) < 16777216
          \<and> 5 \<le> rect_height (m_viewport s) \<and> rect_height (m_viewport s) < 16777216)
         \<or> (0 < rect_width (m_viewport s) \<and> rect_width (m_viewport s) < 5
             \<and> 0 < rect_height (m_viewport s) \<and> rect_height (m_viewport s) < 5)
         \<or> (rect_width (m_viewport s) = 0 \<and> rect_height (m_viewport s) = 0)"
  shows "m_primarySubViewport (setSlicingActive True s) =
           QRect_ctor 0 0 (int_times_float (rect_width (m_viewport s)) smallerViewPortRatio)
             (int_times_float (rect_height (m_viewport s)) smallerViewPortRatio)"
    and "m_secondarySubViewport (setSlicingActive True s) =
           QRect_ctor 0 0 (rect_width (m_viewport s)) (rect_height (m_viewport s))"
proof -
  define w where "w = rect_width (m_viewport s)"
  define h where "h = rect_height (m_viewport s)"
  have ne: "m_isSlicingActive s \<noteq> True" using assms(1) by simp
  from assms(2) consider
    (big) "5 \<le> w" "w < 16777216" "5 \<le> h" "h < 16777216" | (small) "0 < w" "w < 5" "0 < h" "h < 5" | (zero) "w = 0" "h = 0"
    unfolding w_def h_def by blast
  then have
    "intersected (QRect_ctor 0 0 (int_times_float w smallerViewPortRatio)
         (int_times_float h smallerViewPortRatio)) (QRect_ctor 0 0 w h)
       = QRect_ctor 0 0 (int_times_float w smallerViewPortRatio)
           (int_times_float h smallerViewPortRatio)
     \<and> intersected (QRect_ctor 0 0 w h) (QRect_ctor 0 0 w h) = QRect_ctor 0 0 w h"
  proof cases
    case big
    then show ?thesis
      by (simp add: intersected_origin_inner int_times_ratio_bounds)
  next
    case small
    then show ?thesis
      by (simp add: int_times_ratio_small intersected_null intersected_origin_inner)
  next
    case zero
    then show ?thesis
      by (simp add: int_times_ratio_small intersected_null)
  qed
  then show "m_primarySubViewport (setSlicingActive True s) =
           QRect_ctor 0 0 (int_times_float (rect_width (m_viewport s)) smallerViewPortRatio)
             (int_times_float (rect_height (m_viewport s)) smallerViewPortRatio)"
    and "m_secondarySubViewport (setSlicingActive True s) =
           QRect_ctor 0 0 (rect_width (m_viewport s)) (rect_height (m_viewport s))"
    by (simp_all add: subViewports_setSlicingActive [OF ne] clipRect_def w_def h_def)
qed

lemma leave_slicing:
  assumes "m_isSlicingActive s"
    and "(0 < rect_width (m_viewport s) \<and> 0 < rect_height (m_viewport s))
         \<or> (rect_width (m_viewport s) = 0 \<and> rect_height (m_viewport s) = 0)"
  shows "m_primarySubViewport (setSlicingActive False s) =
           QRect_ctor 0 0 (rect_width (m_viewport s)) (rect_height (m_viewport s))"
    and "m_secondarySubViewport (setSlicingActive False s) = QRect_ctor 0 0 0 0"
proof -
  have ne: "m_isSlicingActive s \<noteq> False" using assms(1) by simp
  have "intersected (QRect_ctor 0 0 (rect_width (m_viewport s)) (rect_height (m_viewport s)))
          (QRect_ctor 0 0 (rect_width (m_viewport s)) (rect_height (m_viewport s)))
        = QRect_ctor 0 0 (rect_width (m_viewport s)) (rect_height (m_viewport s))"
    using assms(2) by (auto simp: intersected_origin_inner intersected_null)
  then show "m_primarySubViewport (setSlicingActive False s) =
           QRect_ctor 0 0 (rect_width (m_viewport s)) (rect_height (m_viewport s))"
    and "m_secondarySubViewport (setSlicingActive False s) = QRect_ctor 0 0 0 0"
    by (simp_all add: subViewports_setSlicingActive [OF ne] clipRect_def intersected_null)
qed

lemma scene_narrow_fields:
  "m_viewport scene_narrow = QRect_ctor 0 0 4 600"
  "m_isSlicingActive scene_narrow = False"
  by (simp_all add: scene_narrow_def m_viewport_setViewport scene_800x600_eq)

lemma m_isSlicingActive_setSlicingActive: "m_isSlicingActive (setSlicingActive b s) = b"
  by (auto simp: setSlicingActive_def Let_def)

text \<open>
  Claim C4, as stated, fails for a narrow viewport: with the viewport \<open>(0, 0, 4, 600)\<close>,
  entering slicing mode asks for the primary sub-viewport \<open>(0, 0, 0, 120)\<close> (\<open>4 * 0.2f\<close>
  truncates to 0, \<open>600 * 0.2f\<close> to 120), and the clipping stores the null rectangle
  \<open>(0, 0, 0, 0)\<close>, since the framework's intersection with a rectangle of width 0 is
  the null rectangle.
\<close>

theorem slicing_narrow_viewport:
  "m_viewport scene_narrow = QRect_ctor 0 0 4 600
   \<and> \<not> m_isSlicingActive scene_narrow
   \<and> m_primarySubViewport (setSlicingActive True scene_narrow) = QRect_ctor 0 0 0 0
   \<and> QRect_ctor 0 0 (int_times_float 4 smallerViewPortRatio)
        (int_times_float 600 smallerViewPortRatio) = QRect_ctor 0 0 0 120
   \<and> m_primarySubViewport (setSlicingActive True scene_narrow) \<noteq> QRect_ctor 0 0 0 120"
proof -
  have ne: "m_isSlicingActive scene_narrow \<noteq> True" by (simp add: scene_narrow_fields)
  have r: "int_times_float 4 smallerViewPortRatio = 0"
    "int_times_float 600 smallerViewPortRatio = 120"
    by (simp_all add: int_times_ratio_fifth)
  have i: "intersected (QRect_ctor 0 0 0 120) (QRect_ctor 0 0 4 600) = QRect_ctor 0 0 0 0"
    by (simp add: rect_defs)
  have p: "m_primarySubViewport (setSlicingActive True scene_narrow) = QRect_ctor 0 0 0 0"
    by (simp add: subViewports_setSlicingActive [OF ne] scene_narrow_fields clipRect_def
        QRect_ctor_simps r i)
  have d: "QRect_ctor 0 0 0 0 \<noteq> QRect_ctor 0 0 0 120" by (simp add: QRect_ctor_def)
  show ?thesis by (simp add: scene_narrow_fields p r d)
qed

text \<open>
  Claim C4, amended. Write \<open>w\<close> and \<open>h\<close> for the width and height of the viewport.
  If \<open>w\<close> and \<open>h\<close> are both at least 5 and below \<open>2^24\<close>, or both between 1 and
  4, or both 0, then \<open>setSlicingActive True\<close> from the non-slicing state sets the
  primary sub-viewport to \<open>(0, 0, w * 0.2f, h * 0.2f)\<close> (the single-precision
  products truncated to integers) and the secondary sub-viewport to \<open>(0, 0, w, h)\<close>.
  If \<open>w\<close> and \<open>h\<close> are both positive or both 0, \<open>setSlicingActive False\<close> from
  the slicing state sets the primary sub-viewport to \<open>(0, 0, w, h)\<close> and the secondary
  one to \<open>(0, 0, 0, 0)\<close>. For a length \<open>0 \<le> n < 2^24\<close> the truncated product
  \<open>n * 0.2f\<close> is \<open>n div 5\<close>. The witness is the example of the claim: the viewport
  \<open>(0, 0, 800, 600)\<close> yields the primary sub-viewport \<open>(0, 0, 160, 120)\<close> and the
  secondary \<open>(0, 0, 800, 600)\<close>.
\<close>

theorem setSlicingActive_subViewports:
  "(\<not> m_isSlicingActive s
      \<and> ((5 \<le> rect_width (m_viewport s) \<and> rect_width (m_viewport s) < 16777216
           \<and> 5 \<le> rect_height (m_viewport s) \<and> rect_height (m_viewport s) < 16777216)
         \<or> (0 < rect_width (m_viewport s) \<and> rect_width (m_viewport s) < 5
             \<and> 0 < rect_height (m_viewport s) \<and> rect_height (m_viewport s) < 5)
         \<or> (rect_width (m_viewport s) = 0 \<and> rect_height (m_viewport s) = 0))
    \<longrightarrow> m_primarySubViewport (setSlicingActive True s) =
           QRect_ctor 0 0 (int_times_float (rect_width (m_viewport s)) smallerViewPortRatio)
             (int_times_float (rect_height (m_viewport s)) smallerViewPortRatio)
        \<and> m_secondarySubViewport (setSlicingActive True s) =
           QRect_ctor 0 0 (rect_width (m_viewport s)) (rect_height (m_viewport s)))
   \<and> (m_isSlicingActive s
      \<and> ((0 < rect_width (m_viewport s) \<and> 0 < rect_height (m_viewport s))
         \<or> (rect_width (m_viewport s) = 0 \<and> rect_height (m_viewport s) = 0))
    \<longrightarrow> m_primarySubViewport (setSlicingActive False s) =
           QRect_ctor 0 0 (rect_width (m_viewport s)) (rect_height (m_viewport s))
        \<and> m_secondarySubViewport (setSlicingActive False s) = QRect_ctor 0 0 0 0)
   \<and> (0 \<le> n \<and> n < 16777216 \<longrightarrow> int_times_float n smallerViewPortRatio = n div 5)"
  using enter_slicing [of s] leave_slicing [of s] int_times_ratio_fifth [of n]
  by blast

theorem setSlicingActive_subViewports_witness:
  "m_viewport scene_800x600 = QRect_ctor 0 0 800 600
   \<and> \<not> m_isSlicingActive scene_800x600
   \<and> m_primarySubViewport (setSlicingActive True scene_800x600) = QRect_ctor 0 0 160 120
   \<and> m_secondarySubViewport (setSlicingActive True scene_800x600) = QRect_ctor 0 0 800 600
   \<and> m_primarySubViewport (setSlicingActive False (setSlicingActive True scene_800x600))
       = QRect_ctor 0 0 800 600
   \<and> m_secondarySubViewport (setSlicingActive False (setSlicingActive True scene_800x600))
       = QRect_ctor 0 0 0 0
   \<and> int_times_float 800 smallerViewPortRatio = 800 div 5"
proof -
  have f: "m_viewport scene_800x600 = QRect_ctor 0 0 800 600"
    "\<not> m_isSlicingActive scene_800x600"
    by (simp_all add: scene_800x600_eq)
  have g: "m_viewport (setSlicingActive True scene_800x600) = QRect_ctor 0 0 800 600"
    "m_isSlicingActive (setSlicingActive True scene_800x600)"
    by (simp_all add: f m_isSlicingActive_setSlicingActive)
  have r: "int_times_float 800 smallerViewPortRatio = 160"
    "int_times_float 600 smallerViewPortRatio = 120"
    by (simp_all add: int_times_ratio_fifth)
  note t1 = setSlicingActive_subViewports [of scene_800x600 800]
  note t2 = setSlicingActive_subViewports [of "setSlicingActive True scene_800x600" 800]
  from t1 have
    "m_primarySubViewport (setSlicingActive True scene_800x600) = QRect_ctor 0 0 160 120
     \<and> m_secondarySubViewport (setSlicingActive True scene_800x600) = QRect_ctor 0 0 800 600
     \<and> int_times_float 800 smallerViewPortRatio = 800 div 5"
    by (simp add: f QRect_ctor_simps r)
  moreover from t2 have
    "m_primarySubViewport (setSlicingActive False (setSlicingActive True scene_800x600))
       = QRect_ctor 0 0 800 600
     \<and> m_secondarySubViewport (setSlicingActive False (setSlicingActive True scene_800x600))
       = QRect_ctor 0 0 0 0"
    by (simp add: g f QRect_ctor_simps)
  ultimately show ?thesis using f by blast
qed

subsection \<open>Active camera and light\<close>

lemma Q3DScene_ctor_example:
  "Q3DScene_ctor 1 2 3 no_changes False no_objects = Inr (objects_constructed, scene_constructed)"
  by (simp add: Q3DScene_ctor_def setActiveCamera_def setActiveLight_def Let_def
      Q3DScenePrivate_ctor_def no_objects_def objects_constructed_def scene_constructed_def
      setParent_def connect_def disconnect_def emit_def fun_upd_twist no_changes_def)

lemma setActiveCamera_null: "setActiveCamera None w = Inl AssertionFailed"
  by (simp add: setActiveCamera_def)

lemma setActiveLight_null: "setActiveLight None w = Inl AssertionFailed"
  by (simp add: setActiveLight_def)

lemma reparent_eq:
  "parent (if parent h c \<noteq> Some q then setParent c q h else h) = (parent h)(c := Some q)"
  "connections (if parent h c \<noteq> Some q then setParent c q h else h) = connections h"
  by (auto simp: setParent_def)

lemma setActiveCamera_same:
  assumes "Some c = m_camera s"
  shows "\<exists>h'. setActiveCamera (Some c) (h, s) = Inr (h', s)
           \<and> parent h' = (parent h)(c := Some (q_ptr s)) \<and> connections h' = connections h"
  using assms [symmetric] by (simp add: setActiveCamera_def Let_def reparent_eq)

lemma connections_disconnect:
  "set (connections (disconnect a sg r h)) = set (connections h) - {(a, sg, r)}"
  "parent (disconnect a sg r h) = parent h"
  by (auto simp: disconnect_def)

lemma connections_connect:
  "set (connections (connect a sg r h)) = insert (a, sg, r) (set (connections h))"
  "parent (connect a sg r h) = parent h"
  by (auto simp: connect_def)

lemma all_camera_signals: "sg = XRotationChanged \<or> sg = YRotationChanged \<or> sg = ZoomLevelChanged"
  by (cases sg) simp_all

lemma setActiveCamera_new:
  assumes "Some c \<noteq> m_camera s"
  shows "\<exists>h' s'. setActiveCamera (Some c) (h, s) = Inr (h', s')
           \<and> parent h' = (parent h)(c := Some (q_ptr s))
           \<and> m_camera s' = Some c \<and> q_ptr s' = q_ptr s
           \<and> cameraChanged (m_changeTracker s') \<and> m_sceneDirty s'
           \<and> emitted s' = emitted s @ [ActiveCameraChanged c, NeedRender]
           \<and> set (connections h') =
               (set (connections h)
                  - (case m_camera s of None \<Rightarrow> {}
                     | Some old \<Rightarrow> {(old, sg, q_ptr s) | sg. True}))
               \<union> {(c, sg, q_ptr s) | sg. True}"
proof (cases "m_camera s")
  case None
  then show ?thesis
    using assms all_camera_signals
    by (auto simp: setActiveCamera_def Let_def reparent_eq connections_connect emit_def)
next
  case (Some old)
  then show ?thesis
    using assms all_camera_signals
    by (auto simp: setActiveCamera_def Let_def reparent_eq connections_connect
        connections_disconnect emit_def)
qed

lemma setActiveLight_same:
  assumes "Some l = m_light s"
  shows "\<exists>h'. setActiveLight (Some l) (h, s) = Inr (h', s)
           \<and> parent h' = (parent h)(l := Some (q_ptr s)) \<and> connections h' = connections h"
  using assms [symmetric] by (simp add: setActiveLight_def Let_def reparent_eq)

lemma setActiveLight_new:
  assumes "Some l \<noteq> m_light s"
  shows "\<exists>h' s'. setActiveLight (Some l) (h, s) = Inr (h', s')
           \<and> parent h' = (parent h)(l := Some (q_ptr s)) \<and> connections h' = connections h
           \<and> m_light s' = Some l \<and> q_ptr s' = q_ptr s
           \<and> lightChanged (m_changeTracker s') \<and> m_sceneDirty s'
           \<and> emitted s' = emitted s @ [ActiveLightChanged l]"
  using assms by (simp add: setActiveLight_def Let_def reparent_eq emit_def)

text \<open>
  Claim C8. \<open>setActiveCamera\<close> and \<open>setActiveLight\<close> fail on the assertion when
  passed a null pointer. Passed an object \<open>c\<close>, they return, and afterwards the
  parent of \<open>c\<close> is the scene and no other object's parent has changed (an object
  already parented to the scene keeps its parent). When \<open>c\<close> is not the active camera,
  \<open>setActiveCamera\<close> makes it the active one, removes the connections of the three
  camera signals (x rotation, y rotation, zoom level) from the previous camera to the
  scene's render request, and connects those of \<open>c\<close>; when \<open>c\<close> is the active
  camera already, scene and connections stay as they are. \<open>setActiveLight\<close> touches
  no connection.
\<close>

theorem setActive_null_and_reparent:
  "setActiveCamera None (h, s) = Inl AssertionFailed
   \<and> setActiveLight None (h, s) = Inl AssertionFailed
   \<and> (\<exists>h' s'. setActiveCamera (Some c) (h, s) = Inr (h', s')
         \<and> parent h' = (parent h)(c := Some (q_ptr s))
         \<and> (Some c \<noteq> m_camera s \<longrightarrow>
              m_camera s' = Some c
              \<and> set (connections h') =
                  (set (connections h)
                     - (case m_camera s of None \<Rightarrow> {}
                        | Some old \<Rightarrow> {(old, sg, q_ptr s) | sg. True}))
                  \<union> {(c, sg, q_ptr s) | sg. True})
         \<and> (Some c = m_camera s \<longrightarrow> s' = s \<and> connections h' = connections h))
   \<and> (\<exists>h' s'. setActiveLight (Some l) (h, s) = Inr (h', s')
         \<and> parent h' = (parent h)(l := Some (q_ptr s))
         \<and> connections h' = connections h
         \<and> (Some l \<noteq> m_light s \<longrightarrow> m_light s' = Some l)
         \<and> (Some l = m_light s \<longrightarrow> s' = s))"
proof (intro conjI)
  show "setActiveCamera None (h, s) = Inl AssertionFailed"
    by (rule setActiveCamera_null)
  show "setActiveLight None (h, s) = Inl AssertionFailed"
    by (rule setActiveLight_null)
  show "\<exists>h' s'. setActiveCamera (Some c) (h, s) = Inr (h', s')
         \<and> parent h' = (parent h)(c := Some (q_ptr s))
         \<and> (Some c \<noteq> m_camera s \<longrightarrow>
              m_camera s' = Some c
              \<and> set (connections h') =
                  (set (connections h)
                     - (case m_camera s of None \<Rightarrow> {}
                        | Some old \<Rightarrow> {(old, sg, q_ptr s) | sg. True}))
                  \<union> {(c, sg, q_ptr s) | sg. True})
         \<and> (Some c = m_camera s \<longrightarrow> s' = s \<and> connections h' = connections h)"
  proof (cases "Some c = m_camera s")
    case True
    with setActiveCamera_same [OF True, of h] show ?thesis by blast
  next
    case False
    with setActiveCamera_new [OF False, of h] show ?thesis by blast
  qed
  show "\<exists>h' s'. setActiveLight (Some l) (h, s) = Inr (h', s')
         \<and> parent h' = (parent h)(l := Some (q_ptr s))
         \<and> connections h' = connections h
         \<and> (Some l \<noteq> m_light s \<longrightarrow> m_light s' = Some l)
         \<and> (Some l = m_light s \<longrightarrow> s' = s)"
  proof (cases "Some l = m_light s")
    case True
    with setActiveLight_same [OF True, of h] show ?thesis by blast
  next
    case False
    with setActiveLight_new [OF False, of h] show ?thesis by blast
  qed
qed

lemma constructed_fields:
  "m_camera scene_constructed = Some 2"
  "m_light scene_constructed = Some 3"
  "q_ptr scene_constructed = 1"
  "emitted scene_constructed = [ActiveCameraChanged 2, NeedRender, ActiveLightChanged 3]"
  "parent objects_constructed = (\<lambda>_. None)(2 := Some 1, 3 := Some 1)"
  "set (connections objects_constructed) = {(2, sg, 1) | sg. True}"
  using all_camera_signals
  by (auto simp: scene_constructed_def objects_constructed_def Q3DScenePrivate_ctor_def)

theorem setActive_null_and_reparent_witness:
  "setActiveCamera None (objects_constructed, scene_constructed) = Inl AssertionFailed
   \<and> parent objects_constructed 7 = None
   \<and> (\<exists>h' s'. setActiveCamera (Some 7) (objects_constructed, scene_constructed) = Inr (h', s')
         \<and> parent h' 7 = Some 1 \<and> m_camera s' = Some 7
         \<and> set (connections h') = {(7, sg, 1) | sg. True})
   \<and> (\<exists>h'. setActiveLight (Some 3) (objects_constructed, scene_constructed)
               = Inr (h', scene_constructed)
         \<and> parent h' = parent objects_constructed)"
proof -
  note t = setActive_null_and_reparent [of objects_constructed scene_constructed 7 3]
  have n: "Some 7 \<noteq> m_camera scene_constructed" "Some 3 = m_light scene_constructed"
    by (simp_all add: constructed_fields)
  from t have "setActiveCamera None (objects_constructed, scene_constructed) = Inl AssertionFailed"
    by blast
  moreover have "parent objects_constructed 7 = None"
    by (simp add: constructed_fields)
  moreover from t n(1) obtain h' s' where
    "setActiveCamera (Some 7) (objects_constructed, scene_constructed) = Inr (h', s')"
    "parent h' = (parent objects_constructed)(7 := Some (q_ptr scene_constructed))"
    "m_camera s' = Some 7"
    "set (connections h') =
       (set (connections objects_constructed)
          - (case m_camera scene_constructed of None \<Rightarrow> {}
             | Some old \<Rightarrow> {(old, sg, q_ptr scene_constructed) | sg. True}))
       \<union> {(7, sg, q_ptr scene_constructed) | sg. True}"
    by blast
  then have "\<exists>h' s'. setActiveCamera (Some 7) (objects_constructed, scene_constructed) = Inr (h', s')
         \<and> parent h' 7 = Some 1 \<and> m_camera s' = Some 7
         \<and> set (connections h') = {(7, sg, 1) | sg. True}"
    by (simp add: constructed_fields)
  moreover from t n(2) obtain k' where
    "setActiveLight (Some 3) (objects_constructed, scene_constructed) = Inr (k', scene_constructed)"
    "parent k' = (parent objects_constructed)(3 := Some (q_ptr scene_constructed))"
    by blast
  then have "\<exists>h'. setActiveLight (Some 3) (objects_constructed, scene_constructed)
               = Inr (h', scene_constructed)
         \<and> parent h' = parent objects_constructed"
    by (simp add: constructed_fields)
  ultimately show ?thesis by blast
qed

text \<open>
  Claim C10. Assigning a new active light emits the active-light-changed signal and
  nothing else, so no render request; assigning the light that is active already emits
  nothing at all. Assigning a new active camera emits the active-camera-changed signal
  followed by a render request.
\<close>

theorem active_light_emits_no_render_request:
  "(Some l \<noteq> m_light s \<longrightarrow>
      (\<exists>h' s'. setActiveLight (Some l) (h, s) = Inr (h', s')
         \<and> emitted s' = emitted s @ [ActiveLightChanged l]))
   \<and> (Some l = m_light s \<longrightarrow> (\<exists>h'. setActiveLight (Some l) (h, s) = Inr (h', s)))
   \<and> (Some c \<noteq> m_camera s \<longrightarrow>
      (\<exists>h' s'. setActiveCamera (Some c) (h, s) = Inr (h', s')
         \<and> emitted s' = emitted s @ [ActiveCameraChanged c, NeedRender]))"
proof (intro conjI impI)
  assume a: "Some l \<noteq> m_light s"
  from setActiveLight_new [OF a, of h]
  show "\<exists>h' s'. setActiveLight (Some l) (h, s) = Inr (h', s')
         \<and> emitted s' = emitted s @ [ActiveLightChanged l]"
    by blast
next
  assume a: "Some l = m_light s"
  from setActiveLight_same [OF a, of h]
  show "\<exists>h'. setActiveLight (Some l) (h, s) = Inr (h', s)"
    by blast
next
  assume a: "Some c \<noteq> m_camera s"
  from setActiveCamera_new [OF a, of h]
  show "\<exists>h' s'. setActiveCamera (Some c) (h, s) = Inr (h', s')
         \<and> emitted s' = emitted s @ [ActiveCameraChanged c, NeedRender]"
    by blast
qed

theorem active_light_emits_no_render_request_witness:
  "(\<exists>h' s'. setActiveLight (Some 8) (objects_constructed, scene_constructed) = Inr (h', s')
      \<and> emitted s'
          = [ActiveCameraChanged 2, NeedRender, ActiveLightChanged 3, ActiveLightChanged 8])
   \<and> (\<exists>h'. setActiveLight (Some 3) (objects_constructed, scene_constructed)
              = Inr (h', scene_constructed))
   \<and> (\<exists>h' s'. setActiveCamera (Some 7) (objects_constructed, scene_constructed) = Inr (h', s')
      \<and> emitted s'
          = [ActiveCameraChanged 2, NeedRender, ActiveLightChanged 3, ActiveCameraChanged 7,
             NeedRender])"
proof -
  have n: "Some 8 \<noteq> m_light scene_constructed" "Some 7 \<noteq> m_camera scene_constructed"
    "Some 3 = m_light scene_constructed"
    by (simp_all add: constructed_fields)
  from active_light_emits_no_render_request [of 8 scene_constructed objects_constructed 7] n(1,2)
  have a: "\<exists>h' s'. setActiveLight (Some 8) (objects_constructed, scene_constructed) = Inr (h', s')
         \<and> emitted s' = emitted scene_constructed @ [ActiveLightChanged 8]"
    and c: "\<exists>h' s'. setActiveCamera (Some 7) (objects_constructed, scene_constructed) = Inr (h', s')
         \<and> emitted s' = emitted scene_constructed @ [ActiveCameraChanged 7, NeedRender]"
    by blast+
  from active_light_emits_no_render_request [of 3 scene_constructed objects_constructed 7] n(3)
  have b: "\<exists>h'. setActiveLight (Some 3) (objects_constructed, scene_constructed)
              = Inr (h', scene_constructed)"
    by blast
  from a b c show ?thesis by (simp add: constructed_fields)
qed

subsection \<open>Synchronisation\<close>

lemma sync_windowSize_fst [simp]:
  "fst (sync_windowSize p) = (fst p)\<lparr>m_changeTracker := (m_changeTracker (fst p))\<lparr>windowSizeChanged := False\<rparr>\<rparr>"
  by (simp add: sync_windowSize_def Let_def)

lemma sync_windowSize_idle:
  "\<not> windowSizeChanged (m_changeTracker (fst p)) \<Longrightarrow> sync_windowSize p = p"
  by (simp add: sync_windowSize_def Let_def)

lemma sync_windowSize_snd_frame [simp]:
  "q_ptr (snd (sync_windowSize p)) = q_ptr (snd p)"
  "m_viewport (snd (sync_windowSize p)) = m_viewport (snd p)"
  "m_primarySubViewport (snd (sync_windowSize p)) = m_primarySubViewport (snd p)"
  "m_secondarySubViewport (snd (sync_windowSize p)) = m_secondarySubViewport (snd p)"
  "m_isSecondarySubviewOnTop (snd (sync_windowSize p)) = m_isSecondarySubviewOnTop (snd p)"
  "m_devicePixelRatio (snd (sync_windowSize p)) = m_devicePixelRatio (snd p)"
  "m_camera (snd (sync_windowSize p)) = m_camera (snd p)"
  "m_light (snd (sync_windowSize p)) = m_light (snd p)"
  "m_isUnderSideCameraEnabled (snd (sync_windowSize p)) = m_isUnderSideCameraEnabled (snd p)"
  "m_isSlicingActive (snd (sync_windowSize p)) = m_isSlicingActive (snd p)"
  "m_selectionQueryPosition (snd (sync_windowSize p)) = m_selectionQueryPosition (snd p)"
  "subViewportOrderChanged (m_changeTracker (snd (sync_windowSize p))) = subViewportOrderChanged (m_changeTracker (snd p))"
  "cameraChanged (m_changeTracker (snd (sync_windowSize p))) = cameraChanged (m_changeTracker (snd p))"
  "lightChanged (m_changeTracker (snd (sync_windowSize p))) = lightChanged (m_changeTracker (snd p))"
  "slicingActivatedChanged (m_changeTracker (snd (sync_windowSize p))) = slicingActivatedChanged (m_changeTracker (snd p))"
  "devicePixelRatioChanged (m_changeTracker (snd (sync_windowSize p))) = devicePixelRatioChanged (m_changeTracker (snd p))"
  "selectionQueryPositionChanged (m_changeTracker (snd (sync_windowSize p))) = selectionQueryPositionChanged (m_changeTracker (snd p))"
  by (simp_all add: sync_windowSize_def Let_def)

lemma sync_windowSize_snd_flag [simp]:
  "windowSizeChanged (m_changeTracker (snd (sync_windowSize p))) =
     (if windowSizeChanged (m_changeTracker (fst p)) then False else windowSizeChanged (m_changeTracker (snd p)))"
  by (simp add: sync_windowSize_def Let_def)

lemma sync_viewport_fst [simp]:
  "fst (sync_viewport p) = (fst p)\<lparr>m_changeTracker := (m_changeTracker (fst p))\<lparr>viewportChanged := False\<rparr>\<rparr>"
  by (simp add: sync_viewport_def Let_def)

lemma sync_viewport_idle:
  "\<not> viewportChanged (m_changeTracker (fst p)) \<Longrightarrow> sync_viewport p = p"
  by (simp add: sync_viewport_def Let_def)

lemma sync_viewport_snd_frame [simp]:
  "q_ptr (snd (sync_viewport p)) = q_ptr (snd p)"
  "m_isSecondarySubviewOnTop (snd (sync_viewport p)) = m_isSecondarySubviewOnTop (snd p)"
  "m_devicePixelRatio (snd (sync_viewport p)) = m_devicePixelRatio (snd p)"
  "m_camera (snd (sync_viewport p)) = m_camera (snd p)"
  "m_light (snd (sync_viewport p)) = m_light (snd p)"
  "m_isUnderSideCameraEnabled (snd (sync_viewport p)) = m_isUnderSideCameraEnabled (snd p)"
  "m_isSlicingActive (snd (sync_viewport p)) = m_isSlicingActive (snd p)"
  "m_selectionQueryPosition (snd (sync_viewport p)) = m_selectionQueryPosition (snd p)"
  "m_windowSize (snd (sync_viewport p)) = m_windowSize (snd p)"
  "subViewportOrderChanged (m_changeTracker (snd (sync_viewport p))) = subViewportOrderChanged (m_changeTracker (snd p))"
  "cameraChanged (m_changeTracker (snd (sync_viewport p))) = cameraChanged (m_changeTracker (snd p))"
  "lightChanged (m_changeTracker (snd (sync_viewport p))) = lightChanged (m_changeTracker (snd p))"
  "slicingActivatedChanged (m_changeTracker (snd (sync_viewport p))) = slicingActivatedChanged (m_changeTracker (snd p))"
  "devicePixelRatioChanged (m_changeTracker (snd (sync_viewport p))) = devicePixelRatioChanged (m_changeTracker (snd p))"
  "selectionQueryPositionChanged (m_changeTracker (snd (sync_viewport p))) = selectionQueryPositionChanged (m_changeTracker (snd p))"
  "windowSizeChanged (m_changeTracker (snd (sync_viewport p))) = windowSizeChanged (m_changeTracker (snd p))"
  by (simp_all add: sync_viewport_def Let_def)

lemma sync_subViewportOrder_fst [simp]:
  "fst (sync_subViewportOrder p) = (fst p)\<lparr>m_changeTracker := (m_changeTracker (fst p))\<lparr>subViewportOrderChanged := False\<rparr>\<rparr>"
  by (simp add: sync_subViewportOrder_def Let_def)

lemma sync_subViewportOrder_idle:
  "\<not> subViewportOrderChanged (m_changeTracker (fst p)) \<Longrightarrow> sync_subViewportOrder p = p"
  by (simp add: sync_subViewportOrder_def Let_def)

lemma sync_subViewportOrder_snd_frame [simp]:
  "q_ptr (snd (sync_subViewportOrder p)) = q_ptr (snd p)"
  "m_viewport (snd (sync_subViewportOrder p)) = m_viewport (snd p)"
  "m_primarySubViewport (snd (sync_subViewportOrder p)) = m_primarySubViewport (snd p)"
  "m_secondarySubViewport (snd (sync_subViewportOrder p)) = m_secondarySubViewport (snd p)"
  "m_devicePixelRatio (snd (sync_subViewportOrder p)) = m_devicePixelRatio (snd p)"
  "m_camera (snd (sync_subViewportOrder p)) = m_camera (snd p)"
  "m_light (snd (sync_subViewportOrder p)) = m_light (snd p)"
  "m_isUnderSideCameraEnabled (snd (sync_subViewportOrder p)) = m_isUnderSideCameraEnabled (snd p)"
  "m_isSlicingActive (snd (sync_subViewportOrder p)) = m_isSlicingActive (snd p)"
  "m_selectionQueryPosition (snd (sync_subViewportOrder p)) = m_selectionQueryPosition (snd p)"
  "m_windowSize (snd (sync_subViewportOrder p)) = m_windowSize (snd p)"
  "cameraChanged (m_changeTracker (snd (sync_subViewportOrder p))) = cameraChanged (m_changeTracker (snd p))"
  "lightChanged (m_changeTracker (snd (sync_subViewportOrder p))) = lightChanged (m_changeTracker (snd p))"
  "slicingActivatedChanged (m_changeTracker (snd (sync_subViewportOrder p))) = slicingActivatedChanged (m_changeTracker (snd p))"
  "devicePixelRatioChanged (m_changeTracker (snd (sync_subViewportOrder p))) = devicePixelRatioChanged (m_changeTracker (snd p))"
  "selectionQueryPositionChanged (m_changeTracker (snd (sync_subViewportOrder p))) = selectionQueryPositionChanged (m_changeTracker (snd p))"
  "windowSizeChanged (m_changeTracker (snd (sync_subViewportOrder p))) = windowSizeChanged (m_changeTracker (snd p))"
  by (simp_all add: sync_subViewportOrder_def Let_def)

lemma sync_subViewportOrder_snd_flag [simp]:
  "subViewportOrderChanged (m_changeTracker (snd (sync_subViewportOrder p))) =
     (if subViewportOrderChanged (m_changeTracker (fst p)) then False else subViewportOrderChanged (m_changeTracker (snd p)))"
  by (simp add: sync_subViewportOrder_def Let_def)

lemma sync_primarySubViewport_fst [simp]:
  "fst (sync_primarySubViewport p) = (fst p)\<lparr>m_changeTracker := (m_changeTracker (fst p))\<lparr>primarySubViewportChanged := False\<rparr>\<rparr>"
  by (simp add: sync_primarySubViewport_def Let_def)

lemma sync_primarySubViewport_idle:
  "\<not> primarySubViewportChanged (m_changeTracker (fst p)) \<Longrightarrow> sync_primarySubViewport p = p"
  by (simp add: sync_primarySubViewport_def Let_def)

lemma sync_primarySubViewport_snd_frame [simp]:
  "q_ptr (snd (sync_primarySubViewport p)) = q_ptr (snd p)"
  "m_viewport (snd (sync_primarySubViewport p)) = m_viewport (snd p)"
  "m_secondarySubViewport (snd (sync_primarySubViewport p)) = m_secondarySubViewport (snd p)"
  "m_isSecondarySubviewOnTop (snd (sync_primarySubViewport p)) = m_isSecondarySubviewOnTop (snd p)"
  "m_devicePixelRatio (snd (sync_primarySubViewport p)) = m_devicePixelRatio (snd p)"
  "m_camera (snd (sync_primarySubViewport p)) = m_camera (snd p)"
  "m_light (snd (sync_primarySubViewport p)) = m_light (snd p)"
  "m_isUnderSideCameraEnabled (snd (sync_primarySubViewport p)) = m_isUnderSideCameraEnabled (snd p)"
  "m_isSlicingActive (snd (sync_primarySubViewport p)) = m_isSlicingActive (snd p)"
  "m_selectionQueryPosition (snd (sync_primarySubViewport p)) = m_selectionQueryPosition (snd p)"
  "m_windowSize (snd (sync_primarySubViewport p)) = m_windowSize (snd p)"
  "subViewportOrderChanged (m_changeTracker (snd (sync_primarySubViewport p))) = subViewportOrderChanged (m_changeTracker (snd p))"
  "cameraChanged (m_changeTracker (snd (sync_primarySubViewport p))) = cameraChanged (m_changeTracker (snd p))"
  "lightChanged (m_changeTracker (snd (sync_primarySubViewport p))) = lightChanged (m_changeTracker (snd p))"
  "slicingActivatedChanged (m_changeTracker (snd (sync_primarySubViewport p))) = slicingActivatedChanged (m_changeTracker (snd p))"
  "devicePixelRatioChanged (m_changeTracker (snd (sync_primarySubViewport p))) = devicePixelRatioChanged (m_changeTracker (snd p))"
  "selectionQueryPositionChanged (m_changeTracker (snd (sync_primarySubViewport p))) = selectionQueryPositionChanged (m_changeTracker (snd p))"
  "windowSizeChanged (m_changeTracker (snd (sync_primarySubViewport p))) = windowSizeChanged (m_changeTracker (snd p))"
  by (simp_all add: sync_primarySubViewport_def Let_def)

lemma sync_secondarySubViewport_fst [simp]:
  "fst (sync_secondarySubViewport p) = (fst p)\<lparr>m_changeTracker := (m_changeTracker (fst p))\<lparr>secondarySubViewportChanged := False\<rparr>\<rparr>"
  by (simp add: sync_secondarySubViewport_def Let_def)

lemma sync_secondarySubViewport_idle:
  "\<not> secondarySubViewportChanged (m_changeTracker (fst p)) \<Longrightarrow> sync_secondarySubViewport p = p"
  by (simp add: sync_secondarySubViewport_def Let_def)

lemma sync_secondarySubViewport_snd_frame [simp]:
  "q_ptr (snd (sync_secondarySubViewport p)) = q_ptr (snd p)"
  "m_viewport (snd (sync_secondarySubViewport p)) = m_viewport (snd p)"
  "m_primarySubViewport (snd (sync_secondarySubViewport p)) = m_primarySubViewport (snd p)"
  "m_isSecondarySubviewOnTop (snd (sync_secondarySubViewport p)) = m_isSecondarySubviewOnTop (snd p)"
  "m_devicePixelRatio (snd (sync_secondarySubViewport p)) = m_devicePixelRatio (snd p)"
  "m_camera (snd (sync_secondarySubViewport p)) = m_camera (snd p)"
  "m_light (snd (sync_secondarySubViewport p)) = m_light (snd p)"
  "m_isUnderSideCameraEnabled (snd (sync_secondarySubViewport p)) = m_isUnderSideCameraEnabled (snd p)"
  "m_isSlicingActive (snd (sync_secondarySubViewport p)) = m_isSlicingActive (snd p)"
  "m_selectionQueryPosition (snd (sync_secondarySubViewport p)) = m_selectionQueryPosition (snd p)"
  "m_windowSize (snd (sync_secondarySubViewport p)) = m_windowSize (snd p)"
  "subViewportOrderChanged (m_changeTracker (snd (sync_secondarySubViewport p))) = subViewportOrderChanged (m_changeTracker (snd p))"
  "cameraChanged (m_changeTracker (snd (sync_secondarySubViewport p))) = cameraChanged (m_changeTracker (snd p))"
  "lightChanged (m_changeTracker (snd (sync_secondarySubViewport p))) = lightChanged (m_changeTracker (snd p))"
  "slicingActivatedChanged (m_changeTracker (snd (sync_secondarySubViewport p))) = slicingActivatedChanged (m_changeTracker (snd p))"
  "devicePixelRatioChanged (m_changeTracker (snd (sync_secondarySubViewport p))) = devicePixelRatioChanged (m_changeTracker (snd p))"
  "selectionQueryPositionChanged (m_changeTracker (snd (sync_secondarySubViewport p))) = selectionQueryPositionChanged (m_changeTracker (snd p))"
  "windowSizeChanged (m_changeTracker (snd (sync_secondarySubViewport p))) = windowSizeChanged (m_changeTracker (snd p))"
  by (simp_all add: sync_secondarySubViewport_def Let_def)

lemma sync_selectionQueryPosition_fst [simp]:
  "fst (sync_selectionQueryPosition p) = (fst p)\<lparr>m_changeTracker := (m_changeTracker (fst p))\<lparr>selectionQueryPositionChanged := False\<rparr>\<rparr>"
  by (simp add: sync_selectionQueryPosition_def Let_def)

lemma sync_selectionQueryPosition_idle:
  "\<not> selectionQueryPositionChanged (m_changeTracker (fst p)) \<Longrightarrow> sync_selectionQueryPosition p = p"
  by (simp add: sync_selectionQueryPosition_def Let_def)

lemma sync_selectionQueryPosition_snd_frame [simp]:
  "q_ptr (snd (sync_selectionQueryPosition p)) = q_ptr (snd p)"
  "m_viewport (snd (sync_selectionQueryPosition p)) = m_viewport (snd p)"
  "m_primarySubViewport (snd (sync_selectionQueryPosition p)) = m_primarySubViewport (snd p)"
  "m_secondarySubViewport (snd (sync_selectionQueryPosition p)) = m_secondarySubViewport (snd p)"
  "m_isSecondarySubviewOnTop (snd (sync_selectionQueryPosition p)) = m_isSecondarySubviewOnTop (snd p)"
  "m_devicePixelRatio (snd (sync_selectionQueryPosition p)) = m_devicePixelRatio (snd p)"
  "m_camera (snd (sync_selectionQueryPosition p)) = m_camera (snd p)"
  "m_light (snd (sync_selectionQueryPosition p)) = m_light (snd p)"
  "m_isUnderSideCameraEnabled (snd (sync_selectionQueryPosition p)) = m_isUnderSideCameraEnabled (snd p)"
  "m_isSlicingActive (snd (sync_selectionQueryPosition p)) = m_isSlicingActive (snd p)"
  "m_windowSize (snd (sync_selectionQueryPosition p)) = m_windowSize (snd p)"
  "subViewportOrderChanged (m_changeTracker (snd (sync_selectionQueryPosition p))) = subViewportOrderChanged (m_changeTracker (snd p))"
  "cameraChanged (m_changeTracker (snd (sync_selectionQueryPosition p))) = cameraChanged (m_changeTracker (snd p))"
  "lightChanged (m_changeTracker (snd (sync_selectionQueryPosition p))) = lightChanged (m_changeTracker (snd p))"
  "slicingActivatedChanged (m_changeTracker (snd (sync_selectionQueryPosition p))) = slicingActivatedChanged (m_changeTracker (snd p))"
  "devicePixelRatioChanged (m_changeTracker (snd (sync_selectionQueryPosition p))) = devicePixelRatioChanged (m_changeTracker (snd p))"
  "windowSizeChanged (m_changeTracker (snd (sync_selectionQueryPosition p))) = windowSizeChanged (m_changeTracker (snd p))"
  by (simp_all add: sync_selectionQueryPosition_def Let_def)

lemma sync_selectionQueryPosition_snd_flag [simp]:
  "selectionQueryPositionChanged (m_changeTracker (snd (sync_selectionQueryPosition p))) =
     (if selectionQueryPositionChanged (m_changeTracker (fst p)) then False else selectionQueryPositionChanged (m_changeTracker (snd p)))"
  by (simp add: sync_selectionQueryPosition_def Let_def)

lemma sync_camera_fst [simp]:
  "fst (sync_camera p) = (fst p)\<lparr>m_changeTracker := (m_changeTracker (fst p))\<lparr>cameraChanged := False\<rparr>\<rparr>"
  by (simp add: sync_camera_def Let_def)

lemma sync_camera_idle:
  "\<not> cameraChanged (m_changeTracker (fst p)) \<Longrightarrow> sync_camera p = p"
  by (simp add: sync_camera_def Let_def)

lemma sync_camera_snd_frame [simp]:
  "q_ptr (snd (sync_camera p)) = q_ptr (snd p)"
  "m_viewport (snd (sync_camera p)) = m_viewport (snd p)"
  "m_primarySubViewport (snd (sync_camera p)) = m_primarySubViewport (snd p)"
  "m_secondarySubViewport (snd (sync_camera p)) = m_secondarySubViewport (snd p)"
  "m_isSecondarySubviewOnTop (snd (sync_camera p)) = m_isSecondarySubviewOnTop (snd p)"
  "m_devicePixelRatio (snd (sync_camera p)) = m_devicePixelRatio (snd p)"
  "m_camera (snd (sync_camera p)) = m_camera (snd p)"
  "m_light (snd (sync_camera p)) = m_light (snd p)"
  "m_isUnderSideCameraEnabled (snd (sync_camera p)) = m_isUnderSideCameraEnabled (snd p)"
  "m_isSlicingActive (snd (sync_camera p)) = m_isSlicingActive (snd p)"
  "m_selectionQueryPosition (snd (sync_camera p)) = m_selectionQueryPosition (snd p)"
  "m_windowSize (snd (sync_camera p)) = m_windowSize (snd p)"
  "subViewportOrderChanged (m_changeTracker (snd (sync_camera p))) = subViewportOrderChanged (m_changeTracker (snd p))"
  "lightChanged (m_changeTracker (snd (sync_camera p))) = lightChanged (m_changeTracker (snd p))"
  "slicingActivatedChanged (m_changeTracker (snd (sync_camera p))) = slicingActivatedChanged (m_changeTracker (snd p))"
  "devicePixelRatioChanged (m_changeTracker (snd (sync_camera p))) = devicePixelRatioChanged (m_changeTracker (snd p))"
  "selectionQueryPositionChanged (m_changeTracker (snd (sync_camera p))) = selectionQueryPositionChanged (m_changeTracker (snd p))"
  "windowSizeChanged (m_changeTracker (snd (sync_camera p))) = windowSizeChanged (m_changeTracker (snd p))"
  by (simp_all add: sync_camera_def Let_def)

lemma sync_camera_snd_flag [simp]:
  "cameraChanged (m_changeTracker (snd (sync_camera p))) =
     (if cameraChanged (m_changeTracker (fst p)) then False else cameraChanged (m_changeTracker (snd p)))"
  by (simp add: sync_camera_def Let_def)

lemma sync_light_fst [simp]:
  "fst (sync_light p) = (fst p)\<lparr>m_changeTracker := (m_changeTracker (fst p))\<lparr>lightChanged := False\<rparr>\<rparr>"
  by (simp add: sync_light_def Let_def)

lemma sync_light_idle:
  "\<not> lightChanged (m_changeTracker (fst p)) \<Longrightarrow> sync_light p = p"
  by (simp add: sync_light_def Let_def)

lemma sync_light_snd_frame [simp]:
  "q_ptr (snd (sync_light p)) = q_ptr (snd p)"
  "m_viewport (snd (sync_light p)) = m_viewport (snd p)"
  "m_primarySubViewport (snd (sync_light p)) = m_primarySubViewport (snd p)"
  "m_secondarySubViewport (snd (sync_light p)) = m_secondarySubViewport (snd p)"
  "m_isSecondarySubviewOnTop (snd (sync_light p)) = m_isSecondarySubviewOnTop (snd p)"
  "m_devicePixelRatio (snd (sync_light p)) = m_devicePixelRatio (snd p)"
  "m_camera (snd (sync_light p)) = m_camera (snd p)"
  "m_light (snd (sync_light p)) = m_light (snd p)"
  "m_isUnderSideCameraEnabled (snd (sync_light p)) = m_isUnderSideCameraEnabled (snd p)"
  "m_isSlicingActive (snd (sync_light p)) = m_isSlicingActive (snd p)"
  "m_selectionQueryPosition (snd (sync_light p)) = m_selectionQueryPosition (snd p)"
  "m_windowSize (snd (sync_light p)) = m_windowSize (snd p)"
  "subViewportOrderChanged (m_changeTracker (snd (sync_light p))) = subViewportOrderChanged (m_changeTracker (snd p))"
  "cameraChanged (m_changeTracker (snd (sync_light p))) = cameraChanged (m_changeTracker (snd p))"
  "slicingActivatedChanged (m_changeTracker (snd (sync_light p))) = slicingActivatedChanged (m_changeTracker (snd p))"
  "devicePixelRatioChanged (m_changeTracker (snd (sync_light p))) = devicePixelRatioChanged (m_changeTracker (snd p))"
  "selectionQueryPositionChanged (m_changeTracker (snd (sync_light p))) = selectionQueryPositionChanged (m_changeTracker (snd p))"
  "windowSizeChanged (m_changeTracker (snd (sync_light p))) = windowSizeChanged (m_changeTracker (snd p))"
  by (simp_all add: sync_light_def Let_def)

lemma sync_light_snd_flag [simp]:
  "lightChanged (m_changeTracker (snd (sync_light p))) =
     (if lightChanged (m_changeTracker (fst p)) then False else lightChanged (m_changeTracker (snd p)))"
  by (simp add: sync_light_def Let_def)

lemma sync_slicingActivated_fst [simp]:
  "fst (sync_slicingActivated p) = (fst p)\<lparr>m_changeTracker := (m_changeTracker (fst p))\<lparr>slicingActivatedChanged := False\<rparr>\<rparr>"
  by (simp add: sync_slicingActivated_def Let_def)

lemma sync_slicingActivated_idle:
  "\<not> slicingActivatedChanged (m_changeTracker (fst p)) \<Longrightarrow> sync_slicingActivated p = p"
  by (simp add: sync_slicingActivated_def Let_def)

lemma sync_slicingActivated_snd_frame [simp]:
  "q_ptr (snd (sync_slicingActivated p)) = q_ptr (snd p)"
  "m_viewport (snd (sync_slicingActivated p)) = m_viewport (snd p)"
  "m_isSecondarySubviewOnTop (snd (sync_slicingActivated p)) = m_isSecondarySubviewOnTop (snd p)"
  "m_devicePixelRatio (snd (sync_slicingActivated p)) = m_devicePixelRatio (snd p)"
  "m_camera (snd (sync_slicingActivated p)) = m_camera (snd p)"
  "m_light (snd (sync_slicingActivated p)) = m_light (snd p)"
  "m_isUnderSideCameraEnabled (snd (sync_slicingActivated p)) = m_isUnderSideCameraEnabled (snd p)"
  "m_selectionQueryPosition (snd (sync_slicingActivated p)) = m_selectionQueryPosition (snd p)"
  "m_windowSize (snd (sync_slicingActivated p)) = m_windowSize (snd p)"
  "subViewportOrderChanged (m_changeTracker (snd (sync_slicingActivated p))) = subViewportOrderChanged (m_changeTracker (snd p))"
  "cameraChanged (m_changeTracker (snd (sync_slicingActivated p))) = cameraChanged (m_changeTracker (snd p))"
  "lightChanged (m_changeTracker (snd (sync_slicingActivated p))) = lightChanged (m_changeTracker (snd p))"
  "devicePixelRatioChanged (m_changeTracker (snd (sync_slicingActivated p))) = devicePixelRatioChanged (m_changeTracker (snd p))"
  "selectionQueryPositionChanged (m_changeTracker (snd (sync_slicingActivated p))) = selectionQueryPositionChanged (m_changeTracker (snd p))"
  "windowSizeChanged (m_changeTracker (snd (sync_slicingActivated p))) = windowSizeChanged (m_changeTracker (snd p))"
  by (simp_all add: sync_slicingActivated_def Let_def)

lemma sync_slicingActivated_snd_flag [simp]:
  "slicingActivatedChanged (m_changeTracker (snd (sync_slicingActivated p))) =
     (if slicingActivatedChanged (m_changeTracker (fst p)) then False else slicingActivatedChanged (m_changeTracker (snd p)))"
  by (simp add: sync_slicingActivated_def Let_def)

lemma sync_devicePixelRatio_fst [simp]:
  "fst (sync_devicePixelRatio p) = (fst p)\<lparr>m_changeTracker := (m_changeTracker (fst p))\<lparr>devicePixelRatioChanged := False\<rparr>\<rparr>"
  by (simp add: sync_devicePixelRatio_def Let_def)

lemma sync_devicePixelRatio_idle:
  "\<not> devicePixelRatioChanged (m_changeTracker (fst p)) \<Longrightarrow> sync_devicePixelRatio p = p"
  by (simp add: sync_devicePixelRatio_def Let_def)

lemma sync_devicePixelRatio_snd_frame [simp]:
  "q_ptr (snd (sync_devicePixelRatio p)) = q_ptr (snd p)"
  "m_viewport (snd (sync_devicePixelRatio p)) = m_viewport (snd p)"
  "m_primarySubViewport (snd (sync_devicePixelRatio p)) = m_primarySubViewport (snd p)"
  "m_secondarySubViewport (snd (sync_devicePixelRatio p)) = m_secondarySubViewport (snd p)"
  "m_isSecondarySubviewOnTop (snd (sync_devicePixelRatio p)) = m_isSecondarySubviewOnTop (snd p)"
  "m_camera (snd (sync_devicePixelRatio p)) = m_camera (snd p)"
  "m_light (snd (sync_devicePixelRatio p)) = m_light (snd p)"
  "m_isUnderSideCameraEnabled (snd (sync_devicePixelRatio p)) = m_isUnderSideCameraEnabled (snd p)"
  "m_isSlicingActive (snd (sync_devicePixelRatio p)) = m_isSlicingActive (snd p)"
  "m_selectionQueryPosition (snd (sync_devicePixelRatio p)) = m_selectionQueryPosition (snd p)"
  "m_windowSize (snd (sync_devicePixelRatio p)) = m_windowSize (snd p)"
  "subViewportOrderChanged (m_changeTracker (snd (sync_devicePixelRatio p))) = subViewportOrderChanged (m_changeTracker (snd p))"
  "cameraChanged (m_changeTracker (snd (sync_devicePixelRatio p))) = cameraChanged (m_changeTracker (snd p))"
  "lightChanged (m_changeTracker (snd (sync_devicePixelRatio p))) = lightChanged (m_changeTracker (snd p))"
  "slicingActivatedChanged (m_changeTracker (snd (sync_devicePixelRatio p))) = slicingActivatedChanged (m_changeTracker (snd p))"
  "selectionQueryPositionChanged (m_changeTracker (snd (sync_devicePixelRatio p))) = selectionQueryPositionChanged (m_changeTracker (snd p))"
  "windowSizeChanged (m_changeTracker (snd (sync_devicePixelRatio p))) = windowSizeChanged (m_changeTracker (snd p))"
  by (simp_all add: sync_devicePixelRatio_def Let_def)

lemma sync_devicePixelRatio_snd_flag [simp]:
  "devicePixelRatioChanged (m_changeTracker (snd (sync_devicePixelRatio p))) =
     (if devicePixelRatioChanged (m_changeTracker (fst p)) then False else devicePixelRatioChanged (m_changeTracker (snd p)))"
  by (simp add: sync_devicePixelRatio_def Let_def)

lemma setter_stores:
  "m_windowSize (setWindowSize z s) = z"
  "m_viewport (setViewport v s) = v"
  "m_isSecondarySubviewOnTop (setSecondarySubviewOnTop b s) = b"
  "m_selectionQueryPosition (setSelectionQueryPosition pt s) = pt"
  "m_isSlicingActive (setSlicingActive b s) = b"
  "m_devicePixelRatio (setDevicePixelRatio r s) = r"
  by (auto simp: setWindowSize_def setViewport_def setSecondarySubviewOnTop_def
      setSelectionQueryPosition_def setSlicingActive_def setDevicePixelRatio_def Let_def)

lemma sync_snd_key [simp]:
  "m_windowSize (snd (sync_windowSize p)) =
     (if windowSizeChanged (m_changeTracker (fst p)) then m_windowSize (fst p)
      else m_windowSize (snd p))"
  "m_viewport (snd (sync_viewport p)) =
     (if viewportChanged (m_changeTracker (fst p)) then m_viewport (fst p)
      else m_viewport (snd p))"
  "m_isSecondarySubviewOnTop (snd (sync_subViewportOrder p)) =
     (if subViewportOrderChanged (m_changeTracker (fst p)) then m_isSecondarySubviewOnTop (fst p)
      else m_isSecondarySubviewOnTop (snd p))"
  "m_selectionQueryPosition (snd (sync_selectionQueryPosition p)) =
     (if selectionQueryPositionChanged (m_changeTracker (fst p))
      then m_selectionQueryPosition (fst p) else m_selectionQueryPosition (snd p))"
  "m_isSlicingActive (snd (sync_slicingActivated p)) =
     (if slicingActivatedChanged (m_changeTracker (fst p)) then m_isSlicingActive (fst p)
      else m_isSlicingActive (snd p))"
  "m_devicePixelRatio (snd (sync_devicePixelRatio p)) =
     (if devicePixelRatioChanged (m_changeTracker (fst p)) then m_devicePixelRatio (fst p)
      else m_devicePixelRatio (snd p))"
  by (simp_all add: sync_windowSize_def sync_viewport_def sync_subViewportOrder_def
      sync_selectionQueryPosition_def sync_slicingActivated_def sync_devicePixelRatio_def
      Let_def setter_stores windowSize_def)

lemma sync_snd_subViewport [simp]:
  "m_primarySubViewport (snd (sync_primarySubViewport p)) =
     (if primarySubViewportChanged (m_changeTracker (fst p))
      then intersected (m_primarySubViewport (fst p)) (clipRect (snd p))
      else m_primarySubViewport (snd p))"
  "m_secondarySubViewport (snd (sync_secondarySubViewport p)) =
     (if secondarySubViewportChanged (m_changeTracker (fst p))
      then intersected (m_secondarySubViewport (fst p)) (clipRect (snd p))
      else m_secondarySubViewport (snd p))"
  by (simp_all add: sync_primarySubViewport_def sync_secondarySubViewport_def Let_def
      m_primarySubViewport_setPrimarySubViewport m_secondarySubViewport_setSecondarySubViewport)

lemma sync_slicingActivated_same:
  assumes "m_isSlicingActive (fst p) = m_isSlicingActive (snd p)"
  shows "m_primarySubViewport (snd (sync_slicingActivated p)) = m_primarySubViewport (snd p)"
    and "m_secondarySubViewport (snd (sync_slicingActivated p)) = m_secondarySubViewport (snd p)"
  using assms by (simp_all add: sync_slicingActivated_def Let_def setSlicingActive_def)

lemma sync_viewport_same:
  assumes "m_viewport (fst p) = m_viewport (snd p)"
  shows "m_primarySubViewport (snd (sync_viewport p)) = m_primarySubViewport (snd p)"
    and "m_secondarySubViewport (snd (sync_viewport p)) = m_secondarySubViewport (snd p)"
  using assms by (simp_all add: sync_viewport_def Let_def setViewport_def)


lemma sync_eq:
  "sync s t =
     (if m_camera s = None \<or> m_camera t = None \<or> m_light s = None \<or> m_light t = None
      then Inl NullPointerDereference else Inr (sync_blocks (s, t)))"
  by (simp add: sync_def sync_blocks_def sync_upto_selection_def Let_def)

lemma sync_blocks_fst:
  "fst (sync_blocks p) = (fst p)\<lparr>m_changeTracker := no_changes, m_sceneDirty := False\<rparr>"
  by (simp add: sync_blocks_def sync_upto_selection_def sync_finish_def no_changes_def)

lemma sync_finish_snd [simp]:
  "m_sceneDirty (snd (sync_finish p)) = False"
  "m_changeTracker (snd (sync_finish p)) = m_changeTracker (snd p)"
  "q_ptr (snd (sync_finish p)) = q_ptr (snd p)"
  "m_viewport (snd (sync_finish p)) = m_viewport (snd p)"
  "m_primarySubViewport (snd (sync_finish p)) = m_primarySubViewport (snd p)"
  "m_secondarySubViewport (snd (sync_finish p)) = m_secondarySubViewport (snd p)"
  "m_isSecondarySubviewOnTop (snd (sync_finish p)) = m_isSecondarySubviewOnTop (snd p)"
  "m_devicePixelRatio (snd (sync_finish p)) = m_devicePixelRatio (snd p)"
  "m_camera (snd (sync_finish p)) = m_camera (snd p)"
  "m_light (snd (sync_finish p)) = m_light (snd p)"
  "m_isSlicingActive (snd (sync_finish p)) = m_isSlicingActive (snd p)"
  "m_selectionQueryPosition (snd (sync_finish p)) = m_selectionQueryPosition (snd p)"
  "m_windowSize (snd (sync_finish p)) = m_windowSize (snd p)"
  by (simp_all add: sync_finish_def)

lemma sync_blocks_snd_attributes:
  "m_sceneDirty (snd (sync_blocks (s, t))) = False"
  "m_camera (snd (sync_blocks (s, t))) = m_camera t"
  "m_light (snd (sync_blocks (s, t))) = m_light t"
  "m_windowSize (snd (sync_blocks (s, t))) =
     (if windowSizeChanged (m_changeTracker s) then m_windowSize s else m_windowSize t)"
  "m_viewport (snd (sync_blocks (s, t))) =
     (if viewportChanged (m_changeTracker s) then m_viewport s else m_viewport t)"
  "m_isSecondarySubviewOnTop (snd (sync_blocks (s, t))) =
     (if subViewportOrderChanged (m_changeTracker s) then m_isSecondarySubviewOnTop s
      else m_isSecondarySubviewOnTop t)"
  "m_selectionQueryPosition (snd (sync_blocks (s, t))) =
     (if selectionQueryPositionChanged (m_changeTracker s) then m_selectionQueryPosition s
      else m_selectionQueryPosition t)"
  "m_isSlicingActive (snd (sync_blocks (s, t))) =
     (if slicingActivatedChanged (m_changeTracker s) then m_isSlicingActive s
      else m_isSlicingActive t)"
  "m_devicePixelRatio (snd (sync_blocks (s, t))) =
     (if devicePixelRatioChanged (m_changeTracker s) then m_devicePixelRatio s
      else m_devicePixelRatio t)"
  by (simp_all add: sync_blocks_def sync_upto_selection_def)

lemma sync_blocks_snd_flags:
  "windowSizeChanged (m_changeTracker (snd (sync_blocks (s, t)))) =
     (if windowSizeChanged (m_changeTracker s) then False
      else windowSizeChanged (m_changeTracker t))"
  "subViewportOrderChanged (m_changeTracker (snd (sync_blocks (s, t)))) =
     (if subViewportOrderChanged (m_changeTracker s) then False
      else subViewportOrderChanged (m_changeTracker t))"
  "selectionQueryPositionChanged (m_changeTracker (snd (sync_blocks (s, t)))) =
     (if selectionQueryPositionChanged (m_changeTracker s) then False
      else selectionQueryPositionChanged (m_changeTracker t))"
  "cameraChanged (m_changeTracker (snd (sync_blocks (s, t)))) =
     (if cameraChanged (m_changeTracker s) then False else cameraChanged (m_changeTracker t))"
  "lightChanged (m_changeTracker (snd (sync_blocks (s, t)))) =
     (if lightChanged (m_changeTracker s) then False else lightChanged (m_changeTracker t))"
  "slicingActivatedChanged (m_changeTracker (snd (sync_blocks (s, t)))) =
     (if slicingActivatedChanged (m_changeTracker s) then False
      else slicingActivatedChanged (m_changeTracker t))"
  "devicePixelRatioChanged (m_changeTracker (snd (sync_blocks (s, t)))) =
     (if devicePixelRatioChanged (m_changeTracker s) then False
      else devicePixelRatioChanged (m_changeTracker t))"
  by (simp_all add: sync_blocks_def sync_upto_selection_def)


lemma sync_slicingActivated_keeps:
  assumes "\<not> slicingActivatedChanged (m_changeTracker (fst p))
           \<or> m_isSlicingActive (fst p) = m_isSlicingActive (snd p)"
  shows "m_primarySubViewport (snd (sync_slicingActivated p)) = m_primarySubViewport (snd p)"
    and "m_secondarySubViewport (snd (sync_slicingActivated p)) = m_secondarySubViewport (snd p)"
  using assms sync_slicingActivated_idle [of p] sync_slicingActivated_same [of p]
  by auto

lemma sync_viewport_keeps:
  assumes "\<not> viewportChanged (m_changeTracker (fst p)) \<or> m_viewport (fst p) = m_viewport (snd p)"
  shows "m_primarySubViewport (snd (sync_viewport p)) = m_primarySubViewport (snd p)"
    and "m_secondarySubViewport (snd (sync_viewport p)) = m_secondarySubViewport (snd p)"
  using assms sync_viewport_idle [of p] sync_viewport_same [of p]
  by auto

lemma sync_blocks_clipRect:
  "clipRect (snd (sync_blocks (s, t))) =
     clipRect (snd (sync_subViewportOrder (sync_viewport (sync_windowSize (s, t)))))"
  by (simp add: clipRect_def sync_blocks_snd_attributes)

lemma sync_blocks_subViewports_flagged:
  assumes "\<not> slicingActivatedChanged (m_changeTracker s)
           \<or> m_isSlicingActive s = m_isSlicingActive t"
  shows "primarySubViewportChanged (m_changeTracker s) \<Longrightarrow>
           m_primarySubViewport (snd (sync_blocks (s, t)))
             = intersected (m_primarySubViewport s) (clipRect (snd (sync_blocks (s, t))))"
    and "secondarySubViewportChanged (m_changeTracker s) \<Longrightarrow>
           m_secondarySubViewport (snd (sync_blocks (s, t)))
             = intersected (m_secondarySubViewport s) (clipRect (snd (sync_blocks (s, t))))"
proof -
  let ?p = "sync_light (sync_camera (sync_upto_selection (s, t)))"
  have k: "\<not> slicingActivatedChanged (m_changeTracker (fst ?p))
           \<or> m_isSlicingActive (fst ?p) = m_isSlicingActive (snd ?p)"
    using assms by (simp add: sync_upto_selection_def)
  have a: "m_primarySubViewport (snd (sync_blocks (s, t))) = m_primarySubViewport (snd ?p)"
    "m_secondarySubViewport (snd (sync_blocks (s, t))) = m_secondarySubViewport (snd ?p)"
    by (simp_all add: sync_blocks_def sync_slicingActivated_keeps [OF k])
  show "primarySubViewportChanged (m_changeTracker s) \<Longrightarrow>
           m_primarySubViewport (snd (sync_blocks (s, t)))
             = intersected (m_primarySubViewport s) (clipRect (snd (sync_blocks (s, t))))"
    unfolding a sync_blocks_clipRect by (simp add: sync_upto_selection_def)
  show "secondarySubViewportChanged (m_changeTracker s) \<Longrightarrow>
           m_secondarySubViewport (snd (sync_blocks (s, t)))
             = intersected (m_secondarySubViewport s) (clipRect (snd (sync_blocks (s, t))))"
    unfolding a sync_blocks_clipRect by (simp add: sync_upto_selection_def clipRect_def)
qed

lemma sync_blocks_subViewports_unflagged:
  assumes "\<not> slicingActivatedChanged (m_changeTracker s)
           \<or> m_isSlicingActive s = m_isSlicingActive t"
    and "\<not> viewportChanged (m_changeTracker s) \<or> m_viewport s = m_viewport t"
  shows "\<not> primarySubViewportChanged (m_changeTracker s) \<Longrightarrow>
           m_primarySubViewport (snd (sync_blocks (s, t))) = m_primarySubViewport t"
    and "\<not> secondarySubViewportChanged (m_changeTracker s) \<Longrightarrow>
           m_secondarySubViewport (snd (sync_blocks (s, t))) = m_secondarySubViewport t"
proof -
  let ?p = "sync_light (sync_camera (sync_upto_selection (s, t)))"
  let ?q = "sync_windowSize (s, t)"
  have k: "\<not> slicingActivatedChanged (m_changeTracker (fst ?p))
           \<or> m_isSlicingActive (fst ?p) = m_isSlicingActive (snd ?p)"
    using assms(1) by (simp add: sync_upto_selection_def)
  have v: "\<not> viewportChanged (m_changeTracker (fst ?q)) \<or> m_viewport (fst ?q) = m_viewport (snd ?q)"
    using assms(2) by simp
  have a: "m_primarySubViewport (snd (sync_blocks (s, t))) = m_primarySubViewport (snd ?p)"
    "m_secondarySubViewport (snd (sync_blocks (s, t))) = m_secondarySubViewport (snd ?p)"
    by (simp_all add: sync_blocks_def sync_slicingActivated_keeps [OF k])
  show "\<not> primarySubViewportChanged (m_changeTracker s) \<Longrightarrow>
           m_primarySubViewport (snd (sync_blocks (s, t))) = m_primarySubViewport t"
    unfolding a by (simp add: sync_upto_selection_def sync_viewport_keeps [OF v])
  show "\<not> secondarySubViewportChanged (m_changeTracker s) \<Longrightarrow>
           m_secondarySubViewport (snd (sync_blocks (s, t))) = m_secondarySubViewport t"
    unfolding a by (simp add: sync_upto_selection_def sync_viewport_keeps [OF v])
qed

lemma sync_finish_idle:
  "\<not> m_sceneDirty (fst p) \<Longrightarrow> \<not> m_sceneDirty (snd p) \<Longrightarrow> sync_finish p = p"
  by (simp add: sync_finish_def prod_eq_iff)

lemma sync_blocks_idle:
  assumes "m_changeTracker (fst p) = no_changes"
  shows "sync_blocks p = sync_finish p"
proof -
  have f: "\<not> windowSizeChanged (m_changeTracker (fst p))"
    "\<not> viewportChanged (m_changeTracker (fst p))"
    "\<not> subViewportOrderChanged (m_changeTracker (fst p))"
    "\<not> primarySubViewportChanged (m_changeTracker (fst p))"
    "\<not> secondarySubViewportChanged (m_changeTracker (fst p))"
    "\<not> selectionQueryPositionChanged (m_changeTracker (fst p))"
    "\<not> cameraChanged (m_changeTracker (fst p))"
    "\<not> lightChanged (m_changeTracker (fst p))"
    "\<not> slicingActivatedChanged (m_changeTracker (fst p))"
    "\<not> devicePixelRatioChanged (m_changeTracker (fst p))"
    by (simp_all add: assms no_changes_def)
  show ?thesis
    unfolding sync_blocks_def sync_upto_selection_def
    by (simp only: f sync_windowSize_idle sync_viewport_idle sync_subViewportOrder_idle
        sync_primarySubViewport_idle sync_secondarySubViewport_idle
        sync_selectionQueryPosition_idle sync_camera_idle sync_light_idle
        sync_slicingActivated_idle sync_devicePixelRatio_idle not_False_eq_True)
qed

lemma sync_blocks_twice: "sync_blocks (sync_blocks p) = sync_blocks p"
proof -
  have "m_changeTracker (fst (sync_blocks p)) = no_changes"
    by (simp add: sync_blocks_fst)
  then have "sync_blocks (sync_blocks p) = sync_finish (sync_blocks p)"
    by (rule sync_blocks_idle)
  also have "\<dots> = sync_blocks p"
  proof (rule sync_finish_idle)
    show "\<not> m_sceneDirty (fst (sync_blocks p))" by (simp add: sync_blocks_fst)
    show "\<not> m_sceneDirty (snd (sync_blocks p))" by (simp add: sync_blocks_def)
  qed
  finally show ?thesis .
qed

lemma sync_again:
  assumes "sync s t = Inr (s', t')"
  shows "sync s' t' = Inr (s', t')"
proof -
  from assms have n: "m_camera s \<noteq> None" "m_camera t \<noteq> None" "m_light s \<noteq> None"
    "m_light t \<noteq> None"
    and r: "sync_blocks (s, t) = (s', t')"
    by (auto simp: sync_eq split: if_splits)
  have s': "s' = fst (sync_blocks (s, t))" and t': "t' = snd (sync_blocks (s, t))"
    by (simp_all add: r)
  have "m_camera s' = m_camera s" "m_light s' = m_light s"
    "m_camera t' = m_camera t" "m_light t' = m_light t"
    unfolding s' t' by (simp_all add: sync_blocks_fst sync_blocks_snd_attributes)
  with n have "sync s' t' = Inr (sync_blocks (s', t'))"
    by (simp add: sync_eq)
  also have "sync_blocks (s', t') = (s', t')"
    using sync_blocks_twice [of "(s, t)"] by (simp add: r)
  finally show ?thesis .
qed


lemma primarySubViewportChanged_setPrimarySubViewport:
  "primarySubViewportChanged (m_changeTracker (setPrimarySubViewport R s)) =
     (if m_primarySubViewport s \<noteq> intersected R (clipRect s) then True
      else primarySubViewportChanged (m_changeTracker s))"
  by (simp add: setPrimarySubViewport_def clipRect_def Let_def)

lemma scene_other_fields:
  "m_camera scene_other = Some 12" "m_light scene_other = Some 13"
  "m_viewport scene_other = QRect_default" "m_primarySubViewport scene_other = QRect_default"
  "m_secondarySubViewport scene_other = QRect_default"
  "m_isSlicingActive scene_other = False" "m_devicePixelRatio scene_other = 1"
  "m_windowSize scene_other = QSize_default"
  "m_selectionQueryPosition scene_other = invalidSelectionPoint"
  "m_changeTracker scene_other = no_changes"
  by (simp_all add: scene_other_def Q3DScenePrivate_ctor_def)

lemma scene_800x600_fields:
  "m_camera scene_800x600 = Some 2" "m_light scene_800x600 = Some 3"
  "m_viewport scene_800x600 = QRect_ctor 0 0 800 600"
  "m_primarySubViewport scene_800x600 = QRect_ctor 0 0 800 600"
  "m_secondarySubViewport scene_800x600 = QRect_default"
  "m_isSlicingActive scene_800x600 = False" "m_devicePixelRatio scene_800x600 = 1"
  "m_windowSize scene_800x600 = QSize_ctor 800 600"
  "m_selectionQueryPosition scene_800x600 = invalidSelectionPoint"
  "m_changeTracker scene_800x600 =
     no_changes\<lparr>viewportChanged := True, primarySubViewportChanged := True,
       windowSizeChanged := True\<rparr>"
  by (simp_all add: scene_800x600_eq)

text \<open>
  Claim C1, as stated, fails where copying one attribute makes the other scene
  recompute another: the caller has the viewport flag pending and no other, the other
  scene is new. \<open>sync\<close> copies the viewport with \<open>setViewport\<close>, which lays out the
  sub-viewports of the other scene anew, so the primary sub-viewport of the other scene
  changes from the null rectangle to \<open>(0, 0, 800, 600)\<close> although its flag is not set in
  the caller, and the flag of the primary sub-viewport is set in the other scene after
  the call.
\<close>

theorem sync_changes_unflagged_subViewport:
  "sync scene_viewport_flagged scene_other
     = Inr (sync_blocks (scene_viewport_flagged, scene_other))
   \<and> \<not> primarySubViewportChanged (m_changeTracker scene_viewport_flagged)
   \<and> m_primarySubViewport scene_other = QRect_default
   \<and> m_primarySubViewport (snd (projr (sync scene_viewport_flagged scene_other)))
       = QRect_ctor 0 0 800 600
   \<and> QRect_ctor 0 0 800 600 \<noteq> QRect_default
   \<and> primarySubViewportChanged
        (m_changeTracker (snd (projr (sync scene_viewport_flagged scene_other))))"
proof -
  let ?c = scene_viewport_flagged
  have c: "m_camera ?c = Some 2" "m_light ?c = Some 3" "m_viewport ?c = QRect_ctor 0 0 800 600"
    "m_changeTracker ?c = no_changes\<lparr>viewportChanged := True\<rparr>"
    by (simp_all add: scene_viewport_flagged_def scene_800x600_fields)
  have r: "sync ?c scene_other = Inr (sync_blocks (?c, scene_other))"
    by (simp add: sync_eq c scene_other_fields)
  have b: "sync_blocks (?c, scene_other) = sync_finish (sync_viewport (?c, scene_other))"
    unfolding sync_blocks_def sync_upto_selection_def
    by (simp add: c no_changes_def sync_windowSize_idle sync_subViewportOrder_idle
        sync_primarySubViewport_idle sync_secondarySubViewport_idle
        sync_selectionQueryPosition_idle sync_camera_idle sync_light_idle
        sync_slicingActivated_idle sync_devicePixelRatio_idle)
  have i: "intersected (QRect_ctor 0 0 800 600) (QRect_ctor 0 0 800 600) = QRect_ctor 0 0 800 600"
    by (simp add: intersected_origin_inner)
  have d: "QRect_ctor 0 0 800 600 \<noteq> QRect_default"
    by (simp add: QRect_ctor_def QRect_default_def)
  have v: "snd (sync_viewport (?c, scene_other))
           = (setViewport (QRect_ctor 0 0 800 600) scene_other)
               \<lparr>m_changeTracker :=
                  (m_changeTracker (setViewport (QRect_ctor 0 0 800 600) scene_other))
                    \<lparr>viewportChanged := False\<rparr>\<rparr>"
    by (simp add: sync_viewport_def Let_def c no_changes_def)
  have sv: "setViewport (QRect_ctor 0 0 800 600) scene_other
            = emit NeedRender
                (calculateSubViewports (scene_other\<lparr>m_viewport := QRect_ctor 0 0 800 600\<rparr>))"
    using d by (simp add: setViewport_def scene_other_fields)
  have p: "m_primarySubViewport (snd (sync_blocks (?c, scene_other))) = QRect_ctor 0 0 800 600"
    unfolding b
    by (simp add: v sv m_primarySubViewport_calculateSubViewports scene_other_fields clipRect_def
        QRect_ctor_simps i)
  have f: "primarySubViewportChanged (m_changeTracker (snd (sync_blocks (?c, scene_other))))"
    unfolding b
    using d
    by (simp add: v sv calculateSubViewports_def Let_def scene_other_fields
        primarySubViewportChanged_setPrimarySubViewport clipRect_def QRect_ctor_simps i)
  show ?thesis
    by (simp add: r p f d c no_changes_def scene_other_fields)
qed

text \<open>
  Claim C1, amended. For scenes whose camera and light pointers are not null,
  \<open>sync\<close> returns, and:
  \<^item> in the caller every dirty flag and the scene-dirty marker are clear afterwards and
    nothing else has changed; the scene-dirty marker of the other scene is clear;
  \<^item> window size, viewport, sub-viewport order, selection query position, slicing flag
    and device pixel ratio of the other scene are the caller's where the caller's flag
    was set, and unchanged where it was not;
  \<^item> provided the call does not change the slicing flag of the other scene, a primary
    or secondary sub-viewport whose flag was set is stored in the other scene clipped to
    that scene's viewport box; provided the call changes neither the slicing flag nor
    the viewport of the other scene, a sub-viewport whose flag was not set is unchanged;
  \<^item> each of the other scene's flags for window size, sub-viewport order, selection
    query position, camera, light, slicing and device pixel ratio is clear where the
    caller's flag was set, and unchanged where it was not.
\<close>

theorem sync_copies_flagged_attributes:
  "m_camera s \<noteq> None \<and> m_camera t \<noteq> None \<and> m_light s \<noteq> None \<and> m_light t \<noteq> None \<longrightarrow>
   (\<exists>s' t'. sync s t = Inr (s', t')
      \<and> s' = s\<lparr>m_changeTracker := no_changes, m_sceneDirty := False\<rparr>
      \<and> m_sceneDirty t' = False
      \<and> m_windowSize t' =
          (if windowSizeChanged (m_changeTracker s) then m_windowSize s else m_windowSize t)
      \<and> m_viewport t' =
          (if viewportChanged (m_changeTracker s) then m_viewport s else m_viewport t)
      \<and> m_isSecondarySubviewOnTop t' =
          (if subViewportOrderChanged (m_changeTracker s) then m_isSecondarySubviewOnTop s
           else m_isSecondarySubviewOnTop t)
      \<and> m_selectionQueryPosition t' =
          (if selectionQueryPositionChanged (m_changeTracker s) then m_selectionQueryPosition s
           else m_selectionQueryPosition t)
      \<and> m_isSlicingActive t' =
          (if slicingActivatedChanged (m_changeTracker s) then m_isSlicingActive s
           else m_isSlicingActive t)
      \<and> m_devicePixelRatio t' =
          (if devicePixelRatioChanged (m_changeTracker s) then m_devicePixelRatio s
           else m_devicePixelRatio t)
      \<and> (\<not> slicingActivatedChanged (m_changeTracker s)
           \<or> m_isSlicingActive s = m_isSlicingActive t \<longrightarrow>
          (primarySubViewportChanged (m_changeTracker s) \<longrightarrow>
             m_primarySubViewport t' = intersected (m_primarySubViewport s) (clipRect t'))
          \<and> (secondarySubViewportChanged (m_changeTracker s) \<longrightarrow>
             m_secondarySubViewport t' = intersected (m_secondarySubViewport s) (clipRect t'))
          \<and> (\<not> viewportChanged (m_changeTracker s) \<or> m_viewport s = m_viewport t \<longrightarrow>
               (\<not> primarySubViewportChanged (m_changeTracker s) \<longrightarrow>
                  m_primarySubViewport t' = m_primarySubViewport t)
               \<and> (\<not> secondarySubViewportChanged (m_changeTracker s) \<longrightarrow>
                  m_secondarySubViewport t' = m_secondarySubViewport t)))
      \<and> windowSizeChanged (m_changeTracker t') =
          (if windowSizeChanged (m_changeTracker s) then False
           else windowSizeChanged (m_changeTracker t))
      \<and> subViewportOrderChanged (m_changeTracker t') =
          (if subViewportOrderChanged (m_changeTracker s) then False
           else subViewportOrderChanged (m_changeTracker t))
      \<and> selectionQueryPositionChanged (m_changeTracker t') =
          (if selectionQueryPositionChanged (m_changeTracker s) then False
           else selectionQueryPositionChanged (m_changeTracker t))
      \<and> cameraChanged (m_changeTracker t') =
          (if cameraChanged (m_changeTracker s) then False
           else cameraChanged (m_changeTracker t))
      \<and> lightChanged (m_changeTracker t') =
          (if lightChanged (m_changeTracker s) then False else lightChanged (m_changeTracker t))
      \<and> slicingActivatedChanged (m_changeTracker t') =
          (if slicingActivatedChanged (m_changeTracker s) then False
           else slicingActivatedChanged (m_changeTracker t))
      \<and> devicePixelRatioChanged (m_changeTracker t') =
          (if devicePixelRatioChanged (m_changeTracker s) then False
           else devicePixelRatioChanged (m_changeTracker t)))"
proof
  assume n: "m_camera s \<noteq> None \<and> m_camera t \<noteq> None \<and> m_light s \<noteq> None \<and> m_light t \<noteq> None"
  let ?s' = "fst (sync_blocks (s, t))"
  let ?t' = "snd (sync_blocks (s, t))"
  have r: "sync s t = Inr (?s', ?t')"
    using n by (simp add: sync_eq)
  have c: "?s' = s\<lparr>m_changeTracker := no_changes, m_sceneDirty := False\<rparr>"
    by (simp add: sync_blocks_fst)
  have sub:
    "\<not> slicingActivatedChanged (m_changeTracker s)
       \<or> m_isSlicingActive s = m_isSlicingActive t \<longrightarrow>
     (primarySubViewportChanged (m_changeTracker s) \<longrightarrow>
        m_primarySubViewport ?t' = intersected (m_primarySubViewport s) (clipRect ?t'))
     \<and> (secondarySubViewportChanged (m_changeTracker s) \<longrightarrow>
        m_secondarySubViewport ?t' = intersected (m_secondarySubViewport s) (clipRect ?t'))
     \<and> (\<not> viewportChanged (m_changeTracker s) \<or> m_viewport s = m_viewport t \<longrightarrow>
          (\<not> primarySubViewportChanged (m_changeTracker s) \<longrightarrow>
             m_primarySubViewport ?t' = m_primarySubViewport t)
          \<and> (\<not> secondarySubViewportChanged (m_changeTracker s) \<longrightarrow>
             m_secondarySubViewport ?t' = m_secondarySubViewport t))"
    using sync_blocks_subViewports_flagged [of s t] sync_blocks_subViewports_unflagged [of s t]
    by blast
  show "\<exists>s' t'. sync s t = Inr (s', t')
      \<and> s' = s\<lparr>m_changeTracker := no_changes, m_sceneDirty := False\<rparr>
      \<and> m_sceneDirty t' = False
      \<and> m_windowSize t' =
          (if windowSizeChanged (m_changeTracker s) then m_windowSize s else m_windowSize t)
      \<and> m_viewport t' =
          (if viewportChanged (m_changeTracker s) then m_viewport s else m_viewport t)
      \<and> m_isSecondarySubviewOnTop t' =
          (if subViewportOrderChanged (m_changeTracker s) then m_isSecondarySubviewOnTop s
           else m_isSecondarySubviewOnTop t)
      \<and> m_selectionQueryPosition t' =
          (if selectionQueryPositionChanged (m_changeTracker s) then m_selectionQueryPosition s
           else m_selectionQueryPosition t)
      \<and> m_isSlicingActive t' =
          (if slicingActivatedChanged (m_changeTracker s) then m_isSlicingActive s
           else m_isSlicingActive t)
      \<and> m_devicePixelRatio t' =
          (if devicePixelRatioChanged (m_changeTracker s) then m_devicePixelRatio s
           else m_devicePixelRatio t)
      \<and> (\<not> slicingActivatedChanged (m_changeTracker s)
           \<or> m_isSlicingActive s = m_isSlicingActive t \<longrightarrow>
          (primarySubViewportChanged (m_changeTracker s) \<longrightarrow>
             m_primarySubViewport t' = intersected (m_primarySubViewport s) (clipRect t'))
          \<and> (secondarySubViewportChanged (m_changeTracker s) \<longrightarrow>
             m_secondarySubViewport t' = intersected (m_secondarySubViewport s) (clipRect t'))
          \<and> (\<not> viewportChanged (m_changeTracker s) \<or> m_viewport s = m_viewport t \<longrightarrow>
               (\<not> primarySubViewportChanged (m_changeTracker s) \<longrightarrow>
                  m_primarySubViewport t' = m_primarySubViewport t)
               \<and> (\<not> secondarySubViewportChanged (m_changeTracker s) \<longrightarrow>
                  m_secondarySubViewport t' = m_secondarySubViewport t)))
      \<and> windowSizeChanged (m_changeTracker t') =
          (if windowSizeChanged (m_changeTracker s) then False
           else windowSizeChanged (m_changeTracker t))
      \<and> subViewportOrderChanged (m_changeTracker t') =
          (if subViewportOrderChanged (m_changeTracker s) then False
           else subViewportOrderChanged (m_changeTracker t))
      \<and> selectionQueryPositionChanged (m_changeTracker t') =
          (if selectionQueryPositionChanged (m_changeTracker s) then False
           else selectionQueryPositionChanged (m_changeTracker t))
      \<and> cameraChanged (m_changeTracker t') =
          (if cameraChanged (m_changeTracker s) then False
           else cameraChanged (m_changeTracker t))
      \<and> lightChanged (m_changeTracker t') =
          (if lightChanged (m_changeTracker s) then False else lightChanged (m_changeTracker t))
      \<and> slicingActivatedChanged (m_changeTracker t') =
          (if slicingActivatedChanged (m_changeTracker s) then False
           else slicingActivatedChanged (m_changeTracker t))
      \<and> devicePixelRatioChanged (m_changeTracker t') =
          (if devicePixelRatioChanged (m_changeTracker s) then False
           else devicePixelRatioChanged (m_changeTracker t))"
    by (intro exI [of _ ?s'] exI [of _ ?t'] conjI r c sub sync_blocks_snd_attributes
        sync_blocks_snd_flags)
qed


lemma scene_selecting_fields:
  "m_camera scene_selecting = Some 2" "m_light scene_selecting = Some 3"
  "m_viewport scene_selecting = QRect_ctor 0 0 800 600"
  "m_isSlicingActive scene_selecting = False"
  "m_selectionQueryPosition scene_selecting = QPoint_ctor 5 5"
  "m_changeTracker scene_selecting = no_changes\<lparr>selectionQueryPositionChanged := True\<rparr>"
  by (simp_all add: scene_selecting_def scene_synced_def scene_800x600_fields
      setSelectionQueryPosition_def Let_def emit_def invalidSelectionPoint_def QPoint_ctor_def)

theorem sync_copies_flagged_attributes_witness:
  "(\<exists>s' t'. sync scene_800x600 scene_other = Inr (s', t')
      \<and> s' = scene_synced
      \<and> m_windowSize t' = QSize_ctor 800 600
      \<and> m_viewport t' = QRect_ctor 0 0 800 600
      \<and> m_primarySubViewport t' = QRect_ctor 0 0 800 600
      \<and> m_devicePixelRatio t' = 1
      \<and> \<not> windowSizeChanged (m_changeTracker t'))
   \<and> (\<exists>s' t'. sync scene_selecting scene_other = Inr (s', t')
      \<and> m_selectionQueryPosition t' = QPoint_ctor 5 5
      \<and> m_viewport t' = QRect_default
      \<and> m_primarySubViewport t' = QRect_default
      \<and> m_secondarySubViewport t' = QRect_default
      \<and> \<not> selectionQueryPositionChanged (m_changeTracker t'))"
proof -
  have i: "intersected (QRect_ctor 0 0 800 600) (QRect_ctor 0 0 800 600) = QRect_ctor 0 0 800 600"
    by (simp add: intersected_origin_inner)
  from sync_copies_flagged_attributes [of scene_800x600 scene_other]
  have a: "\<exists>s' t'. sync scene_800x600 scene_other = Inr (s', t')
      \<and> s' = scene_synced
      \<and> m_windowSize t' = QSize_ctor 800 600
      \<and> m_viewport t' = QRect_ctor 0 0 800 600
      \<and> m_primarySubViewport t' = QRect_ctor 0 0 800 600
      \<and> m_devicePixelRatio t' = 1
      \<and> \<not> windowSizeChanged (m_changeTracker t')"
    by (auto simp: scene_800x600_fields scene_other_fields no_changes_def scene_synced_def
        clipRect_def QRect_ctor_simps i)
  from sync_copies_flagged_attributes [of scene_selecting scene_other]
  have b: "\<exists>s' t'. sync scene_selecting scene_other = Inr (s', t')
      \<and> m_selectionQueryPosition t' = QPoint_ctor 5 5
      \<and> m_viewport t' = QRect_default
      \<and> m_primarySubViewport t' = QRect_default
      \<and> m_secondarySubViewport t' = QRect_default
      \<and> \<not> selectionQueryPositionChanged (m_changeTracker t')"
    by (auto simp: scene_selecting_fields scene_other_fields no_changes_def)
  from a b show ?thesis by (rule conjI)
qed

text \<open>
  Claim C7. Where \<open>sync\<close> from \<open>s\<close> to \<open>t\<close> returns (as it does whenever the camera
  and light pointers of both scenes are not null), running it again at once on the two
  resulting states returns the very same two states: nothing is copied, no flag
  changes, no signal is emitted.
\<close>

theorem sync_twice_is_noop:
  "(m_camera s \<noteq> None \<and> m_camera t \<noteq> None \<and> m_light s \<noteq> None \<and> m_light t \<noteq> None \<longrightarrow>
      (\<exists>s' t'. sync s t = Inr (s', t')))
   \<and> (\<forall>s' t'. sync s t = Inr (s', t') \<longrightarrow> sync s' t' = Inr (s', t'))"
proof (intro conjI impI allI)
  assume "m_camera s \<noteq> None \<and> m_camera t \<noteq> None \<and> m_light s \<noteq> None \<and> m_light t \<noteq> None"
  then have "sync s t = Inr (fst (sync_blocks (s, t)), snd (sync_blocks (s, t)))"
    by (simp add: sync_eq)
  then show "\<exists>s' t'. sync s t = Inr (s', t')" by blast
next
  fix s' t'
  assume "sync s t = Inr (s', t')"
  then show "sync s' t' = Inr (s', t')" by (rule sync_again)
qed

theorem sync_twice_is_noop_witness:
  "\<exists>s' t'. sync scene_800x600 scene_other = Inr (s', t') \<and> sync s' t' = Inr (s', t')
      \<and> m_viewport t' = QRect_ctor 0 0 800 600 \<and> m_changeTracker s' = no_changes"
proof -
  have n: "m_camera scene_800x600 \<noteq> None \<and> m_camera scene_other \<noteq> None
           \<and> m_light scene_800x600 \<noteq> None \<and> m_light scene_other \<noteq> None"
    by (simp add: scene_800x600_fields scene_other_fields)
  note t = sync_twice_is_noop [of scene_800x600 scene_other]
  from t n obtain s' t' where r: "sync scene_800x600 scene_other = Inr (s', t')"
    by blast
  with t have again: "sync s' t' = Inr (s', t')" by blast
  from r n have "(s', t') = sync_blocks (scene_800x600, scene_other)"
    by (simp add: sync_eq)
  then have "s' = fst (sync_blocks (scene_800x600, scene_other))"
    "t' = snd (sync_blocks (scene_800x600, scene_other))"
    by (simp_all add: prod_eq_iff)
  then have "m_viewport t' = QRect_ctor 0 0 800 600" "m_changeTracker s' = no_changes"
    by (simp_all add: sync_blocks_snd_attributes sync_blocks_fst scene_800x600_fields
        no_changes_def)
  with r again show ?thesis by blast
qed

end
